theory Spec2Isabelle
  imports Complex_Main
begin

section \<open>Values of the source language\<close>

text \<open>
  Strings are sequences of UTF-16 code units, as in the source language; a code unit is a
  natural number. \<open>str\<close> turns an ASCII literal into such a sequence.
\<close>

type_synonym jschar = nat
type_synonym jsstring = "nat list"

definition str :: "string \<Rightarrow> jsstring" where
  "str cs = map of_char cs"

text \<open>
  Numbers are IEEE 754 doubles. A finite double is kept as the real number it denotes;
  \<open>dbl\<close> rounds a real number to the nearest double, a tie going to the even significand
  and a value beyond the largest double to an infinity, and every arithmetic operation, every
  literal and every number read from text is rounded by it. Below the smallest normal
  double the spacing stays \<open>2^-1074\<close>. The sign of zero is not kept.
\<close>

datatype jsnum = Fin real | PosInf | NegInf | NaN

definition pow2 :: "int \<Rightarrow> real" where
  "pow2 e = (if 0 \<le> e then 2 ^ nat e else 1 / 2 ^ nat (- e))"

text \<open>The binary exponent \<open>\<lfloor>log\<^sub>2 x\<rfloor>\<close> of a positive real.\<close>

function lg_hi :: "real \<Rightarrow> int" where
  "lg_hi x = (if x < 2 then 0 else 1 + lg_hi (x / 2))"
  by auto
termination
proof (relation "measure (\<lambda>x. nat \<lfloor>x\<rfloor>)")
  show "wf (measure (\<lambda>x::real. nat \<lfloor>x\<rfloor>))" by simp
next
  fix x :: real
  assume a: "\<not> x < 2"
  then have "\<lfloor>x / 2\<rfloor> \<le> \<lfloor>x - 1\<rfloor>" by (intro floor_mono) simp
  moreover have "2 \<le> \<lfloor>x\<rfloor>" using a by (simp add: le_floor_iff)
  ultimately show "(x / 2, x) \<in> measure (\<lambda>x. nat \<lfloor>x\<rfloor>)" by simp
qed

function lg_lo :: "real \<Rightarrow> int" where
  "lg_lo x = (if 1 \<le> x \<or> x \<le> 0 then 0 else lg_lo (2 * x) - 1)"
  by auto
termination
proof (relation "measure (\<lambda>x. nat \<lfloor>1 / x\<rfloor>)")
  show "wf (measure (\<lambda>x::real. nat \<lfloor>1 / x\<rfloor>))" by simp
next
  fix x :: real
  assume a: "\<not> (1 \<le> x \<or> x \<le> 0)"
  define y where "y = 1 / x"
  from a have "1 < y" by (simp add: y_def)
  then have k: "1 \<le> \<lfloor>y\<rfloor>" by (simp add: le_floor_iff)
  then have "1 \<le> (of_int \<lfloor>y\<rfloor> :: real)" by simp
  moreover have "y < of_int \<lfloor>y\<rfloor> + 1" by linarith
  ultimately have "y / 2 < of_int \<lfloor>y\<rfloor>" by linarith
  then have "\<lfloor>y / 2\<rfloor> < \<lfloor>y\<rfloor>" by (simp add: floor_less_iff)
  with k have "nat \<lfloor>y / 2\<rfloor> < nat \<lfloor>y\<rfloor>" by linarith
  moreover have "1 / (2 * x) = y / 2" by (simp add: y_def)
  ultimately have "nat \<lfloor>1 / (2 * x)\<rfloor> < nat \<lfloor>1 / x\<rfloor>"
    by (simp only: y_def)
  then show "(2 * x, x) \<in> measure (\<lambda>x. nat \<lfloor>1 / x\<rfloor>)"
    unfolding in_measure .
qed

declare lg_hi.simps [simp del]
declare lg_lo.simps [simp del]

definition ilog2 :: "real \<Rightarrow> int" where
  "ilog2 x = (if 1 \<le> x then lg_hi x else lg_lo x)"

text \<open>The nearest integer, a tie going to the even one.\<close>

definition rne :: "real \<Rightarrow> int" where
  "rne y = (let f = \<lfloor>y\<rfloor>; r = y - of_int f in
            if r < 1 / 2 then f else if 1 / 2 < r then f + 1
            else if even f then f else f + 1)"

definition dbl :: "real \<Rightarrow> jsnum" where
  "dbl x =
     (if x = 0 then Fin 0
      else let a = \<bar>x\<bar>;
               e = max (ilog2 a) (- 1022);
               u = pow2 (e - 52);
               m = rne (a / u)
           in if 1023 < e \<or> (e = 1023 \<and> 2 ^ 53 \<le> m) then (if x < 0 then NegInf else PosInf)
              else Fin ((if x < 0 then - 1 else 1) * of_int m * u))"

fun jneg :: "jsnum \<Rightarrow> jsnum" where
  "jneg (Fin a) = Fin (- a)"
| "jneg PosInf = NegInf"
| "jneg NegInf = PosInf"
| "jneg NaN = NaN"

fun jadd :: "jsnum \<Rightarrow> jsnum \<Rightarrow> jsnum" where
  "jadd (Fin a) (Fin b) = dbl (a + b)"
| "jadd NaN _ = NaN"
| "jadd _ NaN = NaN"
| "jadd PosInf NegInf = NaN"
| "jadd NegInf PosInf = NaN"
| "jadd PosInf _ = PosInf"
| "jadd NegInf _ = NegInf"
| "jadd _ PosInf = PosInf"
| "jadd _ NegInf = NegInf"

definition jsub :: "jsnum \<Rightarrow> jsnum \<Rightarrow> jsnum" where
  "jsub a b = jadd a (jneg b)"

fun jsign :: "jsnum \<Rightarrow> int" where
  "jsign (Fin a) = (if a < 0 then - 1 else if a = 0 then 0 else 1)"
| "jsign PosInf = 1"
| "jsign NegInf = - 1"
| "jsign NaN = 0"

definition signed_inf :: "int \<Rightarrow> jsnum" where
  "signed_inf s = (if s < 0 then NegInf else PosInf)"

fun jmul :: "jsnum \<Rightarrow> jsnum \<Rightarrow> jsnum" where
  "jmul (Fin a) (Fin b) = dbl (a * b)"
| "jmul NaN _ = NaN"
| "jmul _ NaN = NaN"
| "jmul a b = (if jsign a = 0 \<or> jsign b = 0 then NaN else signed_inf (jsign a * jsign b))"

fun jdiv :: "jsnum \<Rightarrow> jsnum \<Rightarrow> jsnum" where
  "jdiv (Fin a) (Fin b) =
     (if b = 0 then (if a = 0 then NaN else signed_inf (jsign (Fin a))) else dbl (a / b))"
| "jdiv NaN _ = NaN"
| "jdiv _ NaN = NaN"
| "jdiv (Fin a) _ = Fin 0"
| "jdiv a (Fin b) = signed_inf (jsign a * (if b < 0 then - 1 else 1))"
| "jdiv _ _ = NaN"

fun jabs :: "jsnum \<Rightarrow> jsnum" where
  "jabs (Fin a) = Fin \<bar>a\<bar>"
| "jabs NaN = NaN"
| "jabs _ = PosInf"

text \<open>Comparison \<open><\<close>: false as soon as one side is NaN.\<close>

fun jlt :: "jsnum \<Rightarrow> jsnum \<Rightarrow> bool" where
  "jlt (Fin a) (Fin b) = (a < b)"
| "jlt NaN _ = False"
| "jlt _ NaN = False"
| "jlt NegInf b = (b \<noteq> NegInf)"
| "jlt a PosInf = (a \<noteq> PosInf)"
| "jlt _ _ = False"

definition jgt :: "jsnum \<Rightarrow> jsnum \<Rightarrow> bool" where
  "jgt a b = jlt b a"

text \<open>Strict equality \<open>===\<close> on numbers: NaN differs from itself.\<close>

definition jeq :: "jsnum \<Rightarrow> jsnum \<Rightarrow> bool" where
  "jeq a b = (a \<noteq> NaN \<and> a = b)"

definition jle :: "jsnum \<Rightarrow> jsnum \<Rightarrow> bool" where
  "jle a b = (jlt a b \<or> jeq a b)"

definition jge :: "jsnum \<Rightarrow> jsnum \<Rightarrow> bool" where
  "jge a b = jle b a"

definition jmax :: "jsnum \<Rightarrow> jsnum \<Rightarrow> jsnum" where
  "jmax a b = (if a = NaN \<or> b = NaN then NaN else if jlt a b then b else a)"

definition jmin :: "jsnum \<Rightarrow> jsnum \<Rightarrow> jsnum" where
  "jmin a b = (if a = NaN \<or> b = NaN then NaN else if jlt b a then b else a)"

definition isNaN :: "jsnum \<Rightarrow> bool" where
  "isNaN a = (a = NaN)"

fun isFinite :: "jsnum \<Rightarrow> bool" where
  "isFinite (Fin a) = True"
| "isFinite _ = False"

fun isInteger :: "jsnum \<Rightarrow> bool" where
  "isInteger (Fin a) = (of_int \<lfloor>a\<rfloor> = a)"
| "isInteger _ = False"

text \<open>Truthiness of a number: zero and NaN are falsy.\<close>

definition truthy_num :: "jsnum \<Rightarrow> bool" where
  "truthy_num a = (a \<noteq> NaN \<and> a \<noteq> Fin 0)"

text \<open>
  \<open>parseFloat(x.toFixed(d))\<close>. \<open>toFixed\<close> prints the multiple of \<open>10^-d\<close> nearest to
  the exact value of the double, a tie going away from zero, and \<open>parseFloat\<close> reads the
  decimal text back as a double. From \<open>10^21\<close> on \<open>toFixed\<close> prints the number as
  \<open>toString\<close> does, which reads back as the number itself, as do the special values.
\<close>

definition round_to :: "nat \<Rightarrow> real \<Rightarrow> real" where
  "round_to d a =
     (if a < 0 then - (of_int \<lfloor>(- a) * 10 ^ d + 1 / 2\<rfloor> / 10 ^ d)
      else of_int \<lfloor>a * 10 ^ d + 1 / 2\<rfloor> / 10 ^ d)"

fun toFixed :: "nat \<Rightarrow> jsnum \<Rightarrow> jsnum" where
  "toFixed d (Fin a) = (if 10 ^ 21 \<le> \<bar>a\<bar> then Fin a else dbl (round_to d a))"
| "toFixed d x = x"

section \<open>Canonical response schema\<close>

record DataLiftPart =
  itemName :: jsstring
  description :: "jsstring option"
  sku :: "jsstring option"
  partNumber :: "jsstring option"
  manufacturerPartNumber :: "jsstring option"
  quantity :: jsnum
  unit :: "jsstring option"
  unitPrice :: "jsnum option"
  discount :: "jsnum option"
  taxPercentage :: "jsnum option"
  taxAmount :: "jsnum option"
  totalAmount :: jsnum

record DataLiftTotals =
  subtotal :: "jsnum option"
  totalTax :: "jsnum option"
  shippingCost :: "jsnum option"
  totalsDiscount :: "jsnum option"
  tip :: "jsnum option"
  serviceCharge :: "jsnum option"
  amountPaid :: "jsnum option"
  balanceDue :: "jsnum option"
  grandTotal :: jsnum

text \<open>The operator \<open>??\<close> on an optional number.\<close>

definition orElse :: "'a option \<Rightarrow> 'a \<Rightarrow> 'a" where
  "orElse x d = (case x of None \<Rightarrow> d | Some v \<Rightarrow> v)"

section \<open>Confidence engine: numeric consistency\<close>

text \<open>
  \<open>ConfidenceEngine.scoreNumericConsistency\<close>. The arguments are \<open>response.totals\<close>
  and \<open>response.parts\<close>; \<open>None\<close> stands for a missing property, which the function
  guards against although the declared type requires both.
\<close>

definition partSum :: "DataLiftPart list \<Rightarrow> jsnum" where
  "partSum ps = foldl (\<lambda>s p. jadd s (totalAmount p)) (Fin 0) ps"

definition scoreNumericConsistency ::
  "DataLiftTotals option \<Rightarrow> DataLiftPart list option \<Rightarrow> jsnum" where
  "scoreNumericConsistency totals parts =
    (case totals of None \<Rightarrow> dbl (1 / 2) | Some t \<Rightarrow>
     (case parts of None \<Rightarrow> dbl (1 / 2) | Some ps \<Rightarrow>
      if length ps = 0 then dbl (1 / 2)
      else
        let sub = orElse (subtotal t) (partSum ps) in
        if jeq sub (Fin 0) \<and> jeq (grandTotal t) (Fin 0) then dbl (2 / 5)
        else
          let taxAndFees =
                jsub (jadd (jadd (jadd (orElse (totalTax t) (Fin 0))
                                       (orElse (shippingCost t) (Fin 0)))
                                 (orElse (tip t) (Fin 0)))
                           (orElse (serviceCharge t) (Fin 0)))
                     (orElse (totalsDiscount t) (Fin 0));
              reconstructed = jadd sub taxAndFees;
              g = grandTotal t
          in
          if jeq g (Fin 0) then dbl (1 / 2)
          else
            let delta = jdiv (jabs (jsub reconstructed g)) g in
            if jlt delta (dbl (1 / 100)) then Fin 1
            else if jlt delta (dbl (5 / 100)) then dbl (4 / 5)
            else if jlt delta (dbl (15 / 100)) then dbl (3 / 5)
            else dbl (3 / 10)))"

definition zeroPart :: DataLiftPart where
  "zeroPart = \<lparr> itemName = str ''Free sample'', description = None, sku = None,
      partNumber = None, manufacturerPartNumber = None, quantity = Fin 1, unit = None,
      unitPrice = None, discount = None, taxPercentage = None, taxAmount = None,
      totalAmount = Fin 0 \<rparr>"

definition zeroTotals :: DataLiftTotals where
  "zeroTotals = \<lparr> subtotal = None, totalTax = None, shippingCost = None,
      totalsDiscount = None, tip = None, serviceCharge = None, amountPaid = None,
      balanceDue = None, grandTotal = Fin 0 \<rparr>"

section \<open>Regular expressions\<close>

text \<open>
  The source is written with regular expressions. They are embedded as syntax trees with
  the backtracking semantics of the language standard: \<open>ms fl r s\<close> lists the states
  reachable from \<open>s\<close> by matching \<open>r\<close>, in the priority order of the backtracking
  matcher (left alternative first, greedy repetition first), so that the head of the list
  is the match the matcher returns. A state holds the text before the position (reversed),
  the text after it and the capture groups.
\<close>

record rxflags =
  ignoreCase :: bool
  multiline :: bool

type_synonym cset = "(nat \<times> nat) list"

datatype rx =
    Cls bool cset
  | Eps
  | Seq rx rx
  | Alt rx rx
  | Rep nat "nat option" rx
  | Grp nat rx
  | Bol
  | Eol
  | WordB
  | Ahead bool rx
  | Behind cset

record mstate =
  prev :: jsstring
  rest :: jsstring
  caps :: "nat \<Rightarrow> jsstring option"

definition in_cset :: "jschar \<Rightarrow> cset \<Rightarrow> bool" where
  "in_cset c rs = list_ex (\<lambda>(lo, hi). lo \<le> c \<and> c \<le> hi) rs"

definition ascii_upper :: "jschar \<Rightarrow> jschar" where
  "ascii_upper c = (if 97 \<le> c \<and> c \<le> 122 then c - 32 else c)"

definition ascii_lower :: "jschar \<Rightarrow> jschar" where
  "ascii_lower c = (if 65 \<le> c \<and> c \<le> 90 then c + 32 else c)"

text \<open>
  A character class \<open>Cls neg rs\<close> is a list of inclusive ranges, negated when \<open>neg\<close>
  holds. Under the flag \<open>i\<close> a character also matches through its ASCII case variants;
  the classes of the source hold no cased letter outside ASCII, and the standard never
  folds a character outside ASCII onto an ASCII one.
\<close>

definition cls_match :: "rxflags \<Rightarrow> bool \<Rightarrow> cset \<Rightarrow> jschar \<Rightarrow> bool" where
  "cls_match fl neg rs c =
     (let hit = in_cset c rs \<or>
                (ignoreCase fl \<and> (in_cset (ascii_upper c) rs \<or> in_cset (ascii_lower c) rs))
      in if neg then \<not> hit else hit)"

definition word_cs :: cset where
  "word_cs = [(48, 57), (65, 90), (95, 95), (97, 122)]"

definition digit_cs :: cset where
  "digit_cs = [(48, 57)]"

text \<open>White space \<open>\s\<close> and the line terminators, by code point.\<close>

definition space_cs :: cset where
  "space_cs = [(9, 13), (32, 32), (160, 160), (5760, 5760), (8192, 8202), (8232, 8233),
               (8239, 8239), (8287, 8287), (12288, 12288), (65279, 65279)]"

definition line_term_cs :: cset where
  "line_term_cs = [(10, 10), (13, 13), (8232, 8233)]"

text \<open>The class \<open>[^\S\n]\<close>: white space other than the line feed.\<close>

definition hspace_cs :: cset where
  "hspace_cs = [(9, 9), (11, 13), (32, 32), (160, 160), (5760, 5760), (8192, 8202),
                (8232, 8233), (8239, 8239), (8287, 8287), (12288, 12288), (65279, 65279)]"

fun at_word :: "jsstring \<Rightarrow> bool" where
  "at_word [] = False"
| "at_word (c # cs) = in_cset c word_cs"

fun at_line_term :: "jsstring \<Rightarrow> bool" where
  "at_line_term [] = True"
| "at_line_term (c # cs) = in_cset c line_term_cs"

fun grps :: "rx \<Rightarrow> nat list" where
  "grps (Grp i r) = i # grps r"
| "grps (Seq a b) = grps a @ grps b"
| "grps (Alt a b) = grps a @ grps b"
| "grps (Rep mn mx r) = grps r"
| "grps (Ahead pos r) = grps r"
| "grps _ = []"

definition clear_caps :: "nat list \<Rightarrow> mstate \<Rightarrow> mstate" where
  "clear_caps gs s = s\<lparr>caps := (\<lambda>k. if k \<in> set gs then None else caps s k)\<rparr>"

text \<open>
  Greedy repetition \<open>r{mn,mx}\<close> (\<open>mx = None\<close>: unbounded). Each round clears the groups
  of \<open>r\<close>, and a round that consumes nothing once the minimum is reached is abandoned, as
  the standard prescribes. \<open>f\<close> is the matcher of \<open>r\<close>; a result of \<open>f\<close> that would
  lengthen the remaining text is dropped, which no matcher produces.
\<close>

function rep :: "(mstate \<Rightarrow> mstate list) \<Rightarrow> nat list \<Rightarrow> nat \<Rightarrow> nat option \<Rightarrow> mstate
                 \<Rightarrow> mstate list"
  and rep_each :: "(mstate \<Rightarrow> mstate list) \<Rightarrow> nat list \<Rightarrow> nat \<Rightarrow> nat option \<Rightarrow> mstate
                 \<Rightarrow> mstate list \<Rightarrow> mstate list" where
  "rep f gs mn mx s =
     (if mx = Some 0 then [s]
      else rep_each f gs mn mx s (f (clear_caps gs s)) @ (if mn = 0 then [s] else []))"
| "rep_each f gs mn mx s [] = []"
| "rep_each f gs mn mx s (s' # ss) =
     (if length (rest s') < length (rest s) \<or> (0 < mn \<and> length (rest s') = length (rest s))
      then rep f gs (mn - 1) (map_option (\<lambda>m. m - 1) mx) s' else [])
     @ rep_each f gs mn mx s ss"
  by pat_completeness auto
termination
  by (relation "inv_image (less_than <*lex*> less_than <*lex*> less_than <*lex*> less_than)
        (\<lambda>x. case x of
           Inl (f, gs, mn, mx, s) \<Rightarrow> (length (rest s), mn, 1::nat, 0::nat)
         | Inr (f, gs, mn, mx, s, ss) \<Rightarrow> (length (rest s), mn, 0, length ss))") auto

primrec ms :: "rxflags \<Rightarrow> rx \<Rightarrow> mstate \<Rightarrow> mstate list" where
  "ms fl (Cls neg rs) s =
     (case rest s of [] \<Rightarrow> []
      | c # cs \<Rightarrow> if cls_match fl neg rs c then [s\<lparr>prev := c # prev s, rest := cs\<rparr>] else [])"
| "ms fl Eps s = [s]"
| "ms fl (Seq a b) s = concat (map (ms fl b) (ms fl a s))"
| "ms fl (Alt a b) s = ms fl a s @ ms fl b s"
| "ms fl (Rep mn mx r) s = rep (ms fl r) (grps r) mn mx s"
| "ms fl (Grp i r) s =
     map (\<lambda>s'. s'\<lparr>caps := (caps s')(i \<mapsto> take (length (rest s) - length (rest s')) (rest s))\<rparr>)
         (ms fl r s)"
| "ms fl Bol s = (if prev s = [] \<or> (multiline fl \<and> at_line_term (prev s)) then [s] else [])"
| "ms fl Eol s = (if rest s = [] \<or> (multiline fl \<and> at_line_term (rest s)) then [s] else [])"
| "ms fl WordB s = (if at_word (prev s) \<noteq> at_word (rest s) then [s] else [])"
| "ms fl (Ahead pos r) s = (if (ms fl r s \<noteq> []) = pos then [s] else [])"
| "ms fl (Behind rs) s =
     (case prev s of [] \<Rightarrow> [] | c # cs \<Rightarrow> if cls_match fl False rs c then [s] else [])"

text \<open>A match: the text before it, the matched text, the text after it, the groups.\<close>

record jsmatch =
  mpre :: jsstring
  mtext :: jsstring
  mpost :: jsstring
  mgrp :: "nat \<Rightarrow> jsstring option"

definition start_state :: "jsstring \<Rightarrow> jsstring \<Rightarrow> mstate" where
  "start_state p cs = \<lparr>prev = p, rest = cs, caps = (\<lambda>k. None)\<rparr>"

definition match_at :: "rxflags \<Rightarrow> rx \<Rightarrow> jsstring \<Rightarrow> jsstring \<Rightarrow> jsmatch option" where
  "match_at fl r p cs =
     (case ms fl r (start_state p cs) of [] \<Rightarrow> None
      | s' # _ \<Rightarrow> Some \<lparr>mpre = rev p, mtext = take (length cs - length (rest s')) cs,
                         mpost = drop (length cs - length (rest s')) cs, mgrp = caps s'\<rparr>)"

text \<open>The leftmost match at or after the current position (\<open>p\<close> is the text before it).\<close>

fun search_from :: "rxflags \<Rightarrow> rx \<Rightarrow> jsstring \<Rightarrow> jsstring \<Rightarrow> jsmatch option" where
  "search_from fl r p [] = match_at fl r p []"
| "search_from fl r p (c # cs) =
     (case match_at fl r p (c # cs) of Some m \<Rightarrow> Some m
      | None \<Rightarrow> search_from fl r (c # p) cs)"

text \<open>\<open>s.match(r)\<close> for a regular expression without the flag \<open>g\<close>, and \<open>r.test(s)\<close>.\<close>

definition rx_exec :: "rxflags \<Rightarrow> rx \<Rightarrow> jsstring \<Rightarrow> jsmatch option" where
  "rx_exec fl r s = search_from fl r [] s"

definition rx_test :: "rxflags \<Rightarrow> rx \<Rightarrow> jsstring \<Rightarrow> bool" where
  "rx_test fl r s = (rx_exec fl r s \<noteq> None)"

text \<open>\<open>s.match(r)\<close> with the flag \<open>g\<close>: the texts of all matches, left to right.\<close>

function match_all_from :: "rxflags \<Rightarrow> rx \<Rightarrow> jsstring \<Rightarrow> jsstring \<Rightarrow> jsstring list" where
  "match_all_from fl r p [] = (case match_at fl r p [] of None \<Rightarrow> [] | Some m \<Rightarrow> [mtext m])"
| "match_all_from fl r p (c # cs) =
     (case match_at fl r p (c # cs) of
        None \<Rightarrow> match_all_from fl r (c # p) cs
      | Some m \<Rightarrow>
          if mtext m = [] then [] # match_all_from fl r (c # p) cs
          else mtext m # match_all_from fl r (rev (mtext m) @ p)
                           (drop (length (mtext m)) (c # cs)))"
  by pat_completeness auto
termination
  by (relation "measure (\<lambda>(fl, r, p, cs). length cs)") auto

definition match_all :: "rxflags \<Rightarrow> rx \<Rightarrow> jsstring \<Rightarrow> jsstring list" where
  "match_all fl r s = match_all_from fl r [] s"

text \<open>Replacement text: literal pieces and references \<open>$n\<close> to groups.\<close>

datatype repl = Lit jsstring | Ref nat

fun expand :: "repl list \<Rightarrow> jsmatch \<Rightarrow> jsstring" where
  "expand [] m = []"
| "expand (Lit t # ts) m = t @ expand ts m"
| "expand (Ref i # ts) m = (case mgrp m i of None \<Rightarrow> [] | Some g \<Rightarrow> g) @ expand ts m"

text \<open>
  \<open>s.replace(r, t)\<close> with the flag \<open>g\<close>: every match, left to right and without
  overlap, is replaced; after an empty match the search moves on by one character.
\<close>

function replace_from :: "rxflags \<Rightarrow> rx \<Rightarrow> repl list \<Rightarrow> jsstring \<Rightarrow> jsstring \<Rightarrow> jsstring" where
  "replace_from fl r t p [] = (case match_at fl r p [] of None \<Rightarrow> [] | Some m \<Rightarrow> expand t m)"
| "replace_from fl r t p (c # cs) =
     (case match_at fl r p (c # cs) of
        None \<Rightarrow> c # replace_from fl r t (c # p) cs
      | Some m \<Rightarrow>
          if mtext m = [] then expand t m @ c # replace_from fl r t (c # p) cs
          else expand t m @ replace_from fl r t (rev (mtext m) @ p)
                              (drop (length (mtext m)) (c # cs)))"
  by pat_completeness auto
termination
  by (relation "measure (\<lambda>(fl, r, t, p, cs). length cs)") auto

definition replace_all :: "rxflags \<Rightarrow> rx \<Rightarrow> repl list \<Rightarrow> jsstring \<Rightarrow> jsstring" where
  "replace_all fl r t s = replace_from fl r t [] s"

text \<open>\<open>s.replace(r, t)\<close> without the flag \<open>g\<close>: the first match only.\<close>

definition replace_first :: "rxflags \<Rightarrow> rx \<Rightarrow> repl list \<Rightarrow> jsstring \<Rightarrow> jsstring" where
  "replace_first fl r t s =
     (case rx_exec fl r s of None \<Rightarrow> s | Some m \<Rightarrow> mpre m @ expand t m @ mpost m)"

text \<open>
  \<open>s.split(r)\<close>: the pieces between the matches; a match that ends where the current
  piece starts is skipped.
\<close>

function split_from :: "rxflags \<Rightarrow> rx \<Rightarrow> jsstring \<Rightarrow> jsstring \<Rightarrow> jsstring \<Rightarrow> jsstring list" where
  "split_from fl r acc p [] = [rev acc]"
| "split_from fl r acc p (c # cs) =
     (case match_at fl r p (c # cs) of
        None \<Rightarrow> split_from fl r (c # acc) (c # p) cs
      | Some m \<Rightarrow>
          if mtext m = [] then
            (if acc = [] then split_from fl r [c] (c # p) cs
             else rev acc # split_from fl r [c] (c # p) cs)
          else rev acc # split_from fl r [] (rev (mtext m) @ p)
                           (drop (length (mtext m)) (c # cs)))"
  by pat_completeness auto
termination
  by (relation "measure (\<lambda>(fl, r, acc, p, cs). length cs)") auto

definition split_rx :: "rxflags \<Rightarrow> rx \<Rightarrow> jsstring \<Rightarrow> jsstring list" where
  "split_rx fl r s =
     (if s = [] then (if match_at fl r [] [] = None then [[]] else [])
      else split_from fl r [] [] s)"

definition noflags :: rxflags where
  "noflags = \<lparr>ignoreCase = False, multiline = False\<rparr>"

definition iflag :: rxflags where
  "iflag = \<lparr>ignoreCase = True, multiline = False\<rparr>"

definition mflag :: rxflags where
  "mflag = \<lparr>ignoreCase = False, multiline = True\<rparr>"

subsection \<open>Notation for the patterns\<close>

definition c1 :: "char \<Rightarrow> nat \<times> nat" where
  "c1 c = (of_char c, of_char c)"

definition c2 :: "char \<Rightarrow> char \<Rightarrow> nat \<times> nat" where
  "c2 a b = (of_char a, of_char b)"

definition chr :: "char \<Rightarrow> rx" where
  "chr c = Cls False [c1 c]"

definition oneof :: "string \<Rightarrow> rx" where
  "oneof cs = Cls False (map c1 cs)"

definition noneof :: "string \<Rightarrow> rx" where
  "noneof cs = Cls True (map c1 cs)"

fun seqs :: "rx list \<Rightarrow> rx" where
  "seqs [] = Eps"
| "seqs [r] = r"
| "seqs (r # rs) = Seq r (seqs rs)"

fun alts :: "rx list \<Rightarrow> rx" where
  "alts [] = Cls False []"
| "alts [r] = r"
| "alts (r # rs) = Alt r (alts rs)"

definition lit :: "string \<Rightarrow> rx" where
  "lit cs = seqs (map chr cs)"

definition star :: "rx \<Rightarrow> rx" where
  "star r = Rep 0 None r"

definition plus :: "rx \<Rightarrow> rx" where
  "plus r = Rep 1 None r"

definition opt :: "rx \<Rightarrow> rx" where
  "opt r = Rep 0 (Some 1) r"

definition times :: "nat \<Rightarrow> nat \<Rightarrow> rx \<Rightarrow> rx" where
  "times mn mx r = Rep mn (Some mx) r"

definition atleast :: "nat \<Rightarrow> rx \<Rightarrow> rx" where
  "atleast mn r = Rep mn None r"

definition digit :: rx where
  "digit = Cls False digit_cs"

definition space :: rx where
  "space = Cls False space_cs"

definition nonspace :: rx where
  "nonspace = Cls True space_cs"

definition hspace :: rx where
  "hspace = Cls False hspace_cs"

definition wordc :: rx where
  "wordc = Cls False word_cs"

definition anychar :: rx where
  "anychar = Cls True line_term_cs"

text \<open>The currency symbols \<open>$\<close>, euro, pound, rupee and yen of the class \<open>[$\<euro>\<pounds>...]\<close>.\<close>

definition currency_cs :: cset where
  "currency_cs = [(36, 36), (8364, 8364), (163, 163), (8377, 8377), (165, 165)]"

section \<open>Text primitives\<close>

definition is_space :: "jschar \<Rightarrow> bool" where
  "is_space c = in_cset c space_cs"

definition trim :: "jsstring \<Rightarrow> jsstring" where
  "trim s = rev (dropWhile is_space (rev (dropWhile is_space s)))"

text \<open>\<open>s.split("\n")\<close>: always at least one piece.\<close>

fun split_acc :: "jschar \<Rightarrow> jsstring \<Rightarrow> jsstring \<Rightarrow> jsstring list" where
  "split_acc d acc [] = [rev acc]"
| "split_acc d acc (c # cs) =
     (if c = d then rev acc # split_acc d [] cs else split_acc d (c # acc) cs)"

definition split_lines :: "jsstring \<Rightarrow> jsstring list" where
  "split_lines s = split_acc 10 [] s"

text \<open>\<open>xs.join(sep)\<close>.\<close>

fun join :: "jsstring \<Rightarrow> jsstring list \<Rightarrow> jsstring" where
  "join sep [] = []"
| "join sep [x] = x"
| "join sep (x # xs) = x @ sep @ join sep xs"

text \<open>\<open>s.includes(t)\<close>.\<close>

fun is_prefix :: "jsstring \<Rightarrow> jsstring \<Rightarrow> bool" where
  "is_prefix [] s = True"
| "is_prefix (a # as) [] = False"
| "is_prefix (a # as) (c # cs) = (a = c \<and> is_prefix as cs)"

fun str_includes :: "jsstring \<Rightarrow> jsstring \<Rightarrow> bool" where
  "str_includes [] t = (t = [])"
| "str_includes (c # cs) t = (is_prefix t (c # cs) \<or> str_includes cs t)"

text \<open>
  \<open>s.toLowerCase()\<close>. ASCII and Latin-1 letters are mapped, and so are the two code
  points whose lower case contains an ASCII letter (U+0130, U+212A); the rest of the
  platform's case table is not reproduced and leaves the code unit unchanged.
\<close>

definition lower_char :: "jschar \<Rightarrow> jsstring" where
  "lower_char c =
     (if 65 \<le> c \<and> c \<le> 90 then [c + 32]
      else if (192 \<le> c \<and> c \<le> 214) \<or> (216 \<le> c \<and> c \<le> 222) then [c + 32]
      else if c = 304 then [105, 775]
      else if c = 8490 then [107]
      else [c])"

definition toLowerCase :: "jsstring \<Rightarrow> jsstring" where
  "toLowerCase s = concat (map lower_char s)"

section \<open>OCR text normalisation\<close>

text \<open>The patterns of \<open>normaliseOCRText\<close>, in the order of the source.\<close>

definition rx_dollar_l :: rx where
  "rx_dollar_l = seqs [Grp 1 (Seq (chr CHR ''$'') (star space)), oneof ''lI'', Grp 2 digit]"

definition rx_digit_O :: rx where
  "rx_digit_O = seqs [Grp 1 digit, oneof ''Oo'', Grp 2 digit]"

definition rx_S_amount :: rx where
  "rx_S_amount = seqs [Behind space_cs, chr CHR ''S'',
      Grp 1 (seqs [times 1 3 digit, star (Seq (chr CHR '','') (times 3 3 digit)),
                   chr CHR ''.'', times 2 2 digit]), WordB]"

text \<open>The class \<open>[ \t]\<close>: space and tab.\<close>

definition blank_cs :: cset where
  "blank_cs = [(32, 32), (9, 9)]"

definition rx_blanks :: rx where
  "rx_blanks = atleast 2 (Cls False blank_cs)"

definition rx_num_space :: rx where
  "rx_num_space = seqs [Behind digit_cs, chr CHR '' '',
      Ahead True (Seq (times 3 3 digit) (Alt (oneof ''.,'') WordB))]"

text \<open>En dash U+2013 and em dash U+2014.\<close>

definition rx_dashes :: rx where
  "rx_dashes = Cls False [(8211, 8212)]"

text \<open>The zero-width characters U+200B to U+200D and U+FEFF.\<close>

definition rx_zero_width :: rx where
  "rx_zero_width = Cls False [(8203, 8205), (65279, 65279)]"

definition rx_trailing :: rx where
  "rx_trailing = Seq (plus (Cls False blank_cs)) Eol"

text \<open>
  \<open>normaliseOCRText\<close>. The replacement text of the third step is written \<open>"\$$1"\<close> in
  the source, which is the string \<open>$$1\<close>: an escaped dollar sign followed by the
  character 1, so the match is replaced by the two characters \<open>$1\<close>.
\<close>

definition normaliseOCRText :: "jsstring \<Rightarrow> jsstring" where
  "normaliseOCRText raw =
    (let t = raw;
         t = replace_all noflags rx_dollar_l [Ref 1, Lit (str ''1''), Ref 2] t;
         t = replace_all noflags rx_digit_O [Ref 1, Lit (str ''0''), Ref 2] t;
         t = replace_all noflags rx_S_amount [Lit (str ''$1'')] t;
         t = replace_all noflags rx_blanks [Lit (str ''  '')] t;
         t = replace_all noflags rx_num_space [] t;
         t = replace_all noflags rx_dashes [Lit (str ''-'')] t;
         t = replace_all noflags rx_zero_width [] t;
         t = replace_all mflag rx_trailing [] t
     in t)"

section \<open>Errors and numeric parsing\<close>

text \<open>
  The source raises no error of its own. It can fail in two ways: a method call on a
  capture group that did not take part in the match (the value \<open>undefined\<close>) raises a
  \<open>TypeError\<close>, and a pattern built at run time from text that is not a valid pattern
  raises a \<open>SyntaxError\<close>. Every such place is a branch of the model.
\<close>

datatype error = TypeError | SyntaxError

definition ebind :: "error + 'a \<Rightarrow> ('a \<Rightarrow> error + 'b) \<Rightarrow> error + 'b" where
  "ebind m f = (case m of Inl e \<Rightarrow> Inl e | Inr x \<Rightarrow> f x)"

text \<open>\<open>m[i]\<close> used as the receiver of a method call.\<close>

definition grp_of :: "jsmatch \<Rightarrow> nat \<Rightarrow> error + jsstring" where
  "grp_of m i = (case mgrp m i of None \<Rightarrow> Inl TypeError | Some g \<Rightarrow> Inr g)"

text \<open>Truthiness of an optional string: \<open>undefined\<close> and the empty string are falsy.\<close>

definition truthy_str :: "jsstring option \<Rightarrow> bool" where
  "truthy_str x = (case x of None \<Rightarrow> False | Some s \<Rightarrow> s \<noteq> [])"

definition is_digit :: "jschar \<Rightarrow> bool" where
  "is_digit c = (48 \<le> c \<and> c \<le> 57)"

definition digits_val :: "jsstring \<Rightarrow> nat" where
  "digits_val ds = foldl (\<lambda>a c. 10 * a + (c - 48)) 0 ds"

text \<open>An optional sign in front of a number: the factor and the remaining text.\<close>

fun read_sign :: "jsstring \<Rightarrow> real \<times> jsstring" where
  "read_sign [] = (1, [])"
| "read_sign (c # cs) = (if c = 45 then (- 1, cs) else if c = 43 then (1, cs) else (1, c # cs))"

text \<open>The exponent part \<open>e[+-]digits\<close>, taken only when at least one digit follows.\<close>

fun read_exponent :: "jsstring \<Rightarrow> real" where
  "read_exponent [] = 1"
| "read_exponent (c # cs) =
     (if c = 101 \<or> c = 69 then
        (let (sg, r) = read_sign cs; ds = takeWhile is_digit r in
         if ds = [] then 1
         else if sg < 0 then 1 / 10 ^ digits_val ds else 10 ^ digits_val ds)
      else 1)"

text \<open>
  \<open>parseFloat\<close>: leading white space is skipped and the longest prefix that is a decimal
  literal is read and rounded to a double; \<open>NaN\<close> when there is none.
\<close>

definition parseFloat :: "jsstring \<Rightarrow> jsnum" where
  "parseFloat s =
     (let (sg, t) = read_sign (dropWhile is_space s) in
      if is_prefix (str ''Infinity'') t then (if sg < 0 then NegInf else PosInf)
      else
        let ip = takeWhile is_digit t;
            r1 = dropWhile is_digit t;
            fp = (case r1 of [] \<Rightarrow> [] | c # r \<Rightarrow> if c = 46 then takeWhile is_digit r else []);
            r2 = (case r1 of [] \<Rightarrow> [] | c # r \<Rightarrow> if c = 46 then dropWhile is_digit r else r1)
        in if ip = [] \<and> fp = [] then NaN
           else dbl (sg * (of_nat (digits_val ip) + of_nat (digits_val fp) / 10 ^ length fp)
                        * read_exponent r2))"

text \<open>
  \<open>parseInt\<close> on decimal text (the source calls it on one or two digits only): leading
  white space, a sign and the leading digits.
\<close>

definition parseInt :: "jsstring \<Rightarrow> jsnum" where
  "parseInt s =
     (let (sg, t) = read_sign (dropWhile is_space s); ds = takeWhile is_digit t in
      if ds = [] then NaN else dbl (sg * of_nat (digits_val ds)))"

text \<open>\<open>s.padStart(2, "0")\<close>.\<close>

definition padStart2 :: "jsstring \<Rightarrow> jsstring" where
  "padStart2 s = replicate (2 - length s) 48 @ s"

section \<open>Date extraction\<close>

definition sep_cs :: cset where
  "sep_cs = map c1 ''-/.''"

definition rx_iso_exact :: rx where
  "rx_iso_exact = seqs [Bol, times 4 4 digit, chr CHR ''-'', times 2 2 digit, chr CHR ''-'',
                        times 2 2 digit, Eol]"

definition rx_dmy_exact :: rx where
  "rx_dmy_exact = seqs [Bol, Grp 1 (times 1 2 digit), Cls False sep_cs, Grp 2 (times 1 2 digit),
                        Cls False sep_cs, Grp 3 (times 4 4 digit), Eol]"

text \<open>
  \<open>normaliseDateString\<close>. The third test of the source repeats the pattern of the second
  and can only be reached when that one failed.
\<close>

definition normaliseDateString :: "jsstring \<Rightarrow> error + jsstring" where
  "normaliseDateString raw =
     (if rx_test noflags rx_iso_exact raw then Inr raw
      else case rx_exec noflags rx_dmy_exact raw of
        Some dmy \<Rightarrow>
          ebind (grp_of dmy 2) (\<lambda>g2. ebind (grp_of dmy 1) (\<lambda>g1.
            Inr (orElse (mgrp dmy 3) (str ''undefined'') @ str ''-'' @ padStart2 g2
                 @ str ''-'' @ padStart2 g1)))
      | None \<Rightarrow>
         (case rx_exec noflags rx_dmy_exact raw of
            Some mdy \<Rightarrow>
              if jgt (parseInt (orElse (mgrp mdy 1) (str ''undefined''))) (Fin 12) then
                ebind (grp_of mdy 1) (\<lambda>g1. ebind (grp_of mdy 2) (\<lambda>g2.
                  Inr (orElse (mgrp mdy 3) (str ''undefined'') @ str ''-'' @ padStart2 g1
                       @ str ''-'' @ padStart2 g2)))
              else Inr raw
          | None \<Rightarrow> Inr raw))"

definition rx_date_value :: rx where
  "rx_date_value = seqs [times 1 4 digit, oneof ''-/. '', times 1 2 digit, oneof ''-/. '',
                         times 2 4 digit]"

definition date_tail :: rx where
  "date_tail = seqs [star space, opt (oneof '':-''), star space, Grp 1 rx_date_value]"

definition invDateRx :: rx where
  "invDateRx = Seq (alts [seqs [lit ''invoice'', star space, lit ''date''],
                          seqs [lit ''date'', star space, lit ''of'', star space, lit ''invoice''],
                          seqs [lit ''date'', star space, lit ''issued''],
                          lit ''issued'', lit ''date'']) date_tail"

definition dueDateRx :: rx where
  "dueDateRx = Seq (alts [seqs [lit ''due'', star space, lit ''date''],
                          seqs [lit ''payment'', star space, lit ''due''],
                          seqs [lit ''pay'', star space, lit ''by''],
                          seqs [lit ''payable'', star space, Alt (lit ''by'') (lit ''on'')],
                          seqs [lit ''due'', star space, lit ''on'']]) date_tail"

definition txDateRx :: rx where
  "txDateRx = seqs [alts [lit ''transaction'', lit ''sale'', lit ''purchase'', lit ''order''],
                    star space, lit ''date'', date_tail]"

definition DATE_ISO :: rx where
  "DATE_ISO = seqs [WordB, Grp 1 (seqs [times 4 4 digit, oneof ''-/'', times 2 2 digit,
                                        oneof ''-/'', times 2 2 digit]), WordB]"

record Dates =
  d_invoiceDate :: "jsstring option"
  d_dueDate :: "jsstring option"
  d_transactionDate :: "jsstring option"

text \<open>The helper \<open>td\<close> of \<open>extractDates\<close>.\<close>

definition td :: "jsmatch option \<Rightarrow> error + jsstring option" where
  "td m = (case m of None \<Rightarrow> Inr None
           | Some mm \<Rightarrow> if truthy_str (mgrp mm 1)
                        then ebind (normaliseDateString (the (mgrp mm 1))) (\<lambda>d. Inr (Some d))
                        else Inr None)"

definition extractDates :: "jsstring \<Rightarrow> error + Dates" where
  "extractDates text =
     ebind (td (rx_exec iflag invDateRx text)) (\<lambda>inv.
     ebind (td (rx_exec iflag dueDateRx text)) (\<lambda>due.
     ebind (td (rx_exec iflag txDateRx text)) (\<lambda>tx.
     ebind (if \<not> truthy_str inv then
              (case match_all noflags DATE_ISO text of
                 [] \<Rightarrow> Inr inv
               | iso0 # _ \<Rightarrow> if iso0 \<noteq> [] then ebind (normaliseDateString iso0) (\<lambda>d. Inr (Some d))
                             else Inr inv)
            else Inr inv) (\<lambda>inv'.
     Inr \<lparr>d_invoiceDate = inv', d_dueDate = due, d_transactionDate = tx\<rparr>))))"

section \<open>Document segmentation\<close>

record Segments =
  headerLines :: "jsstring list"
  bodyLines :: "jsstring list"
  footerLines :: "jsstring list"

text \<open>The first index, counted from \<open>i\<close>, whose line satisfies the test.\<close>

fun first_idx :: "(nat \<Rightarrow> 'a \<Rightarrow> bool) \<Rightarrow> nat \<Rightarrow> 'a list \<Rightarrow> nat option" where
  "first_idx P i [] = None"
| "first_idx P i (x # xs) = (if P i x then Some i else first_idx P (Suc i) xs)"

definition no_dot :: rx where
  "no_dot = Seq (lit ''no'') (opt (chr CHR ''.''))"

definition bodyStartKeywords :: rx where
  "bodyStartKeywords = Seq Bol (alts [lit ''description'', lit ''item'', lit ''qty'',
      lit ''quantity'', seqs [lit ''part'', star space, Alt (lit ''no'') (chr CHR ''#'')],
      lit ''sku'', seqs [lit ''unit'', star space, lit ''price''], lit ''amount'', lit ''total'',
      seqs [lit ''bill'', star space, lit ''to''], seqs [lit ''ship'', star space, lit ''to''],
      lit ''customer'', lit ''product'', lit ''service'', lit ''particular'', lit ''rate'',
      seqs [no_dot, space], seqs [lit ''sr'', opt (chr CHR ''.''), star space, lit ''no'']])"

definition tableHeaderKws :: "jsstring list" where
  "tableHeaderKws = map str [''description'', ''item'', ''qty'', ''quantity'', ''unit price'',
      ''price'', ''amount'', ''total'', ''tax'', ''sku'', ''product'', ''rate'', ''particular'']"

definition footerKeywords :: rx where
  "footerKeywords = Seq Bol (alts [seqs [lit ''sub'', star space, lit ''total''], lit ''subtotal'',
      lit ''total'', lit ''tax'', lit ''gst'', lit ''vat'', lit ''shipping'', lit ''delivery'',
      lit ''discount'', lit ''balance'', seqs [lit ''amount'', plus space, lit ''due''],
      seqs [lit ''net'', plus space, lit ''amount''], seqs [lit ''gross'', plus space, lit ''amount''],
      seqs [lit ''grand'', plus space, lit ''total'']])"

text \<open>The number of keywords of a list that a line contains.\<close>

definition kw_hits :: "jsstring list \<Rightarrow> jsstring \<Rightarrow> nat" where
  "kw_hits kws lower = length (filter (\<lambda>kw. str_includes lower kw) kws)"

text \<open>
  \<open>segmentDocument\<close>. \<open>Math.floor(total * 0.75)\<close> is \<open>3 * total div 4\<close>: 0.75 is a
  double and its product with the length of an array is exact. The product \<open>total * 0.35\<close>
  of the test \<open>i > total * 0.35\<close> is rounded, as is the literal.
\<close>

definition segmentDocument :: "jsstring list \<Rightarrow> Segments" where
  "segmentDocument lines =
     (let total = length lines;
          headerEnd = (case first_idx (\<lambda>i l. rx_test iflag bodyStartKeywords l) 0
                              (take (min 25 total) lines)
                       of Some i \<Rightarrow> i | None \<Rightarrow> min 8 total);
          headerEnd = (if headerEnd = min 8 total then
                         (case first_idx (\<lambda>i l. 2 \<le> kw_hits tableHeaderKws (toLowerCase l)) 0
                                 (take (min 25 total) lines)
                          of Some i \<Rightarrow> i | None \<Rightarrow> headerEnd)
                       else headerEnd);
          footerStart = (case first_idx (\<lambda>i l. rx_test iflag footerKeywords l \<and>
                                           jgt (Fin (real i))
                                               (jmul (Fin (real total)) (dbl (35 / 100))))
                                headerEnd (drop headerEnd lines)
                         of Some i \<Rightarrow> i | None \<Rightarrow> max (3 * total div 4) (total - 15))
      in \<lparr>headerLines = take headerEnd lines,
          bodyLines = drop headerEnd (take footerStart lines),
          footerLines = drop footerStart lines\<rparr>)"

section \<open>Transaction metadata\<close>

record DataLiftTransaction =
  invoiceNumber :: "jsstring option"
  purchaseOrderNumber :: "jsstring option"
  quoteNumber :: "jsstring option"
  invoiceDate :: "jsstring option"
  dueDate :: "jsstring option"
  transactionDate :: "jsstring option"
  transactionTime :: "jsstring option"
  paymentMode :: "jsstring option"
  paymentTerms :: "jsstring option"
  currency :: "jsstring option"

definition alnum_cs :: cset where
  "alnum_cs = [c2 CHR ''A'' CHR ''Z'', c2 CHR ''0'' CHR ''9'']"

text \<open>The value shape \<open>[A-Z0-9][\w\-/]{1,n}\<close> of document numbers.\<close>

definition doc_number :: "nat \<Rightarrow> rx" where
  "doc_number n = Seq (Cls False alnum_cs) (times 1 n (Cls False (word_cs @ map c1 ''-/'')))"

definition invRx :: rx where
  "invRx = seqs [alts [seqs [lit ''invoice'', star hspace,
                             alts [no_dot, chr CHR ''#'', lit ''number''],
                             star hspace, opt (chr CHR '':'')],
                       seqs [lit ''tax'', plus hspace, lit ''invoice'', star hspace,
                             alts [no_dot, chr CHR ''#''], star hspace, opt (chr CHR '':'')],
                       seqs [lit ''inv'', star hspace, oneof ''#:''],
                       seqs [lit ''einvoice'', star hspace, oneof ''#:'']],
                 star hspace, Grp 1 (doc_number 30)]"

definition invLabelLine :: rx where
  "invLabelLine = seqs [Bol, star space,
      alts [seqs [lit ''invoice'', star space, alts [no_dot, chr CHR ''#'', lit ''number'']],
            seqs [lit ''einvoice'', star space, opt (oneof ''#:'')]],
      star space, opt (chr CHR '':''), star space, Eol]"

definition valueLine :: rx where
  "valueLine = seqs [Bol, doc_number 30, Eol]"

definition poRx :: rx where
  "poRx = seqs [alts [seqs [chr CHR ''p'', opt (chr CHR ''.''), chr CHR ''o'', opt (chr CHR ''.''),
                            star hspace, plus (oneof ''#:'')],
                      seqs [lit ''purchase'', star hspace, lit ''order'', star hspace,
                            alts [no_dot, chr CHR ''#'', lit ''number''],
                            star hspace, star (oneof ''#:'')]],
                star hspace, opt (chr CHR '':''), star hspace, Grp 1 (doc_number 30)]"

definition poLabelLine :: rx where
  "poLabelLine = seqs [Bol, star space,
      alts [seqs [chr CHR ''p'', opt (chr CHR ''.''), chr CHR ''o'', opt (chr CHR ''.''),
                  star space, opt (oneof ''#:'')],
            seqs [lit ''purchase'', star space, lit ''order'', star space,
                  opt (alts [no_dot, chr CHR ''#'', lit ''number''])]],
      star space, opt (chr CHR '':''), star space, Eol]"

text \<open>
  The multi-line fallback shared by the invoice and the purchase-order number: for each
  label line that is not the last line, the first of the next two lines whose trimmed text
  is non-empty and has the value shape; the scan stops at the first value found.
\<close>

definition value_after :: "jsstring list \<Rightarrow> jsstring option" where
  "value_after ls = (case filter (\<lambda>v. v \<noteq> [] \<and> rx_test iflag valueLine v) (map trim (take 2 ls))
                     of [] \<Rightarrow> None | v # _ \<Rightarrow> Some v)"

fun label_scan :: "rx \<Rightarrow> jsstring list \<Rightarrow> jsstring option" where
  "label_scan lab [] = None"
| "label_scan lab [l] = None"
| "label_scan lab (l # ls) =
     (if rx_test iflag lab l then
        (case value_after ls of Some v \<Rightarrow> Some v | None \<Rightarrow> label_scan lab ls)
      else label_scan lab ls)"

definition quoteRx :: rx where
  "quoteRx = seqs [alts [lit ''quote'', lit ''quotation'', lit ''estimate''], star space,
                   oneof ''#:'', star space, Grp 1 (doc_number 20)]"

definition payRx :: rx where
  "payRx = seqs [alts [seqs [lit ''payment'', star space,
                             alts [lit ''method'', lit ''mode'', lit ''via'', lit ''by'']],
                       seqs [lit ''paid'', star space, Alt (lit ''via'') (lit ''by'')],
                       seqs [lit ''payment'',
                             Ahead False (seqs [star space, lit ''term'', opt (chr CHR ''s'')])]],
                 star space, opt (oneof '':-''), star space,
                 Grp 1 (Seq (Cls False [c2 CHR ''A'' CHR ''Z'', c2 CHR ''a'' CHR ''z''])
                            (times 2 30 (Cls False ([c2 CHR ''A'' CHR ''Z'', c2 CHR ''a'' CHR ''z'']
                                                    @ space_cs @ [c1 CHR ''/'']))))]"

definition termsRx :: rx where
  "termsRx = seqs [alts [Seq (lit ''term'') (opt (chr CHR ''s'')),
                         seqs [lit ''payment'', star space, lit ''term'', opt (chr CHR ''s'')]],
                   star space, opt (oneof '':-''), star space,
                   Grp 1 (alts [seqs [lit ''net'', star space, plus digit], lit ''cod'', lit ''eft'',
                                lit ''prepaid'',
                                seqs [lit ''due'', star space, lit ''on'', star space,
                                      lit ''receipt'']])]"

definition timeRx :: rx where
  "timeRx = seqs [WordB, Grp 1 (seqs [times 1 2 digit, chr CHR '':'', times 2 2 digit,
                                      opt (Seq (chr CHR '':'') (times 2 2 digit)), star space,
                                      opt (Alt (lit ''AM'') (lit ''PM''))]), WordB]"

definition rx_spaces :: rx where
  "rx_spaces = plus space"

definition tx_invoiceNumber :: "jsstring \<Rightarrow> error + jsstring option" where
  "tx_invoiceNumber fullText =
     (case rx_exec iflag invRx fullText of
        Some invM \<Rightarrow> ebind (grp_of invM 1) (\<lambda>g. Inr (Some (trim g)))
      | None \<Rightarrow> Inr (label_scan invLabelLine (split_lines fullText)))"

definition tx_purchaseOrderNumber :: "jsstring \<Rightarrow> error + jsstring option" where
  "tx_purchaseOrderNumber fullText =
     (case rx_exec iflag poRx fullText of
        Some poM \<Rightarrow> ebind (grp_of poM 1) (\<lambda>g. Inr (Some (trim g)))
      | None \<Rightarrow> Inr (label_scan poLabelLine (split_lines fullText)))"

definition extractTransaction :: "jsstring \<Rightarrow> jsstring \<Rightarrow> error + DataLiftTransaction" where
  "extractTransaction fullText currencyCode =
     ebind (tx_invoiceNumber fullText) (\<lambda>inv.
     ebind (tx_purchaseOrderNumber fullText) (\<lambda>po.
     ebind (case rx_exec iflag quoteRx fullText of
              Some quoteM \<Rightarrow> ebind (grp_of quoteM 1) (\<lambda>g. Inr (Some (trim g)))
            | None \<Rightarrow> Inr None) (\<lambda>quote.
     ebind (extractDates fullText) (\<lambda>dates.
     ebind (case rx_exec iflag termsRx fullText of
              Some termsM \<Rightarrow> ebind (grp_of termsM 1) (\<lambda>g. Inr (Some (trim g)))
            | None \<Rightarrow> Inr None) (\<lambda>terms.
     Inr \<lparr>invoiceNumber = inv, purchaseOrderNumber = po, quoteNumber = quote,
          invoiceDate = d_invoiceDate dates, dueDate = d_dueDate dates,
          transactionDate = d_transactionDate dates,
          transactionTime = (case rx_exec iflag timeRx fullText of
                               Some timeM \<Rightarrow> mgrp timeM 1 | None \<Rightarrow> None),
          paymentMode = (case rx_exec iflag payRx fullText of
                           Some payM \<Rightarrow>
                             if truthy_str (mgrp payM 1)
                             then Some (replace_all noflags rx_spaces [Lit (str '' '')]
                                          (trim (the (mgrp payM 1))))
                             else None
                         | None \<Rightarrow> None),
          paymentTerms = terms,
          currency = Some currencyCode\<rparr>)))))"

section \<open>Line items\<close>

subsection \<open>Patterns\<close>

definition SKU_LABELED :: rx where
  "SKU_LABELED = seqs [alts [lit ''SKU'',
                             seqs [lit ''Part'', star space, Alt (lit ''No'') (chr CHR ''#'')],
                             seqs [lit ''Item'', star space, Alt (lit ''No'') (chr CHR ''#'')],
                             lit ''PN'',
                             seqs [lit ''Catalog'', star space, Alt (lit ''No'') (chr CHR ''#'')]],
                       star (Cls False (space_cs @ map c1 '':.'')),
                       Grp 1 (Seq (Cls False alnum_cs)
                                  (atleast 2 (Cls False (alnum_cs @ map c1 ''-_.''))))]"

definition SKU_BARE :: rx where
  "SKU_BARE = seqs [WordB,
                    Grp 1 (seqs [times 2 6 (Cls False [c2 CHR ''A'' CHR ''Z'']), chr CHR ''-'',
                                 atleast 2 (Cls False alnum_cs), chr CHR ''-'',
                                 atleast 2 (Cls False alnum_cs)]),
                    WordB]"

definition TAX_PERCENT :: rx where
  "TAX_PERCENT = seqs [WordB,
                       Grp 1 (Seq (times 1 3 digit) (opt (Seq (chr CHR ''.'') (times 1 2 digit)))),
                       star space, alts [chr CHR ''%'', lit ''percent'', lit ''pct''], WordB]"

definition SUMMARY_LINE_RX :: rx where
  "SUMMARY_LINE_RX = seqs [Bol,
      alts [seqs [lit ''sub'', star space, lit ''total''], lit ''subtotal'', lit ''total'',
            lit ''tax'', lit ''gst'', lit ''vat'', lit ''hst'', lit ''pst'', lit ''shipping'',
            lit ''delivery'', lit ''freight'', lit ''discount'', lit ''rebate'', lit ''balance'',
            seqs [lit ''amount'', plus space, lit ''due''],
            seqs [lit ''amount'', plus space, lit ''paid''],
            seqs [lit ''total'', plus space, lit ''amount''],
            seqs [lit ''change'', plus space, lit ''due''], lit ''rounding'', lit ''tip'',
            lit ''gratuity'', seqs [lit ''net'', plus space, lit ''amount''], lit ''gross'',
            lit ''payment'', lit ''paid'', lit ''tendered'', lit ''change'', lit ''due'',
            lit ''owing''],
      WordB]"

definition HEADER_LINE_RX :: rx where
  "HEADER_LINE_RX = seqs [
      alts [lit ''description'', seqs [lit ''item'', star space, lit ''name''], lit ''item'',
            lit ''qty'', lit ''quantity'', seqs [lit ''unit'', star space, lit ''price''],
            seqs [lit ''unit'', star space, lit ''cost''], lit ''price'', lit ''amount'',
            lit ''total'', lit ''tax'', lit ''sku'', lit ''product'', lit ''service'',
            lit ''particular'', lit ''uom'',
            seqs [lit ''unit'', star space, lit ''of'', star space, lit ''measure''],
            lit ''rate'', no_dot],
      WordB]"

text \<open>The number \<open>\d{1,3}(?:,\d{3})*(?:\.\d{1,4})?\<close> shared by the two token patterns.\<close>

definition rx_number :: rx where
  "rx_number = seqs [times 1 3 digit, star (Seq (chr CHR '','') (times 3 3 digit)),
                     opt (Seq (chr CHR ''.'') (times 1 4 digit))]"

definition numPattern :: rx where
  "numPattern = seqs [opt (Grp 1 (Seq (Cls False currency_cs) (star space))), Grp 2 rx_number,
                      star space, opt (Grp 3 (chr CHR ''%''))]"

definition numRx :: rx where
  "numRx = seqs [Grp 1 (Seq (opt (Cls False currency_cs)) (star space)), Grp 2 rx_number,
                 star space, opt (Grp 3 (chr CHR ''%''))]"

definition rx_two_spaces :: rx where
  "rx_two_spaces = atleast 2 space"

definition rx_two_letters :: rx where
  "rx_two_letters = atleast 2 (Cls False [c2 CHR ''A'' CHR ''Z'', c2 CHR ''a'' CHR ''z''])"

definition rx_comma :: rx where
  "rx_comma = chr CHR '',''"

text \<open>The characters \<open>[\d,.\s%\<times>xX@*]\<close> of a numeric cluster (215 is the sign \<open>\<times>\<close>).\<close>

definition cluster_cs :: cset where
  "cluster_cs = digit_cs @ map c1 '',.'' @ space_cs @ [c1 CHR ''%'', (215, 215)] @ map c1 ''xX@*''"

definition rx_cluster :: rx where
  "rx_cluster = seqs [opt (Cls False currency_cs), star space, digit, star (Cls False cluster_cs)]"

definition rx_trailing_numbers :: rx where
  "rx_trailing_numbers = seqs [star space, rx_cluster, star (Seq (plus space) rx_cluster),
                               star space, Eol]"

definition rx_row_number :: rx where
  "rx_row_number = seqs [Bol, times 1 3 digit, plus (Cls False (map c1 ''.)'' @ space_cs)),
                         star space]"

subsection \<open>Global matching with groups\<close>

text \<open>
  The loop \<open>while ((m = r.exec(s)) !== null)\<close> over a pattern with the flag \<open>g\<close>: all
  matches, left to right and without overlap. The patterns it is used with match at least
  one character.
\<close>

function exec_all_from :: "rxflags \<Rightarrow> rx \<Rightarrow> jsstring \<Rightarrow> jsstring \<Rightarrow> jsmatch list" where
  "exec_all_from fl r p [] = (case match_at fl r p [] of None \<Rightarrow> [] | Some m \<Rightarrow> [m])"
| "exec_all_from fl r p (c # cs) =
     (case match_at fl r p (c # cs) of
        None \<Rightarrow> exec_all_from fl r (c # p) cs
      | Some m \<Rightarrow>
          if mtext m = [] then m # exec_all_from fl r (c # p) cs
          else m # exec_all_from fl r (rev (mtext m) @ p) (drop (length (mtext m)) (c # cs)))"
  by pat_completeness auto
termination
  by (relation "measure (\<lambda>(fl, r, p, cs). length cs)") auto

definition exec_all :: "rxflags \<Rightarrow> rx \<Rightarrow> jsstring \<Rightarrow> jsmatch list" where
  "exec_all fl r s = exec_all_from fl r [] s"

subsection \<open>Numeric tokens and their disambiguation\<close>

text \<open>A numeric token: its value and whether it carries a percent sign.\<close>

definition num_token :: "jsmatch \<Rightarrow> (jsnum \<times> bool) option" where
  "num_token m =
     (let v = parseFloat (replace_all noflags rx_comma [] (orElse (mgrp m 2) [])) in
      if \<not> isNaN v \<and> jgt v (Fin 0) then Some (v, mgrp m 3 = Some (str ''%'')) else None)"

definition num_tokens :: "rx \<Rightarrow> jsstring \<Rightarrow> (jsnum \<times> bool) list" where
  "num_tokens r s = List.map_filter num_token (exec_all noflags r s)"

text \<open>\<open>x !== taxPercentage\<close>, where the percentage may be \<open>undefined\<close>.\<close>

definition differs :: "jsnum \<Rightarrow> jsnum option \<Rightarrow> bool" where
  "differs x t = (case t of None \<Rightarrow> True | Some y \<Rightarrow> \<not> jeq x y)"

definition candidates :: "(jsnum \<times> bool) list \<Rightarrow> jsnum option \<Rightarrow> jsnum list" where
  "candidates toks taxPct = map fst (filter (\<lambda>t. \<not> snd t \<and> differs (fst t) taxPct) toks)"

definition pair_err :: "jsnum \<Rightarrow> jsnum \<Rightarrow> jsnum \<Rightarrow> jsnum" where
  "pair_err q p tot = jdiv (jabs (jsub (jmul q p) tot)) (jmax tot (Fin 1))"

text \<open>
  The search for the pair \<open>(qi, pi)\<close> with \<open>qi \<noteq> pi\<close> whose product is within 5 percent
  of the total: the pairs are visited with \<open>qi\<close> in the outer loop, and a later pair
  replaces the best one only with a strictly smaller error.
\<close>

definition better :: "(nat \<times> nat \<times> jsnum) option \<Rightarrow> nat \<times> nat \<times> jsnum
                       \<Rightarrow> (nat \<times> nat \<times> jsnum) option" where
  "better best cand =
     (case cand of (qj, pj, err) \<Rightarrow>
        if jlt err (dbl (5 / 100)) \<and> (case best of None \<Rightarrow> True | Some (bq, bp, berr) \<Rightarrow> jlt err berr)
        then Some (qj, pj, err) else best)"

definition index_pairs :: "nat \<Rightarrow> (nat \<times> nat) list" where
  "index_pairs n = concat (map (\<lambda>qj. map (\<lambda>pj. (qj, pj)) (filter (\<lambda>pj. pj \<noteq> qj) [0..<n])) [0..<n])"

definition bestMatch :: "jsnum list \<Rightarrow> jsnum \<Rightarrow> (nat \<times> nat \<times> jsnum) option" where
  "bestMatch nums tot =
     foldl better None
       (map (\<lambda>(qj, pj). (qj, pj, pair_err (nums ! qj) (nums ! pj) tot))
            (index_pairs (length nums)))"

definition plausible_qty :: "jsnum \<Rightarrow> bool" where
  "plausible_qty n = (isInteger n \<and> jlt n (Fin 10000))"

text \<open>
  Quantity, unit price and tax amount from the numbers before the total. \<open>excl\<close> is the
  tax percentage that \<open>parseLineItem\<close> keeps out of the positional fallback; the column
  extractor has no such test and passes \<open>None\<close>.
\<close>

definition disambiguate ::
  "jsnum option \<Rightarrow> jsnum list \<Rightarrow> jsnum \<Rightarrow> jsnum \<times> jsnum option \<times> jsnum option" where
  "disambiguate excl nums tot =
     (if 2 \<le> length nums then
        (case bestMatch nums tot of
           Some (qj, pj, err) \<Rightarrow>
             (let remaining = map snd (filter (\<lambda>(k, x). k \<noteq> qj \<and> k \<noteq> pj)
                                               (List.enumerate 0 nums))
              in (nums ! qj, Some (nums ! pj),
                  if length remaining = 1 then Some (hd remaining) else None))
         | None \<Rightarrow>
             (case List.find (\<lambda>n. plausible_qty n \<and> differs n excl) nums of
                Some q \<Rightarrow> (q, List.find (\<lambda>x. \<not> jeq x q \<and> differs x excl) (rev nums), None)
              | None \<Rightarrow> (Fin 1, Some (last nums), None)))
      else if length nums = 1 then
        (let n = hd nums in
         if plausible_qty n \<and> jgt n (Fin 0) then
           (let inferredPrice = jdiv tot n in
            if jge inferredPrice (dbl (1 / 100)) \<and> isFinite inferredPrice
            then (n, Some (toFixed 4 inferredPrice), None)
            else (Fin 1, Some n, None))
         else (Fin 1, Some n, None))
      else (Fin 1, None, None))"

text \<open>The steps after the disambiguation, common to both extractors.\<close>

definition fill_unit_price :: "jsnum \<Rightarrow> jsnum option \<Rightarrow> jsnum \<Rightarrow> jsnum option" where
  "fill_unit_price q up tot =
     (if up = None \<and> jgt q (Fin 0) \<and> jgt tot (Fin 0) then Some (toFixed 4 (jdiv tot q))
      else up)"

definition tax_from_pct :: "jsnum \<Rightarrow> jsnum option \<Rightarrow> jsnum option \<Rightarrow> jsnum option
                            \<Rightarrow> jsnum option" where
  "tax_from_pct q up taxAmt pct =
     (case (taxAmt, pct, up) of
        (None, Some t, Some u) \<Rightarrow> Some (toFixed 4 (jmul (jmul q u) (jdiv t (Fin 100))))
      | _ \<Rightarrow> taxAmt)"

subsection \<open>The per-line parser\<close>

definition first_piece :: "jsstring \<Rightarrow> jsstring" where
  "first_piece trimmed = (case split_rx noflags rx_two_spaces trimmed of
                            [] \<Rightarrow> take 40 trimmed | x # _ \<Rightarrow> x)"

text \<open>\<open>s.replace(t, "")\<close> with a string \<open>t\<close>: the first occurrence is removed.\<close>

fun remove_first :: "jsstring \<Rightarrow> jsstring \<Rightarrow> jsstring" where
  "remove_first t [] = []"
| "remove_first t (c # cs) =
     (if is_prefix t (c # cs) then drop (length t) (c # cs) else c # remove_first t cs)"

definition lits :: "jsstring \<Rightarrow> rx" where
  "lits s = seqs (map (\<lambda>c. Cls False [(c, c)]) s)"

definition safe_sku_char :: "jschar \<Rightarrow> bool" where
  "safe_sku_char c = (in_cset c [c2 CHR ''A'' CHR ''Z'', c2 CHR ''a'' CHR ''z'', c2 CHR ''0'' CHR ''9'']
                      \<or> c \<in> set (str ''-_.''))"

text \<open>
  The pattern built at run time from the SKU: \<open>(?:SKU|Part\s*(?:No|#))\s*[:.]?\s*\<close>
  followed by the SKU with \<open>-\<close>, \<open>_\<close> and \<open>.\<close> escaped. With letters, digits and
  these three characters the SKU is read literally; any other character would be read as
  pattern syntax, and the model answers \<open>None\<close> for it, which the callers turn into an
  error.
\<close>

definition sku_label_rx :: "jsstring \<Rightarrow> rx option" where
  "sku_label_rx sk =
     (if list_all safe_sku_char sk
      then Some (seqs [alts [lit ''SKU'',
                             seqs [lit ''Part'', star space, Alt (lit ''No'') (chr CHR ''#'')]],
                       star space, opt (oneof '':.''), star space, lits sk])
      else None)"

definition strip_sku :: "jsstring \<Rightarrow> jsstring \<Rightarrow> jsstring \<Rightarrow> error + jsstring" where
  "strip_sku sk trimmed nm =
     (case sku_label_rx sk of
        None \<Rightarrow> Inl SyntaxError
      | Some r \<Rightarrow>
          (let n1 = trim (replace_first iflag r [] nm);
               n2 = (if str_includes n1 sk then trim (remove_first sk n1) else n1)
           in Inr (if n2 = [] then first_piece trimmed else n2)))"

definition item_name :: "jsstring \<Rightarrow> jsstring option \<Rightarrow> error + jsstring" where
  "item_name trimmed sk =
     (let segs = filter (rx_test noflags rx_two_letters) (split_rx noflags rx_two_spaces trimmed);
          n0 = (case segs of [] \<Rightarrow> [] | seg # _ \<Rightarrow> trim seg);
          n1 = (if length n0 < 2 then trim (replace_first noflags rx_trailing_numbers [] trimmed)
                else n0)
      in ebind (if truthy_str sk \<and> str_includes n1 (the sk) then strip_sku (the sk) trimmed n1
                else Inr n1)
           (\<lambda>n2. let n3 = trim (replace_first noflags rx_row_number [] n2)
                  in Inr (if length n3 < 2 then first_piece trimmed else n3)))"

definition mk_part :: "jsstring \<Rightarrow> jsstring option \<Rightarrow> jsstring option \<Rightarrow> jsstring option
    \<Rightarrow> jsnum \<Rightarrow> jsnum option \<Rightarrow> jsnum option \<Rightarrow> jsnum option \<Rightarrow> jsnum \<Rightarrow> DataLiftPart" where
  "mk_part nm desc sk pn q up pct tax tot =
     \<lparr>itemName = nm, description = desc, sku = sk, partNumber = pn,
      manufacturerPartNumber = None, quantity = (if isNaN q then Fin 1 else q), unit = None,
      unitPrice = map_option (toFixed 4) up, discount = None, taxPercentage = pct,
      taxAmount = tax, totalAmount = toFixed 4 tot\<rparr>"

text \<open>The SKU of a line: the labelled pattern wins over the bare one.\<close>

definition find_sku :: "jsstring \<Rightarrow> jsstring option" where
  "find_sku trimmed =
     (case rx_exec iflag SKU_LABELED trimmed of
        Some skuLabeled \<Rightarrow> mgrp skuLabeled 1
      | None \<Rightarrow> (case rx_exec noflags SKU_BARE trimmed of
                   Some skuBare \<Rightarrow> mgrp skuBare 1 | None \<Rightarrow> None))"

text \<open>
  \<open>parseLineItem(line, lineNum, defaultTaxPct)\<close>; the line number is not used by the
  source. \<open>Inr None\<close> is the result \<open>null\<close>.
\<close>

definition parseLineItem :: "jsstring \<Rightarrow> jsnum option \<Rightarrow> error + DataLiftPart option" where
  "parseLineItem line defaultTaxPct =
     (let trimmed = trim line in
      if trimmed = [] \<or> length trimmed < 4 then Inr None
      else if rx_test iflag SUMMARY_LINE_RX trimmed then Inr None
      else if rx_test iflag HEADER_LINE_RX trimmed \<and> \<not> rx_test noflags digit trimmed then Inr None
      else
        let numTokens = num_tokens numPattern trimmed in
        if numTokens = [] then Inr None
        else
          let taxPercentage =
                (case List.find snd numTokens of
                   Some pctToken \<Rightarrow> Some (fst pctToken)
                 | None \<Rightarrow> (case rx_exec iflag TAX_PERCENT trimmed of
                              Some m \<Rightarrow> Some (parseFloat (orElse (mgrp m 1) (str ''undefined'')))
                            | None \<Rightarrow> None));
              sk = find_sku trimmed;
              candidateNums = candidates numTokens taxPercentage
          in
          if candidateNums = [] then Inr None
          else
            let totalAmount = last candidateNums in
            if jle totalAmount (Fin 0) \<or> jgt totalAmount (Fin 9999999) then Inr None
            else
              ebind (item_name trimmed sk) (\<lambda>nm.
                let (q, up0, tax0) = disambiguate taxPercentage (butlast candidateNums) totalAmount;
                    up = fill_unit_price q up0 totalAmount;
                    tax1 = tax_from_pct q up tax0 taxPercentage;
                    pct = (if tax1 = None \<and> defaultTaxPct \<noteq> None \<and> up \<noteq> None
                           then defaultTaxPct else taxPercentage);
                    tax2 = tax_from_pct q up tax1 defaultTaxPct
                in Inr (Some (mk_part nm None sk None q up pct tax2 totalAmount))))"

subsection \<open>Column-aligned table\<close>

definition tableKws :: "jsstring list" where
  "tableKws = map str [''description'', ''item'', ''qty'', ''quantity'', ''unit price'',
      ''unit cost'', ''price'', ''amount'', ''total'', ''tax'', ''sku'', ''product'', ''service'',
      ''particular'', ''rate'', ''no.'']"

definition tableFooterRx :: rx where
  "tableFooterRx = Seq Bol (Grp 1 (alts [seqs [lit ''sub'', star space, lit ''total''],
      lit ''subtotal'', lit ''total'', seqs [lit ''grand'', star space, lit ''total''],
      lit ''gst'', lit ''tax'', lit ''vat'', lit ''shipping'', lit ''discount'', lit ''balance'',
      seqs [lit ''net'', plus space, lit ''amount''], lit ''gross'',
      seqs [lit ''amount'', plus space, lit ''due'']]))"

definition rx_code_segment :: rx where
  "rx_code_segment = seqs [Bol, Cls False (digit_cs @ [c2 CHR ''A'' CHR ''Z'']),
                           atleast 2 (Cls False (word_cs @ map c1 ''-/.'')), Eol]"

definition rx_numbers_to_end :: rx where
  "rx_numbers_to_end = seqs [atleast 2 space,
                             plus (Cls False (digit_cs @ [(36, 36), (8364, 8364), (163, 163)]
                                              @ map c1 '',.%'')),
                             star anychar, Eol]"

definition rx_two_digits :: rx where
  "rx_two_digits = atleast 2 digit"

definition inferTaxPct :: "jsstring \<Rightarrow> jsnum option" where
  "inferTaxPct line = (case rx_exec iflag TAX_PERCENT line of
                         Some m \<Rightarrow> Some (parseFloat (orElse (mgrp m 1) (str ''undefined'')))
                       | None \<Rightarrow> None)"

text \<open>
  One data row of the table, with the line that follows it. The result is the part and
  whether the following line was consumed as its description; \<open>None\<close> is a skipped row.
\<close>

definition table_row :: "jsstring \<Rightarrow> jsstring option \<Rightarrow> (DataLiftPart \<times> bool) option" where
  "table_row line nxt =
     (if length (trim line) < 4 then None
      else
        let nums = num_tokens numRx line in
        if nums = [] then None
        else
          let taxPct = inferTaxPct line;
              candidateNums = candidates nums taxPct
          in
          if candidateNums = [] then None
          else
            let segs = filter (\<lambda>t. t \<noteq> []) (map trim (split_rx noflags rx_two_spaces line));
                n0 = (case filter (rx_test noflags rx_two_letters) segs of
                        [] \<Rightarrow> [] | t # _ \<Rightarrow> t);
                pn = (case filter (\<lambda>t. \<not> rx_test noflags rx_two_letters t \<and>
                                          rx_test noflags rx_code_segment t \<and>
                                          rx_test noflags digit t) segs of
                        [] \<Rightarrow> None | t # _ \<Rightarrow> Some t);
                n1 = (if length n0 < 2
                      then take 80 (trim (replace_first noflags rx_numbers_to_end [] line))
                      else n0);
                nm = trim (replace_first noflags rx_row_number [] n1)
            in
            if length nm < 2 \<or> \<not> rx_test noflags rx_two_letters nm then None
            else
              let tot = last candidateNums;
                  (q, up0, tax0) = disambiguate None (butlast candidateNums) tot;
                  up = fill_unit_price q up0 tot;
                  tax = tax_from_pct q up tax0 taxPct;
                  desc = (case nxt of
                            None \<Rightarrow> None
                          | Some nl \<Rightarrow>
                              let nextLine = trim nl in
                              if 3 < length nextLine \<and> \<not> rx_test noflags rx_two_digits nextLine \<and>
                                 \<not> rx_test iflag tableFooterRx nextLine \<and>
                                 rx_test noflags rx_two_letters nextLine
                              then Some nextLine else None);
                  skuM = (case rx_exec iflag SKU_LABELED nm of
                            Some m \<Rightarrow> Some m | None \<Rightarrow> rx_exec noflags SKU_BARE nm);
                  sk = (case skuM of Some m \<Rightarrow> mgrp m 1 | None \<Rightarrow> None);
                  shown = (if truthy_str sk
                           then (let t = trim (remove_first (mtext (the skuM)) nm)
                                 in if t = [] then nm else t)
                           else nm)
              in Some (mk_part shown desc sk (case pn of Some p \<Rightarrow> Some p | None \<Rightarrow> sk)
                         q up taxPct tax tot, desc \<noteq> None))"

fun table_rows :: "jsstring list \<Rightarrow> DataLiftPart list" where
  "table_rows [] = []"
| "table_rows [l] =
     (if rx_test iflag tableFooterRx (trim l) then []
      else case table_row l None of None \<Rightarrow> [] | Some (it, used) \<Rightarrow> [it])"
| "table_rows (l # n # ls) =
     (if rx_test iflag tableFooterRx (trim l) then []
      else case table_row l (Some n) of
             None \<Rightarrow> table_rows (n # ls)
           | Some (it, used) \<Rightarrow> it # (if used then table_rows ls else table_rows (n # ls)))"

definition extractFromColumnTable :: "jsstring list \<Rightarrow> DataLiftPart list" where
  "extractFromColumnTable lines =
     (case first_idx (\<lambda>i l. 2 \<le> kw_hits tableKws (toLowerCase l)) 0 lines of
        None \<Rightarrow> []
      | Some headerIdx \<Rightarrow> table_rows (drop (Suc headerIdx) lines))"

subsection \<open>Multi-line items\<close>

definition multiFooterRx :: rx where
  "multiFooterRx = Seq Bol (Grp 1 (alts [seqs [lit ''sub'', star space, lit ''total''],
      lit ''subtotal'', lit ''total'', lit ''gst'', lit ''tax'', lit ''vat'', lit ''shipping'',
      lit ''discount'', lit ''balance'']))"

text \<open>\<open>^[A-Za-z][^$\<euro>\<pounds>\d]*$\<close>: the dollar, euro (8364) and pound (163) signs.\<close>

definition descOnlyRx :: rx where
  "descOnlyRx = seqs [Bol, Cls False [c2 CHR ''A'' CHR ''Z'', c2 CHR ''a'' CHR ''z''],
                      star (Cls True ([(36, 36), (8364, 8364), (163, 163)] @ digit_cs)), Eol]"

text \<open>
  The lines after an item: a description line is attached and consumed, then a line with
  a labelled SKU. The result is the item and the number of lines consumed.
\<close>

definition attach_following :: "DataLiftPart \<Rightarrow> jsstring list \<Rightarrow> DataLiftPart \<times> nat" where
  "attach_following item ls =
     (case ls of
        [] \<Rightarrow> (item, 0)
      | nl # ls' \<Rightarrow>
          let nxt = trim nl;
              hasDesc = (3 < length nxt \<and> rx_test noflags descOnlyRx nxt \<and>
                         \<not> rx_test iflag multiFooterRx nxt);
              item1 = (if hasDesc then item\<lparr>description := Some nxt\<rparr> else item);
              used = (if hasDesc then 1 else 0)
          in (case drop used ls of
                [] \<Rightarrow> (item1, used)
              | sl # _ \<Rightarrow>
                  (case rx_exec iflag SKU_LABELED (trim sl) of
                     Some skuM \<Rightarrow> (item1\<lparr>sku := mgrp skuM 1\<rparr>, used + 1)
                   | None \<Rightarrow> (item1, used))))"

function extractMultiLineItems :: "jsstring list \<Rightarrow> error + DataLiftPart list" where
  "extractMultiLineItems [] = Inr []"
| "extractMultiLineItems (line # ls) =
     (if rx_test iflag multiFooterRx (trim line) then Inr []
      else case parseLineItem line None of
             Inl e \<Rightarrow> Inl e
           | Inr None \<Rightarrow> extractMultiLineItems ls
           | Inr (Some item) \<Rightarrow>
               (case extractMultiLineItems (drop (snd (attach_following item ls)) ls) of
                  Inl e \<Rightarrow> Inl e
                | Inr items \<Rightarrow> Inr (fst (attach_following item ls) # items)))"
  by pat_completeness auto
termination
  by (relation "measure length") auto

subsection \<open>Vertical form\<close>

text \<open>
  The fields of the label table. The table is a plain object of the source language, so a
  lookup also answers for the two all-lower-case names it inherits (\<open>constructor\<close> and
  \<open>__proto__\<close>) with a value that is not one of the field names.
\<close>

datatype vfield = PartNumberF | DescriptionF | QuantityF | UnitPriceF | ListPriceF | TotalF
  | CoreDepositF | InheritedF jsstring

definition labelMap :: "jsstring \<Rightarrow> vfield option" where
  "labelMap = map_of
     [(str ''part number'', PartNumberF), (str ''part no'', PartNumberF),
      (str ''part#'', PartNumberF), (str ''item no'', PartNumberF),
      (str ''item number'', PartNumberF), (str ''description'', DescriptionF),
      (str ''line description'', DescriptionF), (str ''item description'', DescriptionF),
      (str ''quantity'', QuantityF), (str ''qty'', QuantityF), (str ''net'', UnitPriceF),
      (str ''unit price'', UnitPriceF), (str ''unit cost'', UnitPriceF),
      (str ''price'', ListPriceF), (str ''total'', TotalF), (str ''line total'', TotalF),
      (str ''amount'', TotalF), (str ''core deposit'', CoreDepositF),
      (str ''constructor'', InheritedF (str ''constructor'')),
      (str ''__proto__'', InheritedF (str ''__proto__''))]"

definition numericFields :: "vfield list" where
  "numericFields = [QuantityF, UnitPriceF, ListPriceF, TotalF, CoreDepositF]"

definition rx_label_end :: rx where
  "rx_label_end = Seq (plus (oneof '':.'')) Eol"

definition label_key :: "jsstring \<Rightarrow> jsstring" where
  "label_key l = trim (replace_first noflags rx_label_end [] (toLowerCase (trim l)))"

definition verticalStopRx :: rx where
  "verticalStopRx = Seq Bol (alts [seqs [lit ''sub'', star space, lit ''total''], lit ''subtotal'',
      lit ''total'', lit ''tax'', lit ''gst'', lit ''vat'', lit ''shipping''])"

record vstate =
  collected :: "vfield \<Rightarrow> jsstring option"
  foundLabels :: nat

definition record_field :: "vfield \<Rightarrow> jsstring \<Rightarrow> vstate \<Rightarrow> vstate" where
  "record_field f v st =
     (if \<not> truthy_str (collected st f)
      then \<lparr>collected = (collected st)(f \<mapsto> v), foundLabels = foundLabels st + 1\<rparr>
      else st)"

text \<open>The value of a label: the first non-blank of the next two lines decides.\<close>

fun look_ahead :: "vfield \<Rightarrow> jsstring list \<Rightarrow> vstate \<Rightarrow> vstate" where
  "look_ahead f [] st = st"
| "look_ahead f (v # vs) st =
     (let val = trim v in
      if val = [] then look_ahead f vs st
      else if labelMap (label_key val) \<noteq> None then st
      else if rx_test iflag verticalStopRx val then st
      else if f \<in> set numericFields \<and> \<not> rx_test noflags digit val then st
      else record_field f val st)"

fun collect_labels :: "jsstring list \<Rightarrow> vstate \<Rightarrow> vstate" where
  "collect_labels [] st = st"
| "collect_labels (l # ls) st =
     collect_labels ls (case labelMap (label_key l) of
                          None \<Rightarrow> st
                        | Some f \<Rightarrow> look_ahead f (take 2 ls) st)"

definition qtyInlineRx :: rx where
  "qtyInlineRx = seqs [WordB, lit ''qty'', star space, opt (oneof '':.''), star space,
                       Grp 1 (plus digit), WordB]"

fun collect_qty :: "jsstring list \<Rightarrow> vstate \<Rightarrow> vstate" where
  "collect_qty [] st = st"
| "collect_qty (l # ls) st =
     collect_qty ls
       (case rx_exec iflag qtyInlineRx l of
          Some qtyInline \<Rightarrow>
            if \<not> truthy_str (collected st QuantityF)
            then \<lparr>collected = (collected st)(QuantityF := mgrp qtyInline 1),
                  foundLabels = foundLabels st + 1\<rparr>
            else st
        | None \<Rightarrow> st)"

definition regionStartRx :: rx where
  "regionStartRx = Seq Bol (Alt (seqs [lit ''part'', star space, lit ''number''])
                               (lit ''description''))"

definition regionStopRx :: rx where
  "regionStopRx = Seq Bol (alts [seqs [lit ''sub'', star space, lit ''total''], lit ''subtotal'',
      lit ''total'', lit ''tax'', lit ''gst'', lit ''vat'', lit ''invoice'', lit ''customer'',
      lit ''employee'', lit ''sales'', lit ''salesman'', lit ''attention'', lit ''terms'',
      lit ''delivery'', lit ''tender'', lit ''paid''])"

definition rx_three_letters :: rx where
  "rx_three_letters = atleast 3 (Cls False [c2 CHR ''A'' CHR ''Z'', c2 CHR ''a'' CHR ''z''])"

definition rx_pure_code :: rx where
  "rx_pure_code = seqs [Bol, plus (Cls False (digit_cs @ map c1 ''-./#'')), Eol]"

text \<open>The description fallback: the first substantive line after the label region starts.\<close>

fun find_description :: "jsstring option \<Rightarrow> jsstring list \<Rightarrow> jsstring option" where
  "find_description pn [] = None"
| "find_description pn (l # ls) =
     (let trimmed = trim l in
      if trimmed = [] \<or> length trimmed < 5 then find_description pn ls
      else if labelMap (label_key trimmed) \<noteq> None then find_description pn ls
      else if rx_test iflag regionStopRx trimmed then None
      else if rx_test noflags rx_three_letters trimmed \<and> \<not> rx_test noflags rx_pure_code trimmed
      then (if Some trimmed = pn then find_description pn ls else Some trimmed)
      else find_description pn ls)"

definition description_fallback :: "jsstring list \<Rightarrow> vstate \<Rightarrow> vstate" where
  "description_fallback allLines st =
     (if \<not> truthy_str (collected st DescriptionF) \<and> truthy_str (collected st PartNumberF) then
        (case first_idx (\<lambda>i l. rx_test iflag regionStartRx (trim l)) 0 allLines of
           None \<Rightarrow> st
         | Some startIdx \<Rightarrow>
             (case find_description (collected st PartNumberF) (drop (Suc startIdx) allLines) of
                None \<Rightarrow> st
              | Some d \<Rightarrow> st\<lparr>collected := (collected st)(DescriptionF \<mapsto> d)\<rparr>))
      else st)"

definition rx_not_amount_char :: rx where
  "rx_not_amount_char = Cls True (digit_cs @ [c1 CHR ''.''])"

definition parseAmt :: "jsstring option \<Rightarrow> jsnum option" where
  "parseAmt s =
     (if \<not> truthy_str s then None
      else let n = parseFloat (replace_all noflags rx_not_amount_char [] (the s))
           in if isNaN n then None else Some n)"

definition standaloneAmountRx :: rx where
  "standaloneAmountRx = seqs [Bol, opt (chr CHR ''$''), star space,
      Grp 1 (seqs [plus (Cls False (digit_cs @ [c1 CHR '',''])), chr CHR ''.'', times 1 4 digit]),
      star space, Eol]"

definition amount_of :: "jsmatch \<Rightarrow> error + jsnum" where
  "amount_of amtM = ebind (grp_of amtM 1) (\<lambda>g. Inr (parseFloat (replace_all noflags rx_comma [] g)))"

text \<open>The rescan for the core deposit: the first amount above 2 in the lines given.\<close>

fun deposit_after :: "jsstring list \<Rightarrow> error + jsnum option" where
  "deposit_after [] = Inr None"
| "deposit_after (l # ls) =
     (case rx_exec noflags standaloneAmountRx (trim l) of
        None \<Rightarrow> deposit_after ls
      | Some amtM \<Rightarrow> ebind (amount_of amtM)
                       (\<lambda>amt. if jgt amt (Fin 2) then Inr (Some amt) else deposit_after ls))"

definition bare_part :: "jsstring \<Rightarrow> jsstring option \<Rightarrow> jsnum \<Rightarrow> jsnum option \<Rightarrow> jsnum
                         \<Rightarrow> DataLiftPart" where
  "bare_part nm pn q up tot =
     \<lparr>itemName = nm, description = None, sku = None, partNumber = pn,
      manufacturerPartNumber = None, quantity = q, unit = None, unitPrice = up,
      discount = None, taxPercentage = None, taxAmount = None, totalAmount = tot\<rparr>"

definition extractVerticalFormItems :: "jsstring list \<Rightarrow> error + DataLiftPart list" where
  "extractVerticalFormItems allLines =
     (let st = description_fallback allLines
                 (collect_qty allLines
                    (collect_labels allLines \<lparr>collected = (\<lambda>f. None), foundLabels = 0\<rparr>));
          c = collected st
      in
      if foundLabels st < 2 \<or> (\<not> truthy_str (c DescriptionF) \<and> \<not> truthy_str (c PartNumberF))
      then Inr []
      else
        let unitPrice = (case parseAmt (c UnitPriceF) of Some u \<Rightarrow> Some u
                         | None \<Rightarrow> parseAmt (c ListPriceF));
            tot = (case parseAmt (c TotalF) of Some t \<Rightarrow> Some t | None \<Rightarrow> unitPrice);
            q = orElse (parseAmt (c QuantityF)) (Fin 1)
        in
        if \<not> truthy_num (orElse tot NaN) \<and> \<not> truthy_num (orElse unitPrice NaN) then Inr []
        else
          let item = bare_part
                (case c DescriptionF of Some d \<Rightarrow> d
                 | None \<Rightarrow> (case c PartNumberF of Some p \<Rightarrow> p | None \<Rightarrow> []))
                (c PartNumberF) q
                (case unitPrice of Some u \<Rightarrow> Some u
                 | None \<Rightarrow> if truthy_num (orElse tot NaN)
                           then Some (toFixed 4 (jdiv (the tot) q)) else None)
                (case tot of Some t \<Rightarrow> t
                 | None \<Rightarrow> if truthy_num (orElse unitPrice NaN)
                           then toFixed 4 (jmul (the unitPrice) q) else Fin 0);
              cd0 = parseAmt (c CoreDepositF)
          in
          ebind (case cd0 of
                   None \<Rightarrow> Inr cd0
                 | Some d \<Rightarrow>
                     if jle d (Fin 2) \<and> truthy_str (c TotalF) then
                       (case first_idx (\<lambda>i l. trim l = the (c TotalF)) 0 allLines of
                          None \<Rightarrow> Inr cd0
                        | Some totalIdx \<Rightarrow>
                            ebind (deposit_after (take 3 (drop (Suc totalIdx) allLines)))
                              (\<lambda>r. Inr (case r of Some amt \<Rightarrow> Some amt | None \<Rightarrow> cd0)))
                     else Inr cd0)
            (\<lambda>coreDeposit.
               Inr (item # (case coreDeposit of
                              None \<Rightarrow> []
                            | Some d \<Rightarrow>
                                if truthy_num d \<and> jgt d (Fin 0)
                                then [bare_part (str ''Core Deposit'') None (Fin 1) (Some d) d]
                                else []))))"

subsection \<open>The strategies in order\<close>

text \<open>The fallback \<open>lines.forEach\<close>: every line on which \<open>parseLineItem\<close> succeeds.\<close>

fun per_line :: "jsstring list \<Rightarrow> error + DataLiftPart list" where
  "per_line [] = Inr []"
| "per_line (l # ls) =
     ebind (parseLineItem l None) (\<lambda>r.
     ebind (per_line ls) (\<lambda>items.
       Inr (case r of None \<Rightarrow> items | Some item \<Rightarrow> item # items)))"

definition extractParts :: "jsstring list \<Rightarrow> jsstring list \<Rightarrow> error + DataLiftPart list" where
  "extractParts bodyLs allLs =
     (let tableItems = extractFromColumnTable bodyLs in
      if 0 < length tableItems then Inr tableItems
      else ebind (extractVerticalFormItems allLs) (\<lambda>verticalItems.
        if 0 < length verticalItems then Inr verticalItems
        else ebind (extractMultiLineItems bodyLs) (\<lambda>multiItems.
          if 0 < length multiItems then Inr multiItems
          else ebind (per_line bodyLs) (\<lambda>items.
            if 0 < length items then Inr items
            else per_line allLs))))"

section \<open>Currency, language and document type\<close>

text \<open>
  \<open>CURRENCY_MAP\<close>, in order: pattern and code. The symbols are the euro (8364), pound
  (163), rupee (8377) and yen (165) signs.
\<close>

definition CURRENCY_MAP :: "(rx \<times> jsstring \<times> jsstring) list" where
  "CURRENCY_MAP =
     [(alts [lit ''A$'', lit ''AUD'', seqs [lit ''australian'', plus space, lit ''dollar'']],
       str ''AUD'', str ''A$''),
      (alts [chr CHR ''$'', lit ''USD'', lit ''US$'', seqs [lit ''US'', plus space, lit ''dollar'']],
       str ''USD'', str ''$''),
      (alts [Cls False [(8364, 8364)], lit ''EUR'', lit ''euro''], str ''EUR'', [8364]),
      (alts [Cls False [(163, 163)], lit ''GBP'', lit ''sterling''], str ''GBP'', [163]),
      (alts [Cls False [(8377, 8377)], lit ''INR'', lit ''Rs.''], str ''INR'', [8377]),
      (alts [Cls False [(165, 165)], lit ''JPY'', lit ''yen''], str ''JPY'', [165]),
      (alts [lit ''NZD'', lit ''NZ$''], str ''NZD'', str ''NZ$''),
      (alts [lit ''CAD'', lit ''C$''], str ''CAD'', str ''C$''),
      (alts [lit ''SGD'', lit ''S$''], str ''SGD'', str ''S$''),
      (alts [lit ''AED'', lit ''dirham''], str ''AED'', str ''AED'')]"

text \<open>\<open>detectCurrency\<close>: code and symbol of the first entry whose pattern occurs.\<close>

definition detectCurrency :: "jsstring \<Rightarrow> jsstring \<times> jsstring" where
  "detectCurrency text =
     (case filter (\<lambda>e. rx_test iflag (fst e) text) CURRENCY_MAP of
        [] \<Rightarrow> (str ''USD'', str ''$'')
      | e # _ \<Rightarrow> snd e)"

definition words_rx :: "string list \<Rightarrow> rx" where
  "words_rx ws = seqs [WordB, Grp 1 (alts (map lit ws)), WordB]"

text \<open>The German word list holds \<open>f\<udieresis>r\<close>, with the letter U+00FC.\<close>

definition rx_fuer :: rx where
  "rx_fuer = seqs [chr CHR ''f'', Cls False [(252, 252)], chr CHR ''r'']"

definition detectLanguage :: "jsstring \<Rightarrow> jsstring" where
  "detectLanguage text =
     (let s = toLowerCase (take 800 text) in
      if rx_test noflags (words_rx [''the'', ''and'', ''for'', ''with'', ''from'', ''this'',
            ''that'', ''are'', ''have'', ''not'', ''invoice'', ''receipt'', ''payment'',
            ''shipping'', ''price'', ''quantity'', ''amount'', ''order'', ''discount'',
            ''street'', ''phone'', ''terms'']) s then str ''en''
      else if rx_test noflags (words_rx [''le'', ''la'', ''les'', ''de'', ''du'', ''un'', ''une'',
            ''avec'', ''pour'', ''pas'']) s then str ''fr''
      else if rx_test noflags (seqs [WordB, Grp 1 (alts [lit ''der'', lit ''die'', lit ''das'',
            lit ''und'', rx_fuer, lit ''mit'', lit ''nicht'', lit ''ein'', lit ''eine'']), WordB]) s
           then str ''de''
      else if rx_test noflags (words_rx [''el'', ''la'', ''los'', ''de'', ''del'', ''un'', ''una'',
            ''con'', ''para'', ''que'']) s then str ''es''
      else if rx_test noflags (words_rx [''il'', ''lo'', ''la'', ''e'', ''di'', ''del'', ''un'',
            ''una'', ''con'', ''per'']) s then str ''it''
      else str ''en'')"

text \<open>The keyword table of \<open>classifyDocumentType\<close>, in the insertion order of the scores.\<close>

definition typeKeywords :: "(jsstring \<times> jsstring list) list" where
  "typeKeywords =
     [(str ''invoice'', map str [''invoice'', ''inv #'', ''inv no'', ''bill to'', ''amount due'',
                                 ''tax invoice'']),
      (str ''receipt'', map str [''receipt'', ''thank you for your purchase'', ''cash'',
                                 ''change due'', ''transaction'']),
      (str ''purchase_order'', map str [''purchase order'', ''p.o.'', ''po#'', ''po number'',
                                        ''ship to'', ''ordered by'']),
      (str ''work_order'', map str [''work order'', ''wo#'', ''technician'', ''labour'',
                                    ''asset id'', ''fault'']),
      (str ''bill'', map str [''bill'', ''billing period'', ''account no'', ''utility'',
                              ''electricity'', ''gas'']),
      (str ''statement'', map str [''statement'', ''opening balance'', ''closing balance'',
                                   ''transactions'']),
      (str ''quote'', map str [''quotation'', ''quote'', ''estimate'', ''valid until'', ''quoted'']),
      (str ''cmms'', map str [''cmms'', ''maintenance'', ''work request'',
                              ''preventive maintenance'']),
      (str ''supplier_document'', map str [''vendor'', ''supplier'', ''packing list'',
                                           ''delivery note'', ''delivery docket'']),
      (str ''contract'', map str [''contract'', ''agreement'', ''whereas'', ''parties'', ''signed'']),
      (str ''generic'', [])]"

text \<open>The \<open>reduce\<close> of the source: the first entry with the largest score.\<close>

fun best_score :: "(jsstring \<times> nat) \<Rightarrow> (jsstring \<times> nat) list \<Rightarrow> jsstring \<times> nat" where
  "best_score a [] = a"
| "best_score a (b # bs) = best_score (if snd a < snd b then b else a) bs"

definition classifyDocumentType :: "jsstring \<Rightarrow> jsstring" where
  "classifyDocumentType text =
     (let lower = toLowerCase text;
          scores = map (\<lambda>(ty, kws). (ty, kw_hits kws lower)) typeKeywords;
          best = best_score (hd scores) (tl scores)
      in if 0 < snd best then fst best else str ''generic'')"

section \<open>Contact details, addresses and tax identifiers\<close>

definition phone_sep :: rx where
  "phone_sep = Cls False (blank_cs @ map c1 ''-.'')"

definition PHONE :: rx where
  "PHONE = Alt (seqs [chr CHR ''+'', times 1 3 digit, opt phone_sep,
                      times 1 4 (seqs [opt (chr CHR ''(''), times 1 4 digit, opt (chr CHR '')''),
                                       phone_sep]),
                      times 2 6 digit])
               (seqs [opt (chr CHR ''(''), times 2 4 digit, opt (chr CHR '')''), opt phone_sep,
                      times 3 4 digit, opt phone_sep, times 3 4 digit])"

definition EMAIL :: rx where
  "EMAIL = seqs [plus (Cls False (word_cs @ map c1 ''.+-'')), chr CHR ''@'',
                 plus (Cls False (word_cs @ [c1 CHR ''-''])), chr CHR ''.'',
                 atleast 2 (Cls False (word_cs @ [c1 CHR ''.'']))]"

definition URL :: rx where
  "URL = Alt (seqs [lit ''http'', opt (chr CHR ''s''), lit ''://'', plus nonspace])
             (seqs [lit ''www.'', plus nonspace])"

definition rx_zip4 :: rx where
  "rx_zip4 = seqs [Bol, times 5 5 digit, chr CHR ''-'', times 4 4 digit, Eol]"

text \<open>\<open>Array.from(new Set(xs))\<close>: the first occurrence of each element, in order.\<close>

definition dedupe :: "'a list \<Rightarrow> 'a list" where
  "dedupe xs = rev (remdups (rev xs))"

definition digits_of :: "jsstring \<Rightarrow> jsstring" where
  "digits_of p = filter is_digit p"

definition extractPhones :: "jsstring \<Rightarrow> jsstring list" where
  "extractPhones text =
     dedupe (filter (\<lambda>p. \<not> rx_test noflags rx_zip4 p)
               (filter (\<lambda>p. 7 \<le> length (digits_of p))
                  (map trim (match_all noflags PHONE text))))"

definition extractEmails :: "jsstring \<Rightarrow> jsstring list" where
  "extractEmails text = dedupe (map toLowerCase (match_all iflag EMAIL text))"

definition extractURLs :: "jsstring \<Rightarrow> jsstring list" where
  "extractURLs text = dedupe (map trim (match_all iflag URL text))"

record DataLiftAddress =
  street :: "jsstring option"
  city :: "jsstring option"
  state :: "jsstring option"
  postalCode :: "jsstring option"
  country :: "jsstring option"
  fullAddress :: "jsstring option"

record DataLiftContact =
  phone :: "jsstring option"
  email :: "jsstring option"
  website :: "jsstring option"

record DataLiftTaxInformation =
  taxId :: "jsstring option"
  gstNumber :: "jsstring option"
  vatNumber :: "jsstring option"
  ein :: "jsstring option"
  abnNumber :: "jsstring option"
  acnNumber :: "jsstring option"

definition au_state_names :: rx where
  "au_state_names = alts [lit ''NSW'', lit ''VIC'', lit ''QLD'', lit ''SA'', lit ''WA'', lit ''TAS'',
                          lit ''ACT'', lit ''NT'']"

definition AU_STATES :: rx where
  "AU_STATES = seqs [WordB, Grp 1 au_state_names, WordB]"

definition letter_cs :: cset where
  "letter_cs = [c2 CHR ''A'' CHR ''Z'', c2 CHR ''a'' CHR ''z'']"

definition AU_SUBURB_STATE_PC :: rx where
  "AU_SUBURB_STATE_PC = seqs [Grp 1 (Seq (Cls False letter_cs)
                                         (times 1 30 (Cls False (letter_cs @ space_cs)))),
                              plus space, Grp 2 au_state_names, plus space,
                              Grp 3 (times 4 4 digit)]"

definition COUNTRY_CODES :: "(jsstring \<times> jsstring) list" where
  "COUNTRY_CODES =
     [(str ''australia'', str ''AU''), (str ''united states'', str ''US''),
      (str ''usa'', str ''US''), (str ''u.s.a'', str ''US''), (str ''united kingdom'', str ''GB''),
      (str ''uk'', str ''GB''), (str ''india'', str ''IN''), (str ''canada'', str ''CA''),
      (str ''new zealand'', str ''NZ''), (str ''nz'', str ''NZ''), (str ''germany'', str ''DE''),
      (str ''france'', str ''FR''), (str ''singapore'', str ''SG'')]"

definition rx_zip :: rx where
  "rx_zip = seqs [WordB, Grp 1 (Seq (times 5 5 digit) (opt (Seq (chr CHR ''-'') (times 4 4 digit)))),
                  WordB]"

definition rx_city_state_zip :: rx where
  "rx_city_state_zip = seqs [Grp 1 (times 2 30 (Cls False (letter_cs @ [c1 CHR '' '']))),
                             chr CHR '','', star space,
                             Grp 2 (times 2 2 (Cls False [c2 CHR ''A'' CHR ''Z''])),
                             plus space, times 5 5 digit]"

definition rx_street :: rx where
  "rx_street = seqs [Bol, times 1 5 digit, plus space, wordc]"

text \<open>The non-empty trimmed lines of a block.\<close>

definition clean_lines :: "jsstring \<Rightarrow> jsstring list" where
  "clean_lines s = filter (\<lambda>l. l \<noteq> []) (map trim (split_lines s))"

definition parseAddress :: "jsstring \<Rightarrow> error + DataLiftAddress" where
  "parseAddress block =
     (let lines = clean_lines block in
      ebind (case rx_exec noflags AU_SUBURB_STATE_PC block of
               None \<Rightarrow> Inr (None, None, None, None)
             | Some auMatch \<Rightarrow>
                 ebind (grp_of auMatch 1)
                   (\<lambda>g. Inr (Some (trim g), mgrp auMatch 2, mgrp auMatch 3, Some (str ''AU''))))
        (\<lambda>(city0, state0, pc0, country0).
           let country1 =
                 (if \<not> truthy_str country0 then
                    (case filter (\<lambda>e. str_includes (toLowerCase block) (fst e)) COUNTRY_CODES of
                       [] \<Rightarrow> country0 | e # _ \<Rightarrow> Some (snd e))
                  else country0)
           in
           ebind (if \<not> truthy_str pc0 then
                    (let pc1 = (case rx_exec noflags rx_zip block of
                                  None \<Rightarrow> pc0 | Some zipMatch \<Rightarrow> mgrp zipMatch 1)
                     in case rx_exec noflags rx_city_state_zip block of
                          None \<Rightarrow> Inr (city0, state0, pc1, country1)
                        | Some csz \<Rightarrow>
                            ebind (grp_of csz 1)
                              (\<lambda>g. let st = mgrp csz 2;
                                        c2 = (if country1 = Some (str ''AU'') \<and>
                                                 \<not> rx_test noflags AU_STATES
                                                     (orElse st (str ''undefined''))
                                              then Some (str ''US'') else country1);
                                        c3 = (if \<not> truthy_str c2 then Some (str ''US'') else c2)
                                    in Inr (Some (trim g), st, pc1, c3)))
                  else Inr (city0, state0, pc0, country1))
             (\<lambda>(cty, sta, pc, ctry).
                let str0 = (case filter (\<lambda>l. rx_test noflags rx_street l \<and> 5 < length l) lines of
                              [] \<Rightarrow> None | l # _ \<Rightarrow> Some l);
                    cs = (if truthy_str cty \<and> truthy_str sta
                          then Some (the cty @ str '' '' @ the sta)
                          else (case cty of Some c \<Rightarrow> Some c | None \<Rightarrow> sta));
                    parts = map the (filter truthy_str [str0, cs, pc, ctry])
                in Inr \<lparr>street = str0, city = cty, state = sta, postalCode = pc, country = ctry,
                        fullAddress = (if 0 < length parts then Some (join (str '', '') parts)
                                       else None)\<rparr>)))"

definition id_sep :: rx where
  "id_sep = star (Cls False (space_cs @ map c1 '':#.''))"

definition ABN :: rx where
  "ABN = seqs [WordB, lit ''ABN'', id_sep,
               Grp 1 (seqs [times 2 2 digit, opt space, times 3 3 digit, opt space,
                            times 3 3 digit, opt space, times 3 3 digit]), WordB]"

definition ACN :: rx where
  "ACN = seqs [WordB, lit ''ACN'', id_sep,
               Grp 1 (seqs [times 3 3 digit, opt space, times 3 3 digit, opt space,
                            times 3 3 digit]), WordB]"

definition GST_AU :: rx where
  "GST_AU = seqs [WordB, lit ''GST'', star (Cls False (space_cs @ map c1 ''#:.-'')),
                  opt (Alt (Seq (lit ''No'') (opt (chr CHR ''.''))) (lit ''Number'')), id_sep,
                  Grp 1 (plus (Cls False (alnum_cs @ [c1 CHR ''-''])))]"

definition EIN :: rx where
  "EIN = seqs [WordB, alts [lit ''EIN'', seqs [lit ''Tax'', star space, lit ''ID''],
                            seqs [lit ''Federal'', star space, lit ''Tax'']], id_sep,
               Grp 1 (seqs [times 2 2 digit, chr CHR ''-'', times 7 7 digit]), WordB]"

definition VAT :: rx where
  "VAT = seqs [WordB, Alt (lit ''VAT'') (seqs [lit ''VAT'', star space, lit ''No'',
                                                opt (chr CHR ''.'')]), id_sep,
               Grp 1 (seqs [times 2 2 (Cls False [c2 CHR ''A'' CHR ''Z'']), opt space,
                            times 7 12 digit]), WordB]"

definition GSTIN :: rx where
  "GSTIN = seqs [WordB, Alt (lit ''GSTIN'') (seqs [lit ''GST'', star space, lit ''No'',
                                                    opt (chr CHR ''.'')]), id_sep,
                 Grp 1 (seqs [times 2 2 digit, times 5 5 (Cls False [c2 CHR ''A'' CHR ''Z'']),
                              times 4 4 digit, times 1 1 (Cls False [c2 CHR ''A'' CHR ''Z'']),
                              times 1 1 (Cls False [c2 CHR ''1'' CHR ''9'', c2 CHR ''A'' CHR ''Z'']),
                              chr CHR ''Z'',
                              times 1 1 (Cls False [c2 CHR ''0'' CHR ''9'', c2 CHR ''A'' CHR ''Z''])]),
                 WordB]"

definition squeeze :: "jsstring \<Rightarrow> jsstring" where
  "squeeze s = trim (replace_all noflags rx_spaces [Lit (str '' '')] s)"

text \<open>
  \<open>extractTaxInformation\<close>. The result is \<open>undefined\<close> when no identifier was
  assigned.
\<close>

definition extractTaxInformation :: "jsstring \<Rightarrow> error + DataLiftTaxInformation option" where
  "extractTaxInformation text =
     (let abnM = rx_exec iflag ABN text;
          abn = (case abnM of Some m \<Rightarrow> if truthy_str (mgrp m 1)
                                          then Some (str ''ABN: '' @ squeeze (the (mgrp m 1)))
                                          else None
                 | None \<Rightarrow> None);
          acnM = rx_exec iflag ACN text;
          acn = (case acnM of Some m \<Rightarrow> if truthy_str (mgrp m 1)
                                          then Some (squeeze (the (mgrp m 1))) else None
                 | None \<Rightarrow> None);
          gstM = rx_exec iflag GST_AU text;
          einM = rx_exec iflag EIN text;
          vatM = rx_exec iflag VAT text;
          vat = (case vatM of Some m \<Rightarrow> if truthy_str (mgrp m 1)
                                          then Some (replace_all noflags space [] (the (mgrp m 1)))
                                          else None
                 | None \<Rightarrow> None);
          gstinM = rx_exec iflag GSTIN text
      in
      ebind (case gstM of None \<Rightarrow> Inr None
             | Some m \<Rightarrow> ebind (grp_of m 1) (\<lambda>g. Inr (Some (trim g))))
        (\<lambda>gst.
           if abn = None \<and> acn = None \<and> gstM = None \<and> einM = None \<and> vat = None \<and> gstinM = None
           then Inr None
           else Inr (Some \<lparr>taxId = (case einM of Some m \<Rightarrow> mgrp m 1 | None \<Rightarrow> None),
                           gstNumber = (case gstinM of Some m \<Rightarrow> mgrp m 1 | None \<Rightarrow> gst),
                           vatNumber = vat, ein = None, abnNumber = abn, acnNumber = acn\<rparr>)))"

section \<open>Supplier and buyer\<close>

record DataLiftSupplier =
  supplierName :: jsstring
  supplierAddress :: DataLiftAddress
  supplierContact :: DataLiftContact
  taxInformation :: "DataLiftTaxInformation option"

record BuyerAddress =
  buyerFullAddress :: "jsstring option"

record BuyerContact =
  buyerPhone :: "jsstring option"
  buyerEmail :: "jsstring option"

record DataLiftBuyer =
  buyerName :: "jsstring option"
  buyerAddress :: "BuyerAddress option"
  buyerContact :: "BuyerContact option"

definition rx_eight_digits :: rx where
  "rx_eight_digits = atleast 8 digit"

definition isPhoneLike :: "jsstring \<Rightarrow> bool" where
  "isPhoneLike p =
     (let n = length (digits_of p) in
      if n < 7 \<or> 15 < n then False
      else if rx_test noflags rx_eight_digits p then False
      else True)"

definition first_opt :: "'a list \<Rightarrow> 'a option" where
  "first_opt xs = (case xs of [] \<Rightarrow> None | x # _ \<Rightarrow> Some x)"

definition buildSupplier :: "jsstring option \<Rightarrow> jsstring \<Rightarrow> error + DataLiftSupplier" where
  "buildSupplier nameHint headerBlock =
     (let phones = extractPhones headerBlock;
          emails = extractEmails headerBlock;
          urls = extractURLs headerBlock
      in
      ebind (parseAddress headerBlock) (\<lambda>address.
      ebind (extractTaxInformation headerBlock) (\<lambda>taxInfo.
        let formattedPhone =
              List.find (\<lambda>p. rx_test noflags (oneof ''()-. '') p \<and> 10 \<le> length (digits_of p) \<and>
                              isPhoneLike p) phones;
            fallbackPhone = List.find isPhoneLike phones
        in Inr \<lparr>supplierName = orElse nameHint [],
                supplierAddress = address,
                supplierContact =
                  \<lparr>phone = (case formattedPhone of Some p \<Rightarrow> Some p | None \<Rightarrow> fallbackPhone),
                   email = first_opt emails, website = first_opt urls\<rparr>,
                taxInformation = taxInfo\<rparr>)))"

definition buyer_label_names :: "rx list" where
  "buyer_label_names =
     [seqs [lit ''bill'', star space, lit ''to''], seqs [lit ''billed'', star space, lit ''to'']]"

definition party_to :: "string \<Rightarrow> rx" where
  "party_to w = seqs [lit w, star space, lit ''to'']"

definition buyerSkipRx :: rx where
  "buyerSkipRx = seqs [Bol,
      Grp 1 (alts [party_to ''bill'', party_to ''billed'', lit ''customer'', lit ''buyer'',
                   party_to ''sold'', party_to ''ship'', party_to ''deliver'', lit ''attn'',
                   lit ''attention'', lit ''client'',
                   seqs [lit ''account'', star space, Alt (lit ''name'') (lit ''holder'')],
                   lit ''purchaser'',
                   seqs [lit ''customer'', star space,
                         alts [lit ''name'', Seq (lit ''detail'') (opt (chr CHR ''s'')),
                               Seq (lit ''info'') (opt (lit ''rmation''))]]]),
      star space, opt (oneof '':.''), star space, Eol]"

definition buyerInlineRx :: rx where
  "buyerInlineRx = seqs [Bol,
      alts [party_to ''bill'', party_to ''billed'',
            Seq (lit ''customer'') (opt (Seq (star space) (lit ''name''))), lit ''buyer'',
            party_to ''sold'', party_to ''ship'', party_to ''deliver'', lit ''attn'',
            lit ''attention'', lit ''client'',
            seqs [lit ''account'', star space, Alt (lit ''name'') (lit ''holder'')],
            lit ''purchaser''],
      star space, oneof '':.'', star space, Grp 1 (plus anychar)]"

definition rx_numeric_line :: rx where
  "rx_numeric_line = seqs [Bol, plus (Cls False (digit_cs @ space_cs @ map c1 ''-().+$,''
                                                 @ [(8364, 8364), (163, 163), (8377, 8377),
                                                    (165, 165)])), Eol]"

definition rx_email_line :: rx where
  "rx_email_line = seqs [Bol, plus (Cls False (word_cs @ map c1 ''.+-'')), chr CHR ''@'',
                         plus (Cls False (word_cs @ map c1 ''.-'')), Eol]"

definition rx_http_line :: rx where
  "rx_http_line = seqs [Bol, lit ''http'', opt (chr CHR ''s''), lit ''://'']"

definition rx_www_line :: rx where
  "rx_www_line = seqs [Bol, lit ''www.'']"

definition rx_attn_prefix :: rx where
  "rx_attn_prefix = seqs [Bol, Alt (lit ''attn'') (lit ''attention''), oneof '':.'', star space]"

text \<open>The captured text of an inline label, when it is longer than two characters.\<close>

definition inline_value :: "rx \<Rightarrow> jsstring \<Rightarrow> jsstring option" where
  "inline_value r line =
     (case rx_exec iflag r line of
        None \<Rightarrow> None
      | Some m \<Rightarrow> if truthy_str (mgrp m 1) \<and> 2 < length (trim (the (mgrp m 1)))
                   then Some (trim (the (mgrp m 1))) else None)"

definition buildBuyer :: "jsstring \<Rightarrow> error + DataLiftBuyer" where
  "buildBuyer block =
     (let lines = clean_lines block;
          phones = extractPhones block;
          emails = extractEmails block
      in
      ebind (parseAddress block) (\<lambda>address.
        let name0 = first_opt (List.map_filter (inline_value buyerInlineRx) lines);
            name1 = (if \<not> truthy_str name0 then
                       List.find (\<lambda>l. \<not> rx_test iflag buyerSkipRx l \<and> 2 < length l \<and>
                                       \<not> rx_test noflags rx_numeric_line l \<and>
                                       \<not> rx_test noflags rx_email_line l \<and>
                                       \<not> (rx_test noflags rx_http_line l \<or>
                                          rx_test noflags rx_www_line l)) lines
                     else name0);
            name2 = (if truthy_str name1
                     then Some (trim (replace_first iflag rx_attn_prefix [] (the name1)))
                     else name1)
        in Inr \<lparr>buyerName = name2,
                buyerAddress = Some \<lparr>buyerFullAddress =
                                 Some (case fullAddress address of Some a \<Rightarrow> a
                                       | None \<Rightarrow> join (str '', '') lines)\<rparr>,
                buyerContact = Some \<lparr>buyerPhone = first_opt phones,
                                     buyerEmail = first_opt emails\<rparr>\<rparr>))"

definition CORP_SUFFIX_RX :: rx where
  "CORP_SUFFIX_RX = seqs [WordB,
      Grp 1 (alts [seqs [lit ''pty'', opt (chr CHR ''.''), star space, lit ''ltd''],
                   Seq (lit ''inc'') (opt (chr CHR ''.'')), Seq (lit ''llc'') (opt (chr CHR ''.'')),
                   Seq (lit ''ltd'') (opt (chr CHR ''.'')), Seq (lit ''co'') (opt (chr CHR ''.'')),
                   Seq (lit ''corp'') (opt (chr CHR ''.'')), lit ''company'', lit ''group'',
                   lit ''services'', lit ''solutions'',
                   Seq (lit ''enterprise'') (opt (chr CHR ''s'')),
                   Seq (lit ''holding'') (opt (chr CHR ''s'')), lit ''industries'', lit ''gmbh'',
                   lit ''bv'', lit ''sa'']),
      WordB]"

definition SKIP_HEADER_WORDS :: rx where
  "SKIP_HEADER_WORDS = seqs [Bol,
      Grp 1 (alts [lit ''invoice'', seqs [lit ''tax'', plus space, lit ''invoice''],
                   lit ''receipt'', lit ''bill'', lit ''quote'', lit ''statement'', lit ''date'',
                   no_dot, lit ''number'', lit ''page'',
                   seqs [lit ''purchase'', plus space, lit ''order''], lit ''delivery'',
                   lit ''packing'', lit ''from'', lit ''to'']),
      WordB]"

definition rx_all_caps :: rx where
  "rx_all_caps = seqs [Bol, Cls False [c2 CHR ''A'' CHR ''Z''],
                       atleast 4 (Cls False ([c2 CHR ''A'' CHR ''Z''] @ space_cs
                                             @ map c1 ''&.,'' @ [(39, 39), c1 CHR ''-''])), Eol]"

text \<open>The shortest line with a corporate suffix; the first one wins among equals.\<close>

fun best_corp :: "jsstring option \<Rightarrow> jsstring list \<Rightarrow> jsstring option" where
  "best_corp best [] = best"
| "best_corp best (line # ls) =
     best_corp
       (if length line < 3 then best
        else if rx_test iflag SKIP_HEADER_WORDS line then best
        else if rx_test iflag CORP_SUFFIX_RX line then
          (if \<not> truthy_str best \<or> length line < length (the best) then Some (trim line) else best)
        else best) ls"

definition extractSupplierName :: "jsstring list \<Rightarrow> jsstring option" where
  "extractSupplierName hdr =
     (if length hdr = 0 then None
      else
        let cands = take 8 hdr in
        case filter (\<lambda>line. \<not> (length line < 3 \<or> 60 < length line) \<and>
                             \<not> rx_test iflag SKIP_HEADER_WORDS line \<and>
                             rx_test noflags rx_all_caps line) cands of
          line # _ \<Rightarrow> Some (trim line)
        | [] \<Rightarrow>
            (let bestCorpLine = best_corp None cands in
             if truthy_str bestCorpLine then bestCorpLine
             else List.find (\<lambda>l. 3 < length l \<and> length l \<le> 60 \<and>
                                  \<not> rx_test iflag SKIP_HEADER_WORDS l) cands))"

definition skipLineRx :: rx where
  "skipLineRx = alts [seqs [lit ''customer'', plus space, lit ''signature''],
                      seqs [lit ''agree'', plus space, lit ''to'', plus space, lit ''pay''],
                      seqs [lit ''card'', plus space, lit ''issuer''],
                      seqs [lit ''all'', plus space, lit ''goods'', plus space, lit ''returned''],
                      seqs [lit ''napa'', plus space, lit ''cash'']]"

definition sectionKeywords :: rx where
  "sectionKeywords = seqs [Bol,
      alts [party_to ''bill'', party_to ''billed'', lit ''buyer'',
            Seq (lit ''customer'')
                (opt (Seq (star space)
                          (alts [lit ''name'', Seq (lit ''detail'') (opt (chr CHR ''s'')),
                                 Seq (lit ''info'') (opt (lit ''rmation''))]))),
            party_to ''sold'', party_to ''ship'', party_to ''deliver'', lit ''client'',
            lit ''purchaser'', seqs [lit ''account'', star space, lit ''holder'']],
      star space, star (oneof '':.''), star space, Eol]"

definition sectionInlineRx :: rx where
  "sectionInlineRx = seqs [Bol,
      alts [party_to ''bill'', party_to ''billed'', lit ''buyer'',
            Seq (lit ''customer'') (opt (Seq (star space) (lit ''name''))),
            party_to ''sold'', party_to ''ship'', party_to ''deliver'', lit ''client'',
            lit ''purchaser'', seqs [lit ''account'', star space, lit ''holder'']],
      star space, opt (oneof '':.''), plus space, Grp 1 (plus anychar)]"

definition attnRx :: rx where
  "attnRx = seqs [Bol, Alt (lit ''attn'') (lit ''attention''), star space, plus (oneof '':.''),
                  star space, Grp 1 (plus anychar)]"

text \<open>
  The first loop of \<open>extractBuyer\<close>: the inline name, if any, and the lines after the
  label line.
\<close>

fun find_section :: "jsstring list \<Rightarrow> (jsstring option \<times> jsstring list) option" where
  "find_section [] = None"
| "find_section (l # ls) =
     (if rx_test iflag skipLineRx l then find_section ls
      else case inline_value sectionInlineRx l of
             Some v \<Rightarrow> if \<not> rx_test iflag skipLineRx (the (mgrp (the (rx_exec iflag sectionInlineRx l)) 1))
                       then Some (Some v, ls)
                       else if rx_test iflag sectionKeywords l then Some (None, ls)
                       else find_section ls
           | None \<Rightarrow> if rx_test iflag sectionKeywords l then Some (None, ls)
                      else find_section ls)"

definition emptyBuyer :: DataLiftBuyer where
  "emptyBuyer = \<lparr>buyerName = None, buyerAddress = None, buyerContact = None\<rparr>"

definition extractBuyer :: "jsstring list \<Rightarrow> error + DataLiftBuyer" where
  "extractBuyer lines =
     (case find_section lines of
        Some (inlineName, after) \<Rightarrow>
          ebind (buildBuyer (join [10] (take 8 after)))
            (\<lambda>buyer. Inr (if truthy_str inlineName then buyer\<lparr>buyerName := inlineName\<rparr>
                           else buyer))
      | None \<Rightarrow>
          (case List.map_filter (inline_value attnRx) lines of
             v # _ \<Rightarrow> Inr (emptyBuyer\<lparr>buyerName := Some v\<rparr>)
           | [] \<Rightarrow> Inr emptyBuyer))"

section \<open>Totals\<close>

definition amount_chars :: rx where
  "amount_chars = Cls False (digit_cs @ [c1 CHR '',''])"

text \<open>The same-line pattern of \<open>extractLabeledAmount\<close>, built around the label.\<close>

definition sameLineRx :: "rx \<Rightarrow> rx" where
  "sameLineRx lab =
     seqs [lab,
           opt (seqs [star space, chr CHR ''('', star (noneof '')''), chr CHR '')'']),
           star (Cls False (space_cs @ map c1 ''-:'')),
           star (Cls False ([c2 CHR ''A'' CHR ''Z''] @ currency_cs)),
           star space,
           Grp 1 (Alt (seqs [plus amount_chars, chr CHR ''.'', plus digit])
                      (Seq (atleast 2 amount_chars) (Ahead False (oneof ''/-''))))]"

definition inlineNumRx :: rx where
  "inlineNumRx = seqs [opt (Cls False currency_cs), star space,
                       Grp 1 (seqs [plus amount_chars, chr CHR ''.'', times 1 4 digit])]"

definition labelStopRx :: rx where
  "labelStopRx = seqs [Bol,
      alts [seqs [lit ''sub'', star space, lit ''total''], lit ''subtotal'', lit ''total'',
            lit ''tax'', lit ''amount'', lit ''discount'', lit ''shipping'', lit ''net'',
            lit ''gross'', lit ''balance'', lit ''paid'', lit ''tender'', lit ''grand''],
      WordB]"

definition currencyAmountRx :: rx where
  "currencyAmountRx = seqs [Bol, opt (Cls False currency_cs), star space,
      Grp 1 (seqs [plus amount_chars, chr CHR ''.'', times 1 4 digit]), star space, Eol]"

definition no_commas :: "jsstring \<Rightarrow> jsnum" where
  "no_commas g = parseFloat (replace_all noflags rx_comma [] g)"

text \<open>A positive amount captured by group 1 of a match, if any.\<close>

definition positive_amount :: "jsmatch option \<Rightarrow> jsnum option" where
  "positive_amount m =
     (case m of
        None \<Rightarrow> None
      | Some mm \<Rightarrow> if truthy_str (mgrp mm 1)
                    then (let n = no_commas (the (mgrp mm 1))
                          in if \<not> isNaN n \<and> jgt n (Fin 0) then Some n else None)
                    else None)"

text \<open>The look-ahead of at most four lines for a standalone amount.\<close>

fun amount_below :: "jsstring list \<Rightarrow> jsnum option" where
  "amount_below [] = None"
| "amount_below (l # ls) =
     (let trimJ = trim l in
      if rx_test iflag labelStopRx trimJ then None
      else case positive_amount (rx_exec noflags currencyAmountRx trimJ) of
             Some n \<Rightarrow> Some n
           | None \<Rightarrow> amount_below ls)"

fun label_lines :: "rx \<Rightarrow> jsstring list \<Rightarrow> jsnum option" where
  "label_lines lab [] = None"
| "label_lines lab (l # ls) =
     (if \<not> rx_test iflag lab l then label_lines lab ls
      else case positive_amount (rx_exec noflags inlineNumRx (replace_all iflag lab [] l)) of
             Some n \<Rightarrow> Some n
           | None \<Rightarrow> (case amount_below (take 4 ls) of
                        Some n \<Rightarrow> Some n
                      | None \<Rightarrow> label_lines lab ls))"

definition extractLabeledAmount :: "jsstring \<Rightarrow> rx \<Rightarrow> jsnum option" where
  "extractLabeledAmount text lab =
     (let sl = (case rx_exec iflag (sameLineRx lab) text of
                  None \<Rightarrow> None
                | Some slM \<Rightarrow>
                    if truthy_str (mgrp slM 1)
                    then (let n = no_commas (the (mgrp slM 1))
                          in if \<not> isNaN n \<and> jge n (Fin 0) then Some n else None)
                    else None)
      in case sl of
           Some n \<Rightarrow> Some n
         | None \<Rightarrow> label_lines lab (split_lines text))"

definition gtv :: rx where
  "gtv = alts [lit ''gst'', lit ''tax'', lit ''vat'']"

definition lab_subtotal :: rx where
  "lab_subtotal = Alt (seqs [lit ''sub'', star space, lit ''total'']) (lit ''subtotal'')"

definition lab_tax_total :: rx where
  "lab_tax_total = alts [seqs [lit ''total'', plus space, gtv],
                         seqs [gtv, plus space, lit ''total''],
                         seqs [lit ''total'', plus space, lit ''tax'']]"

definition lab_shipping :: rx where
  "lab_shipping = alts [lit ''shipping'', lit ''delivery'', lit ''freight'', lit ''carriage'']"

definition lab_discount :: rx where
  "lab_discount = alts [lit ''discount'', lit ''savings'', lit ''rebate'']"

definition lab_grand :: rx where
  "lab_grand = alts [seqs [lit ''grand'', plus space, lit ''total''],
                     seqs [lit ''total'', plus space, lit ''amount'', plus space, lit ''due''],
                     seqs [lit ''total'', plus space, lit ''due'']]"

definition lab_due :: rx where
  "lab_due = Alt (seqs [lit ''amount'', plus space, lit ''due''])
                 (seqs [lit ''balance'', plus space, lit ''due''])"

definition lab_amount_colon :: rx where
  "lab_amount_colon = seqs [lit ''amount'', star space, chr CHR '':'']"

definition lab_total_word :: rx where
  "lab_total_word = seqs [WordB, lit ''total'', WordB]"

definition lab_paid :: rx where
  "lab_paid = alts [seqs [lit ''amount'', plus space, lit ''paid''],
                    seqs [lit ''cash'', plus space, lit ''tendered''], lit ''tendered'']"

definition lab_balance :: rx where
  "lab_balance = Alt (seqs [lit ''balance'', plus space, lit ''due''])
                     (seqs [lit ''change'', plus space, lit ''due''])"

definition posTaxRx :: rx where
  "posTaxRx = seqs [WordB, lit ''pct'', WordB, star anychar, chr CHR ''%'']"

definition taxtableRx :: rx where
  "taxtableRx = seqs [WordB, lit ''taxtable'', WordB]"

text \<open>The standalone amounts among the (at most four) lines after a POS tax line.\<close>

fun pos_amounts :: "jsstring list \<Rightarrow> error + jsnum list" where
  "pos_amounts [] = Inr []"
| "pos_amounts (l # ls) =
     (case rx_exec noflags standaloneAmountRx (trim l) of
        None \<Rightarrow> pos_amounts ls
      | Some amtM \<Rightarrow> ebind (amount_of amtM) (\<lambda>a. ebind (pos_amounts ls) (\<lambda>as. Inr (a # as))))"

fun pos_tax :: "jsstring list \<Rightarrow> error + jsnum option" where
  "pos_tax [] = Inr None"
| "pos_tax (l # ls) =
     (if rx_test iflag posTaxRx l \<or> rx_test iflag taxtableRx l then
        ebind (pos_amounts (take 4 ls))
          (\<lambda>amounts. Inr (if 2 \<le> length amounts
                           then Some (jmin (amounts ! 0) (amounts ! 1)) else None))
      else pos_tax ls)"

definition first_some :: "'a option list \<Rightarrow> 'a option" where
  "first_some xs = first_opt (List.map_filter id xs)"

definition extractTotals :: "jsstring \<Rightarrow> jsstring \<Rightarrow> DataLiftPart list \<Rightarrow> error + DataLiftTotals" where
  "extractTotals fullText footerText ps =
     (let search = (if 10 < length footerText then footerText @ [10] else []) @ fullText;
          footerSearch = (if 10 < length footerText then footerText else fullText);
          sub = (case extractLabeledAmount search lab_subtotal of
                   Some n \<Rightarrow> Some n
                 | None \<Rightarrow> if 0 < length ps then Some (toFixed 2 (partSum ps)) else None)
      in
      ebind (pos_tax (split_lines fullText)) (\<lambda>posTax.
        let tax = (case posTax of
                     Some t \<Rightarrow> Some t
                   | None \<Rightarrow> first_some [extractLabeledAmount search lab_tax_total,
                                          extractLabeledAmount search gtv])
        in Inr \<lparr>subtotal = sub,
                totalTax = tax,
                shippingCost = extractLabeledAmount search lab_shipping,
                totalsDiscount = extractLabeledAmount search lab_discount,
                tip = None, serviceCharge = None,
                amountPaid = extractLabeledAmount search lab_paid,
                balanceDue = extractLabeledAmount search lab_balance,
                grandTotal = orElse (first_some [extractLabeledAmount search lab_grand,
                                                 extractLabeledAmount search lab_due,
                                                 extractLabeledAmount search lab_amount_colon,
                                                 extractLabeledAmount footerSearch lab_total_word,
                                                 sub]) (Fin 0)\<rparr>))"

section \<open>The parser\<close>

record DataLiftMetadata =
  documentType :: jsstring
  confidenceScore :: jsnum
  extractionTimestamp :: jsstring
  languageDetected :: jsstring
  ocrProvider :: "jsstring option"
  aiProviderUsed :: "jsstring option"
  processingTimeMs :: "jsnum option"
  pageCount :: "jsnum option"
  warnings :: "jsstring list option"

record DataLiftResponse =
  metadata :: DataLiftMetadata
  supplier :: DataLiftSupplier
  buyer :: DataLiftBuyer
  transaction :: DataLiftTransaction
  parts :: "DataLiftPart list"
  totals :: DataLiftTotals

record RuleBasedParserOptions =
  optDocumentType :: "jsstring option"
  optLanguage :: "jsstring option"

text \<open>The spread \<open>{...a, ...b}\<close> of two tax records: a field of \<open>b\<close> that is set wins.\<close>

definition override :: "'a option \<Rightarrow> 'a option \<Rightarrow> 'a option" where
  "override a b = (case b of Some v \<Rightarrow> Some v | None \<Rightarrow> a)"

definition merge_tax :: "DataLiftTaxInformation option \<Rightarrow> DataLiftTaxInformation
                         \<Rightarrow> DataLiftTaxInformation" where
  "merge_tax a b =
     (case a of
        None \<Rightarrow> b
      | Some x \<Rightarrow> \<lparr>taxId = override (taxId x) (taxId b),
                    gstNumber = override (gstNumber x) (gstNumber b),
                    vatNumber = override (vatNumber x) (vatNumber b),
                    ein = override (ein x) (ein b),
                    abnNumber = override (abnNumber x) (abnNumber b),
                    acnNumber = override (acnNumber x) (acnNumber b)\<rparr>)"

text \<open>
  \<open>RuleBasedParser.parse\<close>. \<open>now\<close> is the reading of the clock that the source takes
  for the extraction timestamp.
\<close>

definition parse :: "jsstring \<Rightarrow> jsstring \<Rightarrow> RuleBasedParserOptions \<Rightarrow> error + DataLiftResponse" where
  "parse now rawText options =
     (let normText = normaliseOCRText rawText;
          lines = clean_lines normText;
          docType = (case optDocumentType options of Some d \<Rightarrow> d
                     | None \<Rightarrow> classifyDocumentType normText);
          language = (case optLanguage options of Some l \<Rightarrow> l | None \<Rightarrow> detectLanguage normText);
          cur = detectCurrency normText;
          seg = segmentDocument lines;
          headerText = join [10] (headerLines seg);
          footerText = join [10] (footerLines seg);
          supplierNm = extractSupplierName (headerLines seg)
      in
      ebind (buildSupplier supplierNm headerText) (\<lambda>supplier0.
      ebind (extractTaxInformation normText) (\<lambda>fullTaxInfo.
      ebind (extractBuyer lines) (\<lambda>buyer.
      ebind (extractTransaction normText (fst cur)) (\<lambda>tx.
      ebind (extractParts (bodyLines seg) lines) (\<lambda>ps.
      ebind (extractTotals normText footerText ps) (\<lambda>tots.
        Inr \<lparr>metadata = \<lparr>documentType = docType, confidenceScore = Fin 0,
                          extractionTimestamp = now, languageDetected = language,
                          ocrProvider = Some (str ''pending''), aiProviderUsed = None,
                          processingTimeMs = Some (Fin 0), pageCount = None, warnings = None\<rparr>,
             supplier = (case fullTaxInfo of
                           None \<Rightarrow> supplier0
                         | Some ti \<Rightarrow> supplier0\<lparr>taxInformation :=
                                        Some (merge_tax (taxInformation supplier0) ti)\<rparr>),
             buyer = buyer, transaction = tx, parts = ps, totals = tots\<rparr>)))))))"

section \<open>Notions used in the proofs\<close>

text \<open>
  \<open>steps P s s'\<close>: the matcher went from \<open>s\<close> to \<open>s'\<close> by consuming characters that
  satisfy \<open>P\<close>, and every group set on the way holds such characters only.
\<close>

definition steps :: "(jschar \<Rightarrow> bool) \<Rightarrow> mstate \<Rightarrow> mstate \<Rightarrow> bool" where
  "steps P s s' \<longleftrightarrow>
     (\<exists>u. rest s = u @ rest s' \<and> (\<forall>c\<in>set u. P c)) \<and>
     (\<forall>i g. caps s' i = Some g \<longrightarrow> caps s i = Some g \<or> (\<forall>c\<in>set g. P c))"

primrec consumes_only :: "(jschar \<Rightarrow> bool) \<Rightarrow> rxflags \<Rightarrow> rx \<Rightarrow> bool" where
  "consumes_only P fl (Cls neg rs) = (\<forall>c. cls_match fl neg rs c \<longrightarrow> P c)"
| "consumes_only P fl Eps = True"
| "consumes_only P fl (Seq a b) = (consumes_only P fl a \<and> consumes_only P fl b)"
| "consumes_only P fl (Alt a b) = (consumes_only P fl a \<and> consumes_only P fl b)"
| "consumes_only P fl (Rep mn mx r) = consumes_only P fl r"
| "consumes_only P fl (Grp i r) = consumes_only P fl r"
| "consumes_only P fl Bol = True"
| "consumes_only P fl Eol = True"
| "consumes_only P fl WordB = True"
| "consumes_only P fl (Ahead pos r) = True"
| "consumes_only P fl (Behind rs) = True"

definition count_nl :: "jsstring \<Rightarrow> nat" where
  "count_nl s = length (filter (\<lambda>c. c = 10) s)"

text \<open>A replacement text without line feeds.\<close>

fun repl_nlfree :: "repl list \<Rightarrow> bool" where
  "repl_nlfree [] = True"
| "repl_nlfree (Lit t # ts) = (10 \<notin> set t \<and> repl_nlfree ts)"
| "repl_nlfree (Ref i # ts) = repl_nlfree ts"

text \<open>
  \<open>sets_grp i r\<close>: every match of \<open>r\<close> sets group \<open>i\<close>, read off the syntax (the
  group is on every path and no later repetition clears it).
\<close>

primrec sets_grp :: "nat \<Rightarrow> rx \<Rightarrow> bool" where
  "sets_grp i (Cls neg rs) = False"
| "sets_grp i Eps = False"
| "sets_grp i (Seq a b) = (sets_grp i b \<or> (sets_grp i a \<and> i \<notin> set (grps b)))"
| "sets_grp i (Alt a b) = (sets_grp i a \<and> sets_grp i b)"
| "sets_grp i (Rep mn mx r) = False"
| "sets_grp i (Grp j r) = (j = i \<or> sets_grp i r)"
| "sets_grp i Bol = False"
| "sets_grp i Eol = False"
| "sets_grp i WordB = False"
| "sets_grp i (Ahead pos r) = False"
| "sets_grp i (Behind rs) = False"

text \<open>\<open>grp_chars P fl i r\<close>: the body of group \<open>i\<close> consumes characters with \<open>P\<close> only.\<close>

primrec grp_chars :: "(jschar \<Rightarrow> bool) \<Rightarrow> rxflags \<Rightarrow> nat \<Rightarrow> rx \<Rightarrow> bool" where
  "grp_chars P fl i (Cls neg rs) = True"
| "grp_chars P fl i Eps = True"
| "grp_chars P fl i (Seq a b) = (grp_chars P fl i a \<and> grp_chars P fl i b)"
| "grp_chars P fl i (Alt a b) = (grp_chars P fl i a \<and> grp_chars P fl i b)"
| "grp_chars P fl i (Rep mn mx r) = grp_chars P fl i r"
| "grp_chars P fl i (Grp j r) = (if j = i then consumes_only P fl r else grp_chars P fl i r)"
| "grp_chars P fl i Bol = True"
| "grp_chars P fl i Eol = True"
| "grp_chars P fl i WordB = True"
| "grp_chars P fl i (Ahead pos r) = True"
| "grp_chars P fl i (Behind rs) = True"

text \<open>The text that the first group of a pattern captures in a text, if the pattern matches.\<close>

definition captured :: "rx \<Rightarrow> jsstring \<Rightarrow> jsstring option" where
  "captured r text = (case rx_exec iflag r text of None \<Rightarrow> None | Some m \<Rightarrow> mgrp m 1)"

text \<open>The ISO date \<open>YYYY-MM-DD\<close> of a day, a month and a year, with day and month padded.\<close>

definition iso_of_dmy :: "jsstring \<Rightarrow> jsstring \<Rightarrow> jsstring \<Rightarrow> jsstring" where
  "iso_of_dmy d mo y =
     y @ [45] @ replicate (2 - length mo) 48 @ mo @ [45] @ replicate (2 - length d) 48 @ d"

text \<open>The first non-empty list of a list of results, \<open>[]\<close> when there is none.\<close>

definition first_nonempty :: "'a list list \<Rightarrow> 'a list" where
  "first_nonempty xs = (case filter (\<lambda>x. x \<noteq> []) xs of [] \<Rightarrow> [] | x # _ \<Rightarrow> x)"

section \<open>Documents used in the examples\<close>

definition noOptions :: RuleBasedParserOptions where
  "noOptions = \<lparr>optDocumentType = None, optLanguage = None\<rparr>"

definition clock :: jsstring where
  "clock = str ''2026-01-01T00:00:00.000Z''"



definition amountLines :: "jsstring list" where
  "amountLines = map str [''Amount'', ''45.00'', ''Description'', ''Brake pad set'']"

definition amountBody :: "jsstring list" where
  "amountBody = map str [''Amount'', ''45.00'', ''Description'']"

definition amountDoc :: jsstring where
  "amountDoc = join [10] amountLines"

definition brakePart :: DataLiftPart where
  "brakePart = \<lparr>itemName = str ''Brake pad set'', description = None, sku = None,
                 partNumber = None, manufacturerPartNumber = None, quantity = Fin 1, unit = None,
                 unitPrice = Some (Fin 45), discount = None, taxPercentage = None,
                 taxAmount = None, totalAmount = Fin 45\<rparr>"

definition amountPart :: DataLiftPart where
  "amountPart = \<lparr>itemName = str ''45.00'', description = Some (str ''Description''), sku = None,
                  partNumber = None, manufacturerPartNumber = None, quantity = Fin 1, unit = None,
                  unitPrice = Some (Fin 45), discount = None, taxPercentage = None,
                  taxAmount = None, totalAmount = Fin 45\<rparr>"

definition numericLine :: jsstring where
  "numericLine = str ''123  456.78''"

section \<open>Evaluation of the arithmetic\<close>

text \<open>The exponent is computed on numerals only: each step asks for its guard.\<close>

lemma lg_hi_stop: "x < 2 \<Longrightarrow> lg_hi x = 0"
  by (simp add: lg_hi.simps)

lemma lg_hi_step: "2 \<le> x \<Longrightarrow> lg_hi x = 1 + lg_hi (x / 2)"
  by (subst lg_hi.simps) simp

lemma lg_lo_stop: "1 \<le> x \<Longrightarrow> lg_lo x = 0"
  by (simp add: lg_lo.simps)

lemma lg_lo_step: "0 < x \<Longrightarrow> x < 1 \<Longrightarrow> lg_lo x = lg_lo (2 * x) - 1"
  by (subst lg_lo.simps) simp

lemmas dbl_run = dbl_def pow2_def ilog2_def rne_def lg_hi_stop lg_hi_step lg_lo_stop lg_lo_step
  Let_def

section \<open>Properties of the confidence engine\<close>

text \<open>
  C6, as stated, fails: with a non-empty parts list, a grand total of 0 and a subtotal
  (here the sum of the parts) of 0, the sub-score is 0.4, not 0.5.
\<close>

theorem numeric_zero_total_counterexample:
  "[zeroPart] \<noteq> [] \<and> grandTotal zeroTotals = Fin 0 \<and>
   scoreNumericConsistency (Some zeroTotals) (Some [zeroPart]) = dbl (2 / 5) \<and>
   scoreNumericConsistency (Some zeroTotals) (Some [zeroPart]) \<noteq> dbl (1 / 2)"
  by (simp add: scoreNumericConsistency_def zeroTotals_def zeroPart_def partSum_def
      orElse_def jeq_def dbl_run)

text \<open>
  C6, amended: for a non-empty parts list and a grand total of 0, the numeric-consistency
  sub-score is 0.4 when the subtotal (the labelled one, else the sum of the parts' totals)
  is 0 as well, and 0.5 otherwise.
\<close>

theorem numeric_zero_total:
  assumes "ps \<noteq> []" and "grandTotal t = Fin 0"
  shows "scoreNumericConsistency (Some t) (Some ps) =
         (if jeq (orElse (subtotal t) (partSum ps)) (Fin 0) then dbl (2 / 5) else dbl (1 / 2))"
  using assms by (simp add: scoreNumericConsistency_def Let_def jeq_def)

theorem numeric_zero_total_witness:
  "[zeroPart\<lparr>totalAmount := Fin 3\<rparr>] \<noteq> [] \<and> grandTotal zeroTotals = Fin 0 \<and>
   scoreNumericConsistency (Some zeroTotals) (Some [zeroPart\<lparr>totalAmount := Fin 3\<rparr>])
     = dbl (1 / 2)"
  using numeric_zero_total [of "[zeroPart\<lparr>totalAmount := Fin 3\<rparr>]" zeroTotals]
  by (simp add: zeroTotals_def zeroPart_def partSum_def orElse_def jeq_def dbl_run)

section \<open>Properties of the matcher\<close>

declare rep.simps(1) [simp del]

lemmas rx_notation = chr_def oneof_def noneof_def lit_def star_def plus_def opt_def times_def
  atleast_def digit_def space_def nonspace_def hspace_def wordc_def anychar_def c1_def c2_def

lemmas rx_sets = digit_cs_def space_cs_def hspace_cs_def word_cs_def line_term_cs_def
  blank_cs_def currency_cs_def

lemmas rx_run = rep.simps(1) match_at_def start_state_def rx_exec_def rx_test_def
  replace_all_def replace_first_def match_all_def split_rx_def
  noflags_def iflag_def mflag_def cls_match_def in_cset_def clear_caps_def str_def
  ascii_upper_def ascii_lower_def Let_def

lemmas normalise_rx = rx_dollar_l_def rx_digit_O_def rx_S_amount_def rx_blanks_def
  rx_num_space_def rx_dashes_def rx_zero_width_def rx_trailing_def

lemma steps_refl: "steps P s s"
  by (auto simp: steps_def)

lemma steps_trans: "steps P a b \<Longrightarrow> steps P b c \<Longrightarrow> steps P a c"
proof -
  assume ab: "steps P a b" and bc: "steps P b c"
  from ab obtain u where u: "rest a = u @ rest b" "\<forall>x\<in>set u. P x" by (auto simp: steps_def)
  from bc obtain v where v: "rest b = v @ rest c" "\<forall>x\<in>set v. P x" by (auto simp: steps_def)
  have "rest a = (u @ v) @ rest c \<and> (\<forall>x\<in>set (u @ v). P x)" using u v by auto
  then have 1: "\<exists>w. rest a = w @ rest c \<and> (\<forall>x\<in>set w. P x)" by blast
  have 2: "\<forall>i g. caps c i = Some g \<longrightarrow> caps a i = Some g \<or> (\<forall>x\<in>set g. P x)"
    using ab bc unfolding steps_def by blast
  show ?thesis unfolding steps_def using 1 2 by blast
qed

lemma steps_clear: "steps P (clear_caps gs s) s' \<Longrightarrow> steps P s s'"
  by (auto simp: steps_def clear_caps_def split: if_splits)

lemma steps_length: "steps P s s' \<Longrightarrow> length (rest s') \<le> length (rest s)"
  by (auto simp: steps_def)

lemma rep_steps:
  "(\<forall>a b. b \<in> set (f a) \<longrightarrow> steps P a b) \<Longrightarrow> s' \<in> set (rep f gs mn mx s) \<Longrightarrow> steps P s s'"
  "(\<forall>a b. b \<in> set (f a) \<longrightarrow> steps P a b) \<Longrightarrow> s' \<in> set (rep_each f gs mn mx s ss) \<Longrightarrow>
     (\<forall>x\<in>set ss. steps P s x) \<Longrightarrow> steps P s s'"
proof (induction f gs mn mx s and f gs mn mx s ss arbitrary: s' and s' rule: rep_rep_each.induct)
  case (1 f gs mn mx s)
  show ?case
  proof (cases "mx = Some 0")
    case True
    with "1.prems" show ?thesis by (simp add: rep.simps(1) steps_refl)
  next
    case False
    have each: "\<forall>x\<in>set (f (clear_caps gs s)). steps P s x"
      using "1.prems"(1) steps_clear by blast
    from "1.prems"(2) False
    have "s' \<in> set (rep_each f gs mn mx s (f (clear_caps gs s))) \<or> s' = s"
      by (auto simp: rep.simps(1) split: if_splits)
    then show ?thesis
    proof
      assume "s' \<in> set (rep_each f gs mn mx s (f (clear_caps gs s)))"
      then show ?thesis using "1.IH" [OF False "1.prems"(1) _ each] by blast
    next
      assume "s' = s"
      then show ?thesis by (simp add: steps_refl)
    qed
  qed
next
  case (2 f gs mn mx s)
  then show ?case by simp
next
  case (3 f gs mn mx s x ss)
  let ?go = "length (rest x) < length (rest s) \<or> (0 < mn \<and> length (rest x) = length (rest s))"
  from "3.prems"(2)
  have "(?go \<and> s' \<in> set (rep f gs (mn - 1) (map_option (\<lambda>m. m - 1) mx) x))
        \<or> s' \<in> set (rep_each f gs mn mx s ss)"
    by (auto split: if_splits)
  then show ?case
  proof
    assume a: "?go \<and> s' \<in> set (rep f gs (mn - 1) (map_option (\<lambda>m. m - 1) mx) x)"
    then have "steps P x s'" using "3.IH"(1) "3.prems"(1) by blast
    moreover have "steps P s x" using "3.prems"(3) by simp
    ultimately show ?thesis using steps_trans by blast
  next
    assume "s' \<in> set (rep_each f gs mn mx s ss)"
    then show ?thesis using "3.IH"(2) "3.prems"(1) "3.prems"(3) by simp
  qed
qed

lemma ms_Cls: "s' \<in> set (ms fl (Cls neg rs) s) \<Longrightarrow>
  \<exists>c. rest s = c # rest s' \<and> cls_match fl neg rs c \<and> caps s' = caps s \<and> prev s' = c # prev s"
  by (cases "rest s") (auto split: if_splits)

lemma match_at_Some:
  assumes "match_at fl r p cs = Some m"
  shows "\<exists>s'. s' \<in> set (ms fl r (start_state p cs)) \<and>
              mtext m = take (length cs - length (rest s')) cs \<and> mgrp m = caps s'"
proof (cases "ms fl r (start_state p cs)")
  case Nil
  then show ?thesis using assms by (simp add: match_at_def)
next
  case (Cons a as)
  then have "a \<in> set (ms fl r (start_state p cs)) \<and>
             mtext m = take (length cs - length (rest a)) cs \<and> mgrp m = caps a"
    using assms by (auto simp: match_at_def)
  then show ?thesis by blast
qed

lemma ms_steps: "consumes_only P fl r \<Longrightarrow> s' \<in> set (ms fl r s) \<Longrightarrow> steps P s s'"
proof (induction r arbitrary: s s')
  case (Cls neg rs)
  from ms_Cls [OF Cls.prems(2)] obtain c where c: "rest s = c # rest s'"
    "cls_match fl neg rs c" "caps s' = caps s" by blast
  have "rest s = [c] @ rest s' \<and> (\<forall>x\<in>set [c]. P x)" using c Cls.prems(1) by simp
  then have "\<exists>u. rest s = u @ rest s' \<and> (\<forall>x\<in>set u. P x)" by blast
  then show ?case unfolding steps_def using c(3) by simp
next
  case (Seq a b)
  from Seq.prems obtain x where x: "x \<in> set (ms fl a s)" "s' \<in> set (ms fl b x)" by auto
  have "steps P s x" using Seq.IH(1) Seq.prems(1) x(1) by simp
  moreover have "steps P x s'" using Seq.IH(2) Seq.prems(1) x(2) by simp
  ultimately show ?case by (rule steps_trans)
next
  case (Rep mn mx r)
  then show ?case using rep_steps(1) [of "ms fl r" P s' "grps r" mn mx s] by auto
next
  case (Grp i r)
  from Grp.prems obtain s0 where s0: "s0 \<in> set (ms fl r s)"
    and s': "s' = s0\<lparr>caps := (caps s0)(i \<mapsto> take (length (rest s) - length (rest s0)) (rest s))\<rparr>"
    by auto
  have st: "steps P s s0" using Grp.IH Grp.prems(1) s0 by simp
  then obtain u where u: "rest s = u @ rest s0" "\<forall>c\<in>set u. P c" by (auto simp: steps_def)
  have tk: "take (length (rest s) - length (rest s0)) (rest s) = u" using u(1) by simp
  show ?case using st u unfolding steps_def s' tk by auto
qed (auto simp: steps_refl split: list.splits if_splits)

text \<open>The group of a parenthesis holds exactly the text its body consumed.\<close>

lemma ms_Grp: "s' \<in> set (ms fl (Grp i r) s) \<Longrightarrow>
  \<exists>s0 u. s0 \<in> set (ms fl r s) \<and> rest s = u @ rest s0 \<and> rest s' = rest s0 \<and>
         prev s' = prev s0 \<and> caps s' = (caps s0)(i \<mapsto> u)"
proof -
  assume "s' \<in> set (ms fl (Grp i r) s)"
  then obtain s0 where s0: "s0 \<in> set (ms fl r s)"
    and s': "s' = s0\<lparr>caps := (caps s0)(i \<mapsto> take (length (rest s) - length (rest s0)) (rest s))\<rparr>"
    by auto
  have "consumes_only (\<lambda>c. True) fl r" by (induction r) auto
  then have "steps (\<lambda>c. True) s s0" using s0 ms_steps by blast
  then obtain u where u: "rest s = u @ rest s0" by (auto simp: steps_def)
  then have "take (length (rest s) - length (rest s0)) (rest s) = u" by simp
  then show ?thesis using s0 s' u by auto
qed

section \<open>Properties of the OCR text normalisation\<close>

lemma count_nl_append [simp]: "count_nl (a @ b) = count_nl a + count_nl b"
  by (simp add: count_nl_def)

lemma count_nl_Cons [simp]: "count_nl (c # cs) = (if c = 10 then 1 else 0) + count_nl cs"
  by (simp add: count_nl_def)

lemma count_nl_Nil [simp]: "count_nl [] = 0"
  by (simp add: count_nl_def)

lemma count_nl_free: "\<forall>c\<in>set u. c \<noteq> 10 \<Longrightarrow> count_nl u = 0"
  by (induction u) auto

lemma count_nl_free_notin: "10 \<notin> set u \<Longrightarrow> count_nl u = 0"
  by (induction u) auto

lemma match_at_split:
  "match_at fl r p cs = Some m \<Longrightarrow> cs = mtext m @ drop (length (mtext m)) cs"
  by (auto simp: match_at_def split: list.splits)

text \<open>A global replacement keeps the number of line feeds when each single one does.\<close>

lemma replace_from_count_aux:
  "(\<forall>p cs m. match_at fl r p cs = Some m \<longrightarrow> count_nl (expand t m) = count_nl (mtext m))
   \<Longrightarrow> count_nl (replace_from fl r t p cs) = count_nl cs"
proof (induction fl r t p cs rule: replace_from.induct)
  case (1 fl r t p)
  show ?case
  proof (cases "match_at fl r p []")
    case None
    then show ?thesis by simp
  next
    case (Some m)
    then have "mtext m = []" by (auto simp: match_at_def split: list.splits)
    then show ?thesis using Some "1.prems" by simp
  qed
next
  case (2 fl r t p c cs)
  show ?case
  proof (cases "match_at fl r p (c # cs)")
    case None
    then show ?thesis using 2 by simp
  next
    case (Some m)
    have e: "count_nl (expand t m) = count_nl (mtext m)" using Some "2.prems" by blast
    show ?thesis
    proof (cases "mtext m = []")
      case True
      then show ?thesis using Some 2 e by simp
    next
      case False
      have "count_nl (c # cs) =
            count_nl (mtext m) + count_nl (drop (length (mtext m)) (c # cs))"
        using match_at_split [OF Some] count_nl_append by metis
      then show ?thesis using Some False "2.IH"(3) [OF Some False "2.prems"] e by simp
    qed
  qed
qed

lemma replace_from_count:
  assumes "\<And>p cs m. match_at fl r p cs = Some m \<Longrightarrow> count_nl (expand t m) = count_nl (mtext m)"
  shows "count_nl (replace_from fl r t p cs) = count_nl cs"
  using assms by (intro replace_from_count_aux) blast

lemma expand_nlfree:
  "repl_nlfree t \<Longrightarrow> \<forall>i g. mgrp m i = Some g \<longrightarrow> (\<forall>c\<in>set g. c \<noteq> 10) \<Longrightarrow>
   count_nl (expand t m) = 0"
proof (induction t m rule: expand.induct)
  case (3 i ts m)
  then show ?case by (auto simp: count_nl_free split: option.splits)
qed (auto simp: count_nl_free_notin)

lemma replace_all_nlfree:
  assumes "consumes_only (\<lambda>c. c \<noteq> 10) fl r" and "repl_nlfree t"
  shows "count_nl (replace_all fl r t s) = count_nl s"
  unfolding replace_all_def
proof (rule replace_from_count)
  fix p cs m
  assume m: "match_at fl r p cs = Some m"
  then obtain s' where s': "s' \<in> set (ms fl r (start_state p cs))"
    and tx: "mtext m = take (length cs - length (rest s')) cs" and gr: "mgrp m = caps s'"
    using match_at_Some by blast
  have st: "steps (\<lambda>c. c \<noteq> 10) (start_state p cs) s'" using ms_steps [OF assms(1) s'] .
  then obtain u where u: "cs = u @ rest s'" "\<forall>c\<in>set u. c \<noteq> 10"
    by (auto simp: steps_def start_state_def)
  have "mtext m = u" using tx u(1) by simp
  then have 1: "count_nl (mtext m) = 0" using u(2) count_nl_free by blast
  have "\<forall>i g. mgrp m i = Some g \<longrightarrow> (\<forall>c\<in>set g. c \<noteq> 10)"
    using st gr by (auto simp: steps_def start_state_def)
  then have "count_nl (expand t m) = 0" using expand_nlfree [OF assms(2)] by blast
  then show "count_nl (expand t m) = count_nl (mtext m)" using 1 by simp
qed

text \<open>The first pattern may consume line feeds (in \<open>\s*\<close>), but its group 1 returns them.\<close>

lemma dollar_l_count:
  assumes "match_at noflags rx_dollar_l p cs = Some m"
  shows "count_nl (expand [Ref 1, Lit (str ''1''), Ref 2] m) = count_nl (mtext m)"
proof -
  let ?A = "Seq (chr CHR ''$'') (star space)"
  from assms obtain s3 where s3: "s3 \<in> set (ms noflags rx_dollar_l (start_state p cs))"
    and tx: "mtext m = take (length cs - length (rest s3)) cs" and gr: "mgrp m = caps s3"
    using match_at_Some by blast
  from s3 obtain s1 s2 where s1: "s1 \<in> set (ms noflags (Grp 1 ?A) (start_state p cs))"
    and s2: "s2 \<in> set (ms noflags (oneof ''lI'') s1)"
    and s3': "s3 \<in> set (ms noflags (Grp 2 digit) s2)"
    by (auto simp: rx_dollar_l_def)
  from ms_Grp [OF s1] obtain u where u: "cs = u @ rest s1" "caps s1 1 = Some u"
    by (auto simp: start_state_def)
  from ms_Cls [OF s2 [unfolded oneof_def]]
  obtain c where c: "rest s1 = c # rest s2" "c \<noteq> 10" "caps s2 = caps s1"
    by (auto simp: c1_def cls_match_def in_cset_def noflags_def)
  from ms_Grp [OF s3'] obtain s0 v where s0: "s0 \<in> set (ms noflags digit s2)"
    "rest s2 = v @ rest s0" "rest s3 = rest s0" "caps s3 = (caps s0)(2 \<mapsto> v)" by blast
  from ms_Cls [OF s0(1) [unfolded digit_def]]
  obtain d where d0: "rest s2 = d # rest s0" "d \<noteq> 10" "caps s0 = caps s2"
    by (auto simp: digit_cs_def cls_match_def in_cset_def noflags_def)
  have d: "rest s2 = d # rest s3" "d \<noteq> 10" "caps s3 = (caps s2)(2 \<mapsto> [d])"
    using s0 d0 by auto
  have cs: "cs = (u @ [c, d]) @ rest s3" using u c d by simp
  have "length cs - length (rest s3) = length (u @ [c, d])" by (subst cs) simp
  then have "mtext m = take (length (u @ [c, d])) ((u @ [c, d]) @ rest s3)"
    using tx cs by metis
  then have "mtext m = u @ [c, d]" by (simp del: append_assoc)
  moreover have "expand [Ref 1, Lit (str ''1''), Ref 2] m = u @ str ''1'' @ [d]"
    using gr u c d by simp
  ultimately show ?thesis using c d by (simp add: str_def)
qed


text \<open>
  C9: \<open>normaliseOCRText\<close> keeps the number of line feeds of every string.
\<close>

theorem normalise_preserves_newlines: "count_nl (normaliseOCRText s) = count_nl s"
proof -
  have P: "\<And>c. cls_match noflags False digit_cs c \<longrightarrow> c \<noteq> 10"
    by (auto simp: cls_match_def in_cset_def digit_cs_def noflags_def)
  have 1: "\<And>t. count_nl (replace_all noflags rx_dollar_l [Ref 1, Lit (str ''1''), Ref 2] t)
             = count_nl t"
    unfolding replace_all_def by (rule replace_from_count) (rule dollar_l_count)
  have 2: "\<And>t. count_nl (replace_all noflags rx_digit_O [Ref 1, Lit (str ''0''), Ref 2] t)
             = count_nl t"
    by (rule replace_all_nlfree)
       (auto simp: normalise_rx rx_notation rx_sets cls_match_def in_cset_def noflags_def str_def)
  have 3: "\<And>t. count_nl (replace_all noflags rx_S_amount [Lit (str ''$1'')] t) = count_nl t"
    by (rule replace_all_nlfree)
       (auto simp: normalise_rx rx_notation rx_sets cls_match_def in_cset_def noflags_def str_def)
  have 4: "\<And>t. count_nl (replace_all noflags rx_blanks [Lit (str ''  '')] t) = count_nl t"
    by (rule replace_all_nlfree)
       (auto simp: normalise_rx rx_notation rx_sets cls_match_def in_cset_def noflags_def str_def)
  have 5: "\<And>t. count_nl (replace_all noflags rx_num_space [] t) = count_nl t"
    by (rule replace_all_nlfree)
       (auto simp: normalise_rx rx_notation rx_sets cls_match_def in_cset_def noflags_def str_def)
  have 6: "\<And>t. count_nl (replace_all noflags rx_dashes [Lit (str ''-'')] t) = count_nl t"
    by (rule replace_all_nlfree)
       (auto simp: normalise_rx rx_notation rx_sets cls_match_def in_cset_def noflags_def str_def)
  have 7: "\<And>t. count_nl (replace_all noflags rx_zero_width [] t) = count_nl t"
    by (rule replace_all_nlfree)
       (auto simp: normalise_rx rx_notation rx_sets cls_match_def in_cset_def noflags_def str_def)
  have 8: "\<And>t. count_nl (replace_all mflag rx_trailing [] t) = count_nl t"
    by (rule replace_all_nlfree)
       (auto simp: normalise_rx rx_notation rx_sets cls_match_def in_cset_def mflag_def str_def)
  show ?thesis unfolding normaliseOCRText_def Let_def by (simp only: 1 2 3 4 5 6 7 8)
qed

text \<open>
  C8: normalisation is not idempotent. In \<open>1O2O3\<close> the second letter O also stands
  between two digits, but the global replacement does not revisit the digit it has just
  consumed; a second run repairs it, so the first result is not a fixed point.
\<close>

theorem normalise_twice_differs:
  "normaliseOCRText (str ''1O2O3'') = str ''102O3'' \<and>
   normaliseOCRText (normaliseOCRText (str ''1O2O3'')) = str ''10203''"
proof -
  have a: "normaliseOCRText (str ''1O2O3'') = str ''102O3''"
    by (simp add: normaliseOCRText_def normalise_rx rx_notation rx_sets rx_run)
  have b: "normaliseOCRText (str ''102O3'') = str ''10203''"
    by (simp add: normaliseOCRText_def normalise_rx rx_notation rx_sets rx_run)
  show ?thesis using a b by simp
qed


section \<open>Properties of the date extraction\<close>

lemmas date_rx = rx_iso_exact_def rx_dmy_exact_def sep_cs_def rx_date_value_def date_tail_def
  invDateRx_def dueDateRx_def txDateRx_def DATE_ISO_def

lemmas date_run = extractDates_def td_def truthy_str_def normaliseDateString_def
  ebind_def grp_of_def orElse_def padStart2_def

lemma is_digit_bounds: "is_digit c \<Longrightarrow> 48 \<le> c \<and> c \<le> 57"
  by (simp add: is_digit_def)

text \<open>
  C4, as stated, fails: the labelled date \<open>15/01/24\<close> comes back as it was written, not
  as an ISO date of the year 2024.
\<close>

theorem two_digit_year_counterexample:
  "extractDates (str ''Invoice Date: 15/01/24'')
   = Inr \<lparr>d_invoiceDate = Some (str ''15/01/24''), d_dueDate = None, d_transactionDate = None\<rparr>"
  by (simp add: date_run date_rx rx_notation rx_sets rx_run)

section \<open>Properties of the segmentation\<close>

lemmas segment_rx = bodyStartKeywords_def footerKeywords_def tableHeaderKws_def no_dot_def

text \<open>
  C7: the three slices do not partition a short document. For the one-line document
  \<open>Hello\<close> the header end is 1 (no keyword, \<open>min 8 total\<close>) and the footer start is 0
  (\<open>max (floor (0.75 * total)) (total - 15)\<close>), so the line is both in the header and in
  the footer, and header, body and footer together hold two lines.
\<close>

theorem segment_overlap:
  "segmentDocument [str ''Hello'']
   = \<lparr>headerLines = [str ''Hello''], bodyLines = [], footerLines = [str ''Hello'']\<rparr>"
proof -
  have a: "rx_test iflag bodyStartKeywords (str ''Hello'') = False"
    by (simp add: segment_rx rx_notation rx_sets rx_run)
  have b: "kw_hits tableHeaderKws (toLowerCase (str ''Hello'')) = 0"
    by (simp add: segment_rx kw_hits_def toLowerCase_def lower_char_def rx_notation rx_sets
        rx_run)
  show ?thesis by (simp add: segmentDocument_def a b Let_def)
qed

section \<open>Properties of the transaction metadata\<close>

lemmas tx_rx = alnum_cs_def doc_number_def invRx_def invLabelLine_def valueLine_def poRx_def
  poLabelLine_def quoteRx_def payRx_def termsRx_def timeRx_def rx_spaces_def no_dot_def

lemmas tx_run = extractTransaction_def tx_invoiceNumber_def tx_purchaseOrderNumber_def
  value_after_def split_lines_def trim_def is_space_def

text \<open>
  C5: for the text \<open>PO Number: ABC-42\<close> no purchase-order number is returned: the
  pattern wants \<open>#\<close> or \<open>:\<close> right after \<open>PO\<close>, or the words \<open>purchase order\<close>.
  And the word \<open>Number\<close> can be captured: it is the value returned for \<open>PO: Number\<close>.
\<close>

theorem po_number_label:
  "tx_purchaseOrderNumber (str ''PO Number: ABC-42'') = Inr None \<and>
   tx_purchaseOrderNumber (str ''PO: Number'') = Inr (Some (str ''Number''))"
proof -
  have a: "tx_purchaseOrderNumber (str ''PO Number: ABC-42'') = Inr None"
    by (simp add: tx_run tx_rx date_run rx_notation rx_sets rx_run)
  have b: "tx_purchaseOrderNumber (str ''PO: Number'') = Inr (Some (str ''Number''))"
    by (simp add: tx_run tx_rx date_run rx_notation rx_sets rx_run)
  show ?thesis using a b by simp
qed

section \<open>Groups that every match sets\<close>

lemma rep_rel:
  assumes refl: "\<And>s. Q s s" and trans: "\<And>a b c. Q a b \<Longrightarrow> Q b c \<Longrightarrow> Q a c"
  shows "(\<forall>a b. b \<in> set (f a) \<longrightarrow> Q a b) \<Longrightarrow> (\<forall>a b. Q (clear_caps gs a) b \<longrightarrow> Q a b) \<Longrightarrow>
           s' \<in> set (rep f gs mn mx s) \<Longrightarrow> Q s s'"
    and "(\<forall>a b. b \<in> set (f a) \<longrightarrow> Q a b) \<Longrightarrow> (\<forall>a b. Q (clear_caps gs a) b \<longrightarrow> Q a b) \<Longrightarrow>
           s' \<in> set (rep_each f gs mn mx s ss) \<Longrightarrow> (\<forall>x\<in>set ss. Q s x) \<Longrightarrow> Q s s'"
proof (induction f gs mn mx s and f gs mn mx s ss arbitrary: s' and s' rule: rep_rep_each.induct)
  case (1 f gs mn mx s)
  show ?case
  proof (cases "mx = Some 0")
    case True
    with "1.prems" show ?thesis by (simp add: rep.simps(1) refl)
  next
    case False
    have each: "\<forall>x\<in>set (f (clear_caps gs s)). Q s x"
      using "1.prems"(1,2) by blast
    from "1.prems"(3) False
    have "s' \<in> set (rep_each f gs mn mx s (f (clear_caps gs s))) \<or> s' = s"
      by (auto simp: rep.simps(1) split: if_splits)
    then show ?thesis
    proof
      assume "s' \<in> set (rep_each f gs mn mx s (f (clear_caps gs s)))"
      then show ?thesis using "1.IH" [OF False "1.prems"(1,2) _ each] by blast
    next
      assume "s' = s"
      then show ?thesis by (simp add: refl)
    qed
  qed
next
  case (2 f gs mn mx s)
  then show ?case by simp
next
  case (3 f gs mn mx s x ss)
  let ?go = "length (rest x) < length (rest s) \<or> (0 < mn \<and> length (rest x) = length (rest s))"
  from "3.prems"(3)
  have "(?go \<and> s' \<in> set (rep f gs (mn - 1) (map_option (\<lambda>m. m - 1) mx) x))
        \<or> s' \<in> set (rep_each f gs mn mx s ss)"
    by (auto split: if_splits)
  then show ?case
  proof
    assume a: "?go \<and> s' \<in> set (rep f gs (mn - 1) (map_option (\<lambda>m. m - 1) mx) x)"
    then have "Q x s'" using "3.IH"(1) "3.prems"(1,2) by blast
    moreover have "Q s x" using "3.prems"(4) by simp
    ultimately show ?thesis using trans by blast
  next
    assume "s' \<in> set (rep_each f gs mn mx s ss)"
    then show ?thesis using "3.IH"(2) "3.prems"(1,2,4) by simp
  qed
qed

lemma ms_untouched: "i \<notin> set (grps r) \<Longrightarrow> s' \<in> set (ms fl r s) \<Longrightarrow> caps s' i = caps s i"
proof (induction r arbitrary: s s')
  case (Cls neg rs)
  then show ?case using ms_Cls by metis
next
  case (Seq a b)
  from Seq.prems obtain x where x: "x \<in> set (ms fl a s)" "s' \<in> set (ms fl b x)" by auto
  have "caps x i = caps s i" using Seq.IH(1) Seq.prems(1) x(1) by simp
  moreover have "caps s' i = caps x i" using Seq.IH(2) Seq.prems(1) x(2) by simp
  ultimately show ?case by simp
next
  case (Rep mn mx r)
  have f: "\<forall>a b. b \<in> set (ms fl r a) \<longrightarrow> caps b i = caps a i"
    using Rep.IH Rep.prems(1) by simp
  have c: "\<forall>a b. caps b i = caps (clear_caps (grps r) a) i \<longrightarrow> caps b i = caps a i"
    using Rep.prems(1) by (simp add: clear_caps_def)
  have "s' \<in> set (rep (ms fl r) (grps r) mn mx s)" using Rep.prems(2) by simp
  then show ?case
    using rep_rel(1) [where Q = "\<lambda>a b. caps b i = caps a i" and f = "ms fl r", OF _ _ f c]
    by simp
next
  case (Grp j r)
  from ms_Grp [OF Grp.prems(2)] obtain s0 u where s0: "s0 \<in> set (ms fl r s)"
    "caps s' = (caps s0)(j \<mapsto> u)" by blast
  have "caps s0 i = caps s i" using Grp.IH Grp.prems(1) s0(1) by simp
  then show ?case using s0(2) Grp.prems(1) by simp
qed (auto split: list.splits if_splits)

lemma ms_sets_grp: "sets_grp i r \<Longrightarrow> s' \<in> set (ms fl r s) \<Longrightarrow> caps s' i \<noteq> None"
proof (induction r arbitrary: s s')
  case (Seq a b)
  from Seq.prems obtain x where x: "x \<in> set (ms fl a s)" "s' \<in> set (ms fl b x)" by auto
  show ?case
  proof (cases "sets_grp i b")
    case True
    then show ?thesis using Seq.IH(2) x(2) by simp
  next
    case False
    then have a: "sets_grp i a" "i \<notin> set (grps b)" using Seq.prems(1) by auto
    have "caps x i \<noteq> None" using Seq.IH(1) a(1) x(1) by simp
    moreover have "caps s' i = caps x i" using ms_untouched [OF a(2) x(2)] .
    ultimately show ?thesis by simp
  qed
next
  case (Alt a b)
  then show ?case by auto
next
  case (Grp j r)
  from ms_Grp [OF Grp.prems(2)] obtain s0 u where s0: "s0 \<in> set (ms fl r s)"
    "caps s' = (caps s0)(j \<mapsto> u)" by blast
  show ?case
  proof (cases "j = i")
    case True
    then show ?thesis using s0(2) by simp
  next
    case False
    then have "caps s0 i \<noteq> None" using Grp.IH Grp.prems(1) s0(1) by simp
    then show ?thesis using s0(2) False by simp
  qed
qed simp_all

lemma ms_grp_chars:
  "grp_chars P fl i r \<Longrightarrow> s' \<in> set (ms fl r s) \<Longrightarrow> caps s' i = Some g \<Longrightarrow>
   caps s i = Some g \<or> (\<forall>c\<in>set g. P c)"
proof (induction r arbitrary: s s' g)
  case (Cls neg rs)
  then show ?case using ms_Cls by metis
next
  case (Seq a b)
  from Seq.prems obtain x where x: "x \<in> set (ms fl a s)" "s' \<in> set (ms fl b x)" by auto
  have "caps x i = Some g \<or> (\<forall>c\<in>set g. P c)" using Seq.IH(2) Seq.prems x(2) by simp
  then show ?case using Seq.IH(1) Seq.prems(1) x(1) by auto
next
  case (Alt a b)
  from Alt.prems(2) have "s' \<in> set (ms fl a s) \<or> s' \<in> set (ms fl b s)" by simp
  moreover have "grp_chars P fl i a" "grp_chars P fl i b" using Alt.prems(1) by simp_all
  ultimately show ?case using Alt.IH Alt.prems(3) by blast
next
  case (Rep mn mx r)
  let ?Q = "\<lambda>a b. \<forall>g. caps b i = Some g \<longrightarrow> caps a i = Some g \<or> (\<forall>c\<in>set g. P c)"
  have f: "\<forall>a b. b \<in> set (ms fl r a) \<longrightarrow> ?Q a b" using Rep.IH Rep.prems(1) by simp
  have c: "\<forall>a b. ?Q (clear_caps (grps r) a) b \<longrightarrow> ?Q a b"
    by (auto simp: clear_caps_def split: if_splits)
  have t: "\<And>a b c. ?Q a b \<Longrightarrow> ?Q b c \<Longrightarrow> ?Q a c" by blast
  have "s' \<in> set (rep (ms fl r) (grps r) mn mx s)" using Rep.prems(2) by simp
  then have "?Q s s'" using rep_rel(1) [where Q = ?Q and f = "ms fl r", OF _ t f c] by simp
  then show ?case using Rep.prems(3) by blast
next
  case (Grp j r)
  from ms_Grp [OF Grp.prems(2)] obtain s0 u where s0: "s0 \<in> set (ms fl r s)"
    "rest s = u @ rest s0" "caps s' = (caps s0)(j \<mapsto> u)" by blast
  show ?case
  proof (cases "j = i")
    case True
    then have "consumes_only P fl r" using Grp.prems(1) by simp
    then have "steps P s s0" using s0(1) ms_steps by blast
    then obtain v where v: "rest s = v @ rest s0" "\<forall>c\<in>set v. P c" by (auto simp: steps_def)
    then have "u = v" using s0(2) by simp
    moreover have "g = u" using s0(3) True Grp.prems(3) by simp
    ultimately show ?thesis using v(2) by simp
  next
    case False
    then show ?thesis using Grp.IH Grp.prems s0 by simp
  qed
qed (auto split: list.splits if_splits)

lemma search_from_Some:
  "search_from fl r p cs = Some m \<Longrightarrow> \<exists>p' cs'. match_at fl r p' cs' = Some m"
  by (induction cs arbitrary: p) (auto split: option.splits)

lemma exec_group_set:
  assumes "sets_grp i r" and "rx_exec fl r s = Some m"
  shows "\<exists>g. mgrp m i = Some g"
proof -
  from assms(2) obtain p cs where "match_at fl r p cs = Some m"
    unfolding rx_exec_def using search_from_Some by blast
  then obtain s' where "s' \<in> set (ms fl r (start_state p cs))" "mgrp m = caps s'"
    using match_at_Some by blast
  then show ?thesis using ms_sets_grp [OF assms(1)] by fastforce
qed

lemma exec_group_chars:
  assumes "grp_chars P fl i r" and "rx_exec fl r s = Some m" and "mgrp m i = Some g"
  shows "\<forall>c\<in>set g. P c"
proof -
  from assms(2) obtain p cs where "match_at fl r p cs = Some m"
    unfolding rx_exec_def using search_from_Some by blast
  then obtain s' where s': "s' \<in> set (ms fl r (start_state p cs))" "mgrp m = caps s'"
    using match_at_Some by blast
  then have "caps s' i = Some g" using assms(3) by simp
  from ms_grp_chars [OF assms(1) s'(1) this] show ?thesis by (simp add: start_state_def)
qed

lemma grp_of_total:
  "sets_grp i r \<Longrightarrow> rx_exec fl r s = Some m \<Longrightarrow> \<exists>g. grp_of m i = Inr g"
  using exec_group_set by (fastforce simp: grp_of_def)

lemma ebind_total:
  "\<exists>x. m = Inr x \<Longrightarrow> (\<And>x. \<exists>y. f x = Inr y) \<Longrightarrow> \<exists>y. ebind m f = Inr y"
  by (auto simp: ebind_def)

section \<open>The parser raises no error\<close>

lemma sets_dmy: "sets_grp 1 rx_dmy_exact" "sets_grp 2 rx_dmy_exact"
  by (simp_all add: rx_dmy_exact_def rx_notation)

lemma normaliseDateString_total: "\<exists>d. normaliseDateString raw = Inr d"
proof (cases "rx_exec noflags rx_dmy_exact raw")
  case None
  then show ?thesis by (simp add: normaliseDateString_def)
next
  case (Some m)
  obtain g1 g2 where "grp_of m 1 = Inr g1" "grp_of m 2 = Inr g2"
    using grp_of_total [OF sets_dmy(1) Some] grp_of_total [OF sets_dmy(2) Some] by blast
  then show ?thesis using Some by (simp add: normaliseDateString_def ebind_def)
qed

lemma td_total: "\<exists>d. td m = Inr d"
  unfolding td_def using normaliseDateString_total
  by (auto simp: ebind_def split: option.splits sum.splits) (metis sum.distinct(1))+

lemma iso_fallback_total:
  "\<exists>x. (if \<not> truthy_str a then
          (case match_all noflags DATE_ISO t of
             [] \<Rightarrow> Inr a
           | iso0 # _ \<Rightarrow> if iso0 \<noteq> [] then ebind (normaliseDateString iso0) (\<lambda>d. Inr (Some d))
                         else Inr a)
        else Inr a) = Inr x"
  using normaliseDateString_total
  by (auto simp: ebind_def split: list.splits sum.splits) (metis sum.distinct(1))+

lemma extractDates_total: "\<exists>d. extractDates t = Inr d"
  unfolding extractDates_def
  by (intro ebind_total td_total iso_fallback_total) blast

lemma captured_total:
  assumes "sets_grp 1 r"
  shows "\<exists>v. (case rx_exec fl r t of
                Some m \<Rightarrow> ebind (grp_of m 1) (\<lambda>g. Inr (Some (trim g)))
              | None \<Rightarrow> Inr d) = Inr v"
proof (cases "rx_exec fl r t")
  case None
  then show ?thesis by simp
next
  case (Some m)
  then obtain g where "grp_of m 1 = Inr g" using grp_of_total [OF assms] by blast
  then show ?thesis using Some by (simp add: ebind_def)
qed

lemma sets_tx: "sets_grp 1 invRx" "sets_grp 1 poRx" "sets_grp 1 quoteRx" "sets_grp 1 termsRx"
  by (simp_all add: invRx_def poRx_def quoteRx_def termsRx_def doc_number_def rx_notation)

lemma extractTransaction_total: "\<exists>tx. extractTransaction t c = Inr tx"
  unfolding extractTransaction_def tx_invoiceNumber_def tx_purchaseOrderNumber_def
  by (intro ebind_total captured_total sets_tx extractDates_total) blast

lemma Inr_total: "\<exists>y. Inr x = Inr y"
  by blast

lemma if_total:
  "(c \<Longrightarrow> \<exists>y. a = Inr y) \<Longrightarrow> (\<not> c \<Longrightarrow> \<exists>y. b = Inr y) \<Longrightarrow> \<exists>y. (if c then a else b) = Inr y"
  by simp

lemma option_total:
  "(x = None \<Longrightarrow> \<exists>y. a = Inr y) \<Longrightarrow> (\<And>v. x = Some v \<Longrightarrow> \<exists>y. b v = Inr y) \<Longrightarrow>
   \<exists>y. (case x of None \<Rightarrow> a | Some v \<Rightarrow> b v) = Inr y"
  by (cases x) simp_all

lemma list_total:
  "(xs = [] \<Longrightarrow> \<exists>y. a = Inr y) \<Longrightarrow> (\<And>v vs. xs = v # vs \<Longrightarrow> \<exists>y. b v vs = Inr y) \<Longrightarrow>
   \<exists>y. (case xs of [] \<Rightarrow> a | v # vs \<Rightarrow> b v vs) = Inr y"
  by (cases xs) simp_all

lemma prod_total:
  "(\<And>a b. p = (a, b) \<Longrightarrow> \<exists>y. f a b = Inr y) \<Longrightarrow> \<exists>y. (case p of (a, b) \<Rightarrow> f a b) = Inr y"
  by (cases p) simp

lemma exec_total:
  assumes "sets_grp i r" and "\<And>m g. \<exists>y. k m g = Inr y" and "\<exists>y. d = Inr y"
  shows "\<exists>v. (case rx_exec fl r t of None \<Rightarrow> d | Some m \<Rightarrow> ebind (grp_of m i) (k m)) = Inr v"
proof (cases "rx_exec fl r t")
  case None
  then show ?thesis using assms(3) by simp
next
  case (Some m)
  then obtain g where "grp_of m i = Inr g" using grp_of_total [OF assms(1)] by blast
  then show ?thesis using Some assms(2) by (simp add: ebind_def)
qed

lemmas total_intros = ebind_total if_total option_total list_total prod_total Inr_total

lemma sets_address: "sets_grp 1 AU_SUBURB_STATE_PC" "sets_grp 1 rx_city_state_zip"
  by (simp_all add: AU_SUBURB_STATE_PC_def rx_city_state_zip_def au_state_names_def rx_notation)

lemma parseAddress_total: "\<exists>a. parseAddress block = Inr a"
  unfolding parseAddress_def Let_def
  by (intro exec_total sets_address total_intros)

lemma sets_gst: "sets_grp 1 GST_AU"
  by (simp add: GST_AU_def id_sep_def rx_notation)

lemma extractTaxInformation_total: "\<exists>ti. extractTaxInformation t = Inr ti"
  unfolding extractTaxInformation_def Let_def
  by (intro exec_total sets_gst total_intros)

lemma buildSupplier_total: "\<exists>s. buildSupplier n h = Inr s"
  unfolding buildSupplier_def Let_def
  by (intro parseAddress_total extractTaxInformation_total total_intros)

lemma buildBuyer_total: "\<exists>b. buildBuyer block = Inr b"
  unfolding buildBuyer_def Let_def
  by (intro parseAddress_total total_intros)

lemma extractBuyer_total: "\<exists>b. extractBuyer ls = Inr b"
  unfolding extractBuyer_def
  by (intro buildBuyer_total total_intros)

lemma safe_alnum: "cls_match iflag False alnum_cs c \<Longrightarrow> safe_sku_char c"
  by (auto simp: cls_match_def in_cset_def alnum_cs_def c2_def safe_sku_char_def iflag_def
      ascii_upper_def ascii_lower_def Let_def split: if_splits)

lemma safe_alnum_punct:
  "cls_match iflag False (alnum_cs @ map c1 ''-_.'') c \<Longrightarrow> safe_sku_char c"
  by (auto simp: cls_match_def in_cset_def alnum_cs_def c1_def c2_def safe_sku_char_def iflag_def
      ascii_upper_def ascii_lower_def str_def Let_def split: if_splits)

lemma safe_bare:
  "cls_match noflags False alnum_cs c \<Longrightarrow> safe_sku_char c"
  "cls_match noflags False [c2 CHR ''A'' CHR ''Z''] c \<Longrightarrow> safe_sku_char c"
  "cls_match noflags False [c1 CHR ''-''] c \<Longrightarrow> safe_sku_char c"
  by (auto simp: cls_match_def in_cset_def alnum_cs_def c1_def c2_def safe_sku_char_def
      noflags_def str_def Let_def split: if_splits)

lemma grp_chars_sku:
  "grp_chars safe_sku_char iflag 1 SKU_LABELED" "grp_chars safe_sku_char noflags 1 SKU_BARE"
  using safe_alnum safe_alnum_punct safe_bare
  by (simp_all add: SKU_LABELED_def SKU_BARE_def chr_def lit_def star_def atleast_def times_def
      space_def)

lemma find_sku_safe: "find_sku t = Some sk \<Longrightarrow> list_all safe_sku_char sk"
  unfolding find_sku_def list_all_iff
  using exec_group_chars [OF grp_chars_sku(1)] exec_group_chars [OF grp_chars_sku(2)]
  by (auto split: option.splits)

lemma strip_sku_total: "list_all safe_sku_char sk \<Longrightarrow> \<exists>n. strip_sku sk t nm = Inr n"
  by (simp add: strip_sku_def sku_label_rx_def Let_def)

lemma item_name_total: "\<exists>n. item_name t (find_sku t') = Inr n"
  unfolding item_name_def Let_def
  by (intro total_intros strip_sku_total find_sku_safe) (auto simp: truthy_str_def split: option.splits)

lemma parseLineItem_total: "\<exists>r. parseLineItem line d = Inr r"
  unfolding parseLineItem_def Let_def
  by (intro item_name_total total_intros)

lemma extractMultiLineItems_total: "\<exists>r. extractMultiLineItems ls = Inr r"
proof (induction ls rule: extractMultiLineItems.induct)
  case 1
  then show ?case by simp
next
  case (2 line ls)
  obtain r where r: "parseLineItem line None = Inr r" using parseLineItem_total by blast
  show ?case
  proof (cases "rx_test iflag multiFooterRx (trim line)")
    case True
    then show ?thesis by simp
  next
    case False
    show ?thesis
    proof (cases r)
      case None
      then show ?thesis using False r "2.IH"(1) by simp
    next
      case (Some item)
      then show ?thesis using False r "2.IH"(2) by (auto split: sum.splits)
    qed
  qed
qed

lemma per_line_total: "\<exists>r. per_line ls = Inr r"
proof (induction ls)
  case Nil
  then show ?case by simp
next
  case (Cons l ls)
  then show ?case using parseLineItem_total [of l None] by (auto simp: ebind_def)
qed

lemma sets_amount: "sets_grp 1 standaloneAmountRx"
  by (simp add: standaloneAmountRx_def rx_notation)

lemma amount_of_total: "rx_exec fl standaloneAmountRx t = Some m \<Longrightarrow> \<exists>a. amount_of m = Inr a"
  unfolding amount_of_def using grp_of_total [OF sets_amount]
  by (intro total_intros) blast+

lemma deposit_after_total: "\<exists>r. deposit_after ls = Inr r"
proof (induction ls)
  case Nil
  then show ?case by simp
next
  case (Cons l ls)
  show ?case
  proof (cases "rx_exec noflags standaloneAmountRx (trim l)")
    case None
    then show ?thesis using Cons by simp
  next
    case (Some m)
    then obtain a where "amount_of m = Inr a" using amount_of_total by blast
    then show ?thesis using Some Cons by (simp add: ebind_def)
  qed
qed

lemma pos_amounts_total: "\<exists>r. pos_amounts ls = Inr r"
proof (induction ls)
  case Nil
  then show ?case by simp
next
  case (Cons l ls)
  show ?case
  proof (cases "rx_exec noflags standaloneAmountRx (trim l)")
    case None
    then show ?thesis using Cons by simp
  next
    case (Some m)
    then obtain a where "amount_of m = Inr a" using amount_of_total by blast
    then show ?thesis using Some Cons by (auto simp: ebind_def)
  qed
qed

lemma pos_tax_total: "\<exists>r. pos_tax ls = Inr r"
proof (induction ls)
  case Nil
  then show ?case by simp
next
  case (Cons l ls)
  then show ?case using pos_amounts_total [of "take 4 ls"] by (auto simp: ebind_def)
qed

lemma extractVerticalFormItems_total: "\<exists>r. extractVerticalFormItems ls = Inr r"
  unfolding extractVerticalFormItems_def Let_def
  by (intro deposit_after_total total_intros)

lemma extractParts_total: "\<exists>r. extractParts b a = Inr r"
  unfolding extractParts_def Let_def
  by (intro extractVerticalFormItems_total extractMultiLineItems_total per_line_total
      total_intros)

lemma extractTotals_total: "\<exists>r. extractTotals t f ps = Inr r"
  unfolding extractTotals_def Let_def
  by (intro pos_tax_total total_intros)

lemma parse_total: "\<exists>r. parse now raw opts = Inr r"
  unfolding parse_def Let_def
  by (intro buildSupplier_total extractTaxInformation_total extractBuyer_total
      extractTransaction_total extractParts_total extractTotals_total total_intros)

section \<open>Evaluation of the extractors\<close>

lemmas item_rx = SKU_LABELED_def SKU_BARE_def TAX_PERCENT_def SUMMARY_LINE_RX_def HEADER_LINE_RX_def
  rx_number_def numPattern_def numRx_def rx_two_spaces_def rx_two_letters_def rx_comma_def
  cluster_cs_def rx_cluster_def rx_trailing_numbers_def rx_row_number_def no_dot_def alnum_cs_def

lemmas num_run = dbl_run parseFloat_def digits_val_def is_digit_def is_space_def
  round_to_def jsub_def jgt_def jle_def jge_def jeq_def jmax_def jmin_def isNaN_def truthy_num_def

lemmas item_run = parseLineItem_def num_tokens_def num_token_def exec_all_def candidates_def
  differs_def find_sku_def item_name_def first_piece_def strip_sku_def sku_label_rx_def
  disambiguate_def bestMatch_def better_def index_pairs_def pair_err_def plausible_qty_def
  fill_unit_price_def tax_from_pct_def mk_part_def trim_def orElse_def truthy_str_def
  ebind_def List.map_filter_def

lemmas table_rx = tableKws_def tableFooterRx_def rx_code_segment_def rx_numbers_to_end_def
  rx_two_digits_def

lemmas str_run = trim_def is_space_def toLowerCase_def lower_char_def str_def split_lines_def
  in_cset_def space_cs_def line_term_cs_def

lemmas vertical_rx = rx_label_end_def verticalStopRx_def qtyInlineRx_def regionStartRx_def
  regionStopRx_def rx_three_letters_def rx_pure_code_def rx_not_amount_char_def
  standaloneAmountRx_def

lemmas totals_rx = amount_chars_def sameLineRx_def inlineNumRx_def labelStopRx_def
  currencyAmountRx_def gtv_def lab_subtotal_def lab_tax_total_def lab_shipping_def
  lab_discount_def lab_grand_def lab_due_def lab_amount_colon_def lab_total_word_def
  lab_paid_def lab_balance_def posTaxRx_def taxtableRx_def

lemma all_bool [simp]: "(\<forall>x::bool. x) = False" "(\<exists>x::bool. \<not> x) = True" "Ex Not = True"
  "(\<exists>x::bool. x) = True" "(\<forall>x::bool. \<not> x) = False"
  by auto

lemma str_nonempty: "str (c # cs) \<noteq> []"
  by (simp add: str_def)

lemma str_length: "length (str s) = length s"
  by (simp add: str_def)

text \<open>What \<open>parse\<close> puts in the fields of the record it returns.\<close>

lemma parse_fields:
  assumes "parse now raw opts = Inr r"
  shows "documentType (metadata r) = (case optDocumentType opts of Some d \<Rightarrow> d
                                      | None \<Rightarrow> classifyDocumentType (normaliseOCRText raw))"
    and "warnings (metadata r) = None"
    and "extractParts (bodyLines (segmentDocument (clean_lines (normaliseOCRText raw))))
           (clean_lines (normaliseOCRText raw)) = Inr (parts r)"
    and "extractTotals (normaliseOCRText raw)
           (join [10] (footerLines (segmentDocument (clean_lines (normaliseOCRText raw)))))
           (parts r) = Inr (totals r)"
  using assms unfolding parse_def Let_def ebind_def by (auto split: sum.splits)

subsection \<open>The pair search\<close>



subsection \<open>The empty document\<close>

lemma empty_normalise: "normaliseOCRText [] = []"
  by (simp add: normaliseOCRText_def normalise_rx rx_notation rx_sets rx_run)

lemma empty_lines: "clean_lines [] = []"
  by (simp add: clean_lines_def split_lines_def trim_def)

lemma empty_type: "classifyDocumentType [] = str ''generic''"
  by (simp add: classifyDocumentType_def typeKeywords_def kw_hits_def toLowerCase_def str_def)

lemma empty_segments: "segmentDocument [] = \<lparr>headerLines = [], bodyLines = [], footerLines = []\<rparr>"
  by (simp add: segmentDocument_def Let_def)

lemma empty_table: "extractFromColumnTable [] = []"
  by (simp add: extractFromColumnTable_def)

lemma empty_vertical: "extractVerticalFormItems [] = Inr []"
  by (simp add: extractVerticalFormItems_def description_fallback_def Let_def)

lemma empty_parts: "extractParts [] [] = Inr []"
  by (simp add: extractParts_def empty_table empty_vertical ebind_def)

lemma empty_labels:
  "extractLabeledAmount [] lab_subtotal = None"
  "extractLabeledAmount [] lab_grand = None"
  "extractLabeledAmount [] lab_due = None"
  "extractLabeledAmount [] lab_amount_colon = None"
  "extractLabeledAmount [] lab_total_word = None"
  by (simp_all add: extractLabeledAmount_def totals_rx split_lines_def rx_notation rx_sets rx_run)

lemma empty_pos_tax: "pos_tax (split_lines []) = Inr None"
  by (simp add: split_lines_def totals_rx rx_notation rx_sets rx_run)

lemma empty_totals: "\<exists>t. extractTotals [] [] [] = Inr t \<and> grandTotal t = Fin 0"
  by (simp add: extractTotals_def empty_pos_tax empty_labels ebind_def first_some_def
      first_opt_def List.map_filter_def orElse_def Let_def)

subsection \<open>A row whose numbers do not multiply\<close>











subsection \<open>A vertical form whose body also holds a numeric line\<close>

lemma amount_normalise: "normaliseOCRText amountDoc = amountDoc"
  by (simp add: amountDoc_def amountLines_def normaliseOCRText_def normalise_rx
      rx_notation rx_sets rx_run)

lemma amount_lines: "clean_lines amountDoc = amountLines"
  by (simp add: amountDoc_def amountLines_def clean_lines_def str_run)

lemma amount_keyword: "rx_test iflag bodyStartKeywords (str ''Amount'') = True"
  by (simp add: segment_rx rx_notation rx_sets rx_run)

lemma amount_no_footer:
  "rx_test iflag footerKeywords (str ''Description'') = False"
  "rx_test iflag footerKeywords (str ''Brake pad set'') = False"
  by (simp_all add: segment_rx rx_notation rx_sets rx_run)

lemma amount_threshold:
  "jgt (Fin 0) (jmul (Fin 4) (dbl (7 / 20))) = False"
  "jgt (Fin 1) (jmul (Fin 4) (dbl (7 / 20))) = False"
  "jgt (Fin 2) (jmul (Fin 4) (dbl (7 / 20))) = True"
  "jgt (Fin 3) (jmul (Fin 4) (dbl (7 / 20))) = True"
  by (simp_all add: jgt_def dbl_run)

lemma amount_segments:
  "segmentDocument amountLines =
     \<lparr>headerLines = [], bodyLines = amountBody, footerLines = [str ''Brake pad set'']\<rparr>"
  by (simp add: amountLines_def amountBody_def segmentDocument_def amount_keyword
      amount_no_footer amount_threshold Let_def)

lemma amount_kw_hits:
  "kw_hits tableKws (toLowerCase (str ''Amount'')) = 1"
  "kw_hits tableKws (toLowerCase (str ''45.00'')) = 0"
  "kw_hits tableKws (toLowerCase (str ''Description'')) = 1"
  by (simp_all add: kw_hits_def table_rx str_run)

lemma amount_table: "extractFromColumnTable amountBody = []"
  by (simp add: amountBody_def extractFromColumnTable_def amount_kw_hits)

lemma amount_labels:
  "labelMap (label_key (str ''Amount'')) = Some TotalF"
  "labelMap (label_key (str ''45.00'')) = None"
  "labelMap (label_key (str ''Description'')) = Some DescriptionF"
  "labelMap (label_key (str ''Brake pad set'')) = None"
  by (simp_all add: labelMap_def label_key_def vertical_rx str_run rx_notation rx_sets rx_run)

lemma amount_values:
  "rx_test iflag verticalStopRx (str ''45.00'') = False"
  "rx_test iflag verticalStopRx (str ''Brake pad set'') = False"
  "rx_test noflags digit (str ''45.00'') = True"
  by (simp_all add: vertical_rx rx_notation rx_sets rx_run)

lemma amount_no_qty:
  "rx_exec iflag qtyInlineRx (str ''Amount'') = None"
  "rx_exec iflag qtyInlineRx (str ''45.00'') = None"
  "rx_exec iflag qtyInlineRx (str ''Description'') = None"
  "rx_exec iflag qtyInlineRx (str ''Brake pad set'') = None"
  by (simp_all add: vertical_rx rx_notation rx_sets rx_run)

lemma amount_trim:
  "trim (str ''45.00'') = str ''45.00''" "trim (str ''Brake pad set'') = str ''Brake pad set''"
  "trim (str ''Description'') = str ''Description''" "trim (str ''Amount'') = str ''Amount''"
  by (simp_all add: str_run)

lemma parseAmt_amount: "parseAmt (Some (str ''45.00'')) = Some (Fin 45)"
  by (simp add: parseAmt_def truthy_str_def vertical_rx num_run str_def rx_notation rx_sets rx_run)

lemma parseAmt_None: "parseAmt None = None"
  by (simp add: parseAmt_def truthy_str_def)

lemma amount_collected:
  "collect_qty amountLines
     (collect_labels amountLines \<lparr>collected = (\<lambda>f. None), foundLabels = 0\<rparr>) =
   \<lparr>collected = ((\<lambda>f. None)(TotalF \<mapsto> str ''45.00''))(DescriptionF \<mapsto> str ''Brake pad set''),
    foundLabels = 2\<rparr>"
  by (simp add: amountLines_def amount_labels amount_values amount_no_qty amount_trim
      str_nonempty record_field_def numericFields_def truthy_str_def Let_def)

lemma amount_vertical: "extractVerticalFormItems amountLines = Inr [brakePart]"
  unfolding extractVerticalFormItems_def amount_collected
  by (simp add: brakePart_def description_fallback_def truthy_str_def parseAmt_amount
      parseAmt_None str_nonempty bare_part_def orElse_def num_run ebind_def Let_def)

lemma amount_not_footer:
  "rx_test iflag multiFooterRx (str ''Amount'') = False"
  "rx_test iflag multiFooterRx (str ''45.00'') = False"
  "rx_test iflag multiFooterRx (str ''Description'') = False"
  "rx_test noflags descOnlyRx (str ''Description'') = True"
  by (simp_all add: multiFooterRx_def descOnlyRx_def rx_notation rx_sets rx_run)

lemma amount_label_line: "parseLineItem (str ''Amount'') None = Inr None"
  by (simp add: item_rx item_run num_run rx_notation rx_sets rx_run)

lemma amount_value_line:
  "parseLineItem (str ''45.00'') None = Inr (Some (amountPart\<lparr>description := None\<rparr>))"
  by (simp add: amountPart_def item_rx item_run num_run rx_notation rx_sets rx_run)

lemma amount_multi: "extractMultiLineItems amountBody = Inr [amountPart]"
  by (simp add: amountBody_def amountPart_def amount_not_footer amount_label_line
      amount_value_line amount_trim str_nonempty str_length attach_following_def Let_def)

lemma amount_parts: "extractParts amountBody amountLines = Inr [brakePart]"
  by (simp add: extractParts_def amount_table amount_vertical ebind_def)

section \<open>Labelled dates\<close>

text \<open>
  \<open>normaliseDateString\<close> on every shape a labelled date can take: one to four digits,
  a separator, one or two digits, a separator, two to four digits.
\<close>

lemma normalise_shape_112:
  assumes "is_digit d1" "is_digit m1" "is_digit y1" "is_digit y2"
    "s1 \<in> set (str ''-/. '')" "s2 \<in> set (str ''-/. '')"
  shows "normaliseDateString [d1, s1, m1, s2, y1, y2] = Inr [d1, s1, m1, s2, y1, y2]"
  using assms(5,6) assms(1-4) [THEN is_digit_bounds]
  apply (simp add: str_def)
  apply (elim disjE)
  apply (simp_all add: date_run date_rx rx_notation rx_sets rx_run)
  done

lemma normalise_shape_113:
  assumes "is_digit d1" "is_digit m1" "is_digit y1" "is_digit y2" "is_digit y3"
    "s1 \<in> set (str ''-/. '')" "s2 \<in> set (str ''-/. '')"
  shows "normaliseDateString [d1, s1, m1, s2, y1, y2, y3] = Inr [d1, s1, m1, s2, y1, y2, y3]"
  using assms(6,7) assms(1-5) [THEN is_digit_bounds]
  apply (simp add: str_def)
  apply (elim disjE)
  apply (simp_all add: date_run date_rx rx_notation rx_sets rx_run)
  done

lemma normalise_shape_114:
  assumes "is_digit d1" "is_digit m1" "is_digit y1" "is_digit y2" "is_digit y3" "is_digit y4"
    "s1 \<in> set (str ''-/. '')" "s2 \<in> set (str ''-/. '')"
  shows "normaliseDateString [d1, s1, m1, s2, y1, y2, y3, y4] = Inr (if s1 = 32 \<or> s2 = 32 then [d1, s1, m1, s2, y1, y2, y3, y4] else [y1, y2, y3, y4, 45, 48, m1, 45, 48, d1])"
  using assms(7,8) assms(1-6) [THEN is_digit_bounds]
  apply (simp add: str_def)
  apply (elim disjE)
  apply (simp_all add: date_run date_rx rx_notation rx_sets rx_run)
  done

lemma normalise_shape_122:
  assumes "is_digit d1" "is_digit m1" "is_digit m2" "is_digit y1" "is_digit y2"
    "s1 \<in> set (str ''-/. '')" "s2 \<in> set (str ''-/. '')"
  shows "normaliseDateString [d1, s1, m1, m2, s2, y1, y2] = Inr [d1, s1, m1, m2, s2, y1, y2]"
  using assms(6,7) assms(1-5) [THEN is_digit_bounds]
  apply (simp add: str_def)
  apply (elim disjE)
  apply (simp_all add: date_run date_rx rx_notation rx_sets rx_run)
  done

lemma normalise_shape_123:
  assumes "is_digit d1" "is_digit m1" "is_digit m2" "is_digit y1" "is_digit y2" "is_digit y3"
    "s1 \<in> set (str ''-/. '')" "s2 \<in> set (str ''-/. '')"
  shows "normaliseDateString [d1, s1, m1, m2, s2, y1, y2, y3] = Inr [d1, s1, m1, m2, s2, y1, y2, y3]"
  using assms(7,8) assms(1-6) [THEN is_digit_bounds]
  apply (simp add: str_def)
  apply (elim disjE)
  apply (simp_all add: date_run date_rx rx_notation rx_sets rx_run)
  done

lemma normalise_shape_124:
  assumes "is_digit d1" "is_digit m1" "is_digit m2" "is_digit y1" "is_digit y2" "is_digit y3" "is_digit y4"
    "s1 \<in> set (str ''-/. '')" "s2 \<in> set (str ''-/. '')"
  shows "normaliseDateString [d1, s1, m1, m2, s2, y1, y2, y3, y4] = Inr (if s1 = 32 \<or> s2 = 32 then [d1, s1, m1, m2, s2, y1, y2, y3, y4] else [y1, y2, y3, y4, 45, m1, m2, 45, 48, d1])"
  using assms(8,9) assms(1-7) [THEN is_digit_bounds]
  apply (simp add: str_def)
  apply (elim disjE)
  apply (simp_all add: date_run date_rx rx_notation rx_sets rx_run)
  done

lemma normalise_shape_212:
  assumes "is_digit d1" "is_digit d2" "is_digit m1" "is_digit y1" "is_digit y2"
    "s1 \<in> set (str ''-/. '')" "s2 \<in> set (str ''-/. '')"
  shows "normaliseDateString [d1, d2, s1, m1, s2, y1, y2] = Inr [d1, d2, s1, m1, s2, y1, y2]"
  using assms(6,7) assms(1-5) [THEN is_digit_bounds]
  apply (simp add: str_def)
  apply (elim disjE)
  apply (simp_all add: date_run date_rx rx_notation rx_sets rx_run)
  done

lemma normalise_shape_213:
  assumes "is_digit d1" "is_digit d2" "is_digit m1" "is_digit y1" "is_digit y2" "is_digit y3"
    "s1 \<in> set (str ''-/. '')" "s2 \<in> set (str ''-/. '')"
  shows "normaliseDateString [d1, d2, s1, m1, s2, y1, y2, y3] = Inr [d1, d2, s1, m1, s2, y1, y2, y3]"
  using assms(7,8) assms(1-6) [THEN is_digit_bounds]
  apply (simp add: str_def)
  apply (elim disjE)
  apply (simp_all add: date_run date_rx rx_notation rx_sets rx_run)
  done

lemma normalise_shape_214:
  assumes "is_digit d1" "is_digit d2" "is_digit m1" "is_digit y1" "is_digit y2" "is_digit y3" "is_digit y4"
    "s1 \<in> set (str ''-/. '')" "s2 \<in> set (str ''-/. '')"
  shows "normaliseDateString [d1, d2, s1, m1, s2, y1, y2, y3, y4] = Inr (if s1 = 32 \<or> s2 = 32 then [d1, d2, s1, m1, s2, y1, y2, y3, y4] else [y1, y2, y3, y4, 45, 48, m1, 45, d1, d2])"
  using assms(8,9) assms(1-7) [THEN is_digit_bounds]
  apply (simp add: str_def)
  apply (elim disjE)
  apply (simp_all add: date_run date_rx rx_notation rx_sets rx_run)
  done

lemma normalise_shape_222:
  assumes "is_digit d1" "is_digit d2" "is_digit m1" "is_digit m2" "is_digit y1" "is_digit y2"
    "s1 \<in> set (str ''-/. '')" "s2 \<in> set (str ''-/. '')"
  shows "normaliseDateString [d1, d2, s1, m1, m2, s2, y1, y2] = Inr [d1, d2, s1, m1, m2, s2, y1, y2]"
  using assms(7,8) assms(1-6) [THEN is_digit_bounds]
  apply (simp add: str_def)
  apply (elim disjE)
  apply (simp_all add: date_run date_rx rx_notation rx_sets rx_run)
  done

lemma normalise_shape_223:
  assumes "is_digit d1" "is_digit d2" "is_digit m1" "is_digit m2" "is_digit y1" "is_digit y2" "is_digit y3"
    "s1 \<in> set (str ''-/. '')" "s2 \<in> set (str ''-/. '')"
  shows "normaliseDateString [d1, d2, s1, m1, m2, s2, y1, y2, y3] = Inr [d1, d2, s1, m1, m2, s2, y1, y2, y3]"
  using assms(8,9) assms(1-7) [THEN is_digit_bounds]
  apply (simp add: str_def)
  apply (elim disjE)
  apply (simp_all add: date_run date_rx rx_notation rx_sets rx_run)
  done

lemma normalise_shape_224:
  assumes "is_digit d1" "is_digit d2" "is_digit m1" "is_digit m2" "is_digit y1" "is_digit y2" "is_digit y3" "is_digit y4"
    "s1 \<in> set (str ''-/. '')" "s2 \<in> set (str ''-/. '')"
  shows "normaliseDateString [d1, d2, s1, m1, m2, s2, y1, y2, y3, y4] = Inr (if s1 = 32 \<or> s2 = 32 then [d1, d2, s1, m1, m2, s2, y1, y2, y3, y4] else [y1, y2, y3, y4, 45, m1, m2, 45, d1, d2])"
  using assms(9,10) assms(1-8) [THEN is_digit_bounds]
  apply (simp add: str_def)
  apply (elim disjE)
  apply (simp_all add: date_run date_rx rx_notation rx_sets rx_run)
  done

lemma normalise_shape_312:
  assumes "is_digit d1" "is_digit d2" "is_digit d3" "is_digit m1" "is_digit y1" "is_digit y2"
    "s1 \<in> set (str ''-/. '')" "s2 \<in> set (str ''-/. '')"
  shows "normaliseDateString [d1, d2, d3, s1, m1, s2, y1, y2] = Inr [d1, d2, d3, s1, m1, s2, y1, y2]"
  using assms(7,8) assms(1-6) [THEN is_digit_bounds]
  apply (simp add: str_def)
  apply (elim disjE)
  apply (simp_all add: date_run date_rx rx_notation rx_sets rx_run)
  done

lemma normalise_shape_313:
  assumes "is_digit d1" "is_digit d2" "is_digit d3" "is_digit m1" "is_digit y1" "is_digit y2" "is_digit y3"
    "s1 \<in> set (str ''-/. '')" "s2 \<in> set (str ''-/. '')"
  shows "normaliseDateString [d1, d2, d3, s1, m1, s2, y1, y2, y3] = Inr [d1, d2, d3, s1, m1, s2, y1, y2, y3]"
  using assms(8,9) assms(1-7) [THEN is_digit_bounds]
  apply (simp add: str_def)
  apply (elim disjE)
  apply (simp_all add: date_run date_rx rx_notation rx_sets rx_run)
  done

lemma normalise_shape_314:
  assumes "is_digit d1" "is_digit d2" "is_digit d3" "is_digit m1" "is_digit y1" "is_digit y2" "is_digit y3" "is_digit y4"
    "s1 \<in> set (str ''-/. '')" "s2 \<in> set (str ''-/. '')"
  shows "normaliseDateString [d1, d2, d3, s1, m1, s2, y1, y2, y3, y4] = Inr [d1, d2, d3, s1, m1, s2, y1, y2, y3, y4]"
  using assms(9,10) assms(1-8) [THEN is_digit_bounds]
  apply (simp add: str_def)
  apply (elim disjE)
  apply (simp_all add: date_run date_rx rx_notation rx_sets rx_run)
  done

lemma normalise_shape_322:
  assumes "is_digit d1" "is_digit d2" "is_digit d3" "is_digit m1" "is_digit m2" "is_digit y1" "is_digit y2"
    "s1 \<in> set (str ''-/. '')" "s2 \<in> set (str ''-/. '')"
  shows "normaliseDateString [d1, d2, d3, s1, m1, m2, s2, y1, y2] = Inr [d1, d2, d3, s1, m1, m2, s2, y1, y2]"
  using assms(8,9) assms(1-7) [THEN is_digit_bounds]
  apply (simp add: str_def)
  apply (elim disjE)
  apply (simp_all add: date_run date_rx rx_notation rx_sets rx_run)
  done

lemma normalise_shape_323:
  assumes "is_digit d1" "is_digit d2" "is_digit d3" "is_digit m1" "is_digit m2" "is_digit y1" "is_digit y2" "is_digit y3"
    "s1 \<in> set (str ''-/. '')" "s2 \<in> set (str ''-/. '')"
  shows "normaliseDateString [d1, d2, d3, s1, m1, m2, s2, y1, y2, y3] = Inr [d1, d2, d3, s1, m1, m2, s2, y1, y2, y3]"
  using assms(9,10) assms(1-8) [THEN is_digit_bounds]
  apply (simp add: str_def)
  apply (elim disjE)
  apply (simp_all add: date_run date_rx rx_notation rx_sets rx_run)
  done

lemma normalise_shape_324:
  assumes "is_digit d1" "is_digit d2" "is_digit d3" "is_digit m1" "is_digit m2" "is_digit y1" "is_digit y2" "is_digit y3" "is_digit y4"
    "s1 \<in> set (str ''-/. '')" "s2 \<in> set (str ''-/. '')"
  shows "normaliseDateString [d1, d2, d3, s1, m1, m2, s2, y1, y2, y3, y4] = Inr [d1, d2, d3, s1, m1, m2, s2, y1, y2, y3, y4]"
  using assms(10,11) assms(1-9) [THEN is_digit_bounds]
  apply (simp add: str_def)
  apply (elim disjE)
  apply (simp_all add: date_run date_rx rx_notation rx_sets rx_run)
  done

lemma normalise_shape_412:
  assumes "is_digit d1" "is_digit d2" "is_digit d3" "is_digit d4" "is_digit m1" "is_digit y1" "is_digit y2"
    "s1 \<in> set (str ''-/. '')" "s2 \<in> set (str ''-/. '')"
  shows "normaliseDateString [d1, d2, d3, d4, s1, m1, s2, y1, y2] = Inr [d1, d2, d3, d4, s1, m1, s2, y1, y2]"
  using assms(8,9) assms(1-7) [THEN is_digit_bounds]
  apply (simp add: str_def)
  apply (elim disjE)
  apply (simp_all add: date_run date_rx rx_notation rx_sets rx_run)
  done

lemma normalise_shape_413:
  assumes "is_digit d1" "is_digit d2" "is_digit d3" "is_digit d4" "is_digit m1" "is_digit y1" "is_digit y2" "is_digit y3"
    "s1 \<in> set (str ''-/. '')" "s2 \<in> set (str ''-/. '')"
  shows "normaliseDateString [d1, d2, d3, d4, s1, m1, s2, y1, y2, y3] = Inr [d1, d2, d3, d4, s1, m1, s2, y1, y2, y3]"
  using assms(9,10) assms(1-8) [THEN is_digit_bounds]
  apply (simp add: str_def)
  apply (elim disjE)
  apply (simp_all add: date_run date_rx rx_notation rx_sets rx_run)
  done

lemma normalise_shape_414:
  assumes "is_digit d1" "is_digit d2" "is_digit d3" "is_digit d4" "is_digit m1" "is_digit y1" "is_digit y2" "is_digit y3" "is_digit y4"
    "s1 \<in> set (str ''-/. '')" "s2 \<in> set (str ''-/. '')"
  shows "normaliseDateString [d1, d2, d3, d4, s1, m1, s2, y1, y2, y3, y4] = Inr [d1, d2, d3, d4, s1, m1, s2, y1, y2, y3, y4]"
  using assms(10,11) assms(1-9) [THEN is_digit_bounds]
  apply (simp add: str_def)
  apply (elim disjE)
  apply (simp_all add: date_run date_rx rx_notation rx_sets rx_run)
  done

lemma normalise_shape_422:
  assumes "is_digit d1" "is_digit d2" "is_digit d3" "is_digit d4" "is_digit m1" "is_digit m2" "is_digit y1" "is_digit y2"
    "s1 \<in> set (str ''-/. '')" "s2 \<in> set (str ''-/. '')"
  shows "normaliseDateString [d1, d2, d3, d4, s1, m1, m2, s2, y1, y2] = Inr [d1, d2, d3, d4, s1, m1, m2, s2, y1, y2]"
  using assms(9,10) assms(1-8) [THEN is_digit_bounds]
  apply (simp add: str_def)
  apply (elim disjE)
  apply (simp_all add: date_run date_rx rx_notation rx_sets rx_run)
  done

lemma normalise_shape_423:
  assumes "is_digit d1" "is_digit d2" "is_digit d3" "is_digit d4" "is_digit m1" "is_digit m2" "is_digit y1" "is_digit y2" "is_digit y3"
    "s1 \<in> set (str ''-/. '')" "s2 \<in> set (str ''-/. '')"
  shows "normaliseDateString [d1, d2, d3, d4, s1, m1, m2, s2, y1, y2, y3] = Inr [d1, d2, d3, d4, s1, m1, m2, s2, y1, y2, y3]"
  using assms(10,11) assms(1-9) [THEN is_digit_bounds]
  apply (simp add: str_def)
  apply (elim disjE)
  apply (simp_all add: date_run date_rx rx_notation rx_sets rx_run)
  done

lemma normalise_shape_424:
  assumes "is_digit d1" "is_digit d2" "is_digit d3" "is_digit d4" "is_digit m1" "is_digit m2" "is_digit y1" "is_digit y2" "is_digit y3" "is_digit y4"
    "s1 \<in> set (str ''-/. '')" "s2 \<in> set (str ''-/. '')"
  shows "normaliseDateString [d1, d2, d3, d4, s1, m1, m2, s2, y1, y2, y3, y4] = Inr [d1, d2, d3, d4, s1, m1, m2, s2, y1, y2, y3, y4]"
  using assms(11,12) assms(1-10) [THEN is_digit_bounds]
  apply (simp add: str_def)
  apply (elim disjE)
  apply (simp_all add: date_run date_rx rx_notation rx_sets rx_run)
  done

lemmas normalise_shapes = normalise_shape_112 normalise_shape_113 normalise_shape_114 normalise_shape_122 normalise_shape_123 normalise_shape_124 normalise_shape_212 normalise_shape_213 normalise_shape_214 normalise_shape_222 normalise_shape_223 normalise_shape_224 normalise_shape_312 normalise_shape_313 normalise_shape_314 normalise_shape_322 normalise_shape_323 normalise_shape_324 normalise_shape_412 normalise_shape_413 normalise_shape_414 normalise_shape_422 normalise_shape_423 normalise_shape_424

lemma digits_4:
  "length xs \<in> {1, 2, 3, 4} \<Longrightarrow>
   (\<exists>a. xs = [a]) \<or> (\<exists>a b. xs = [a, b]) \<or> (\<exists>a b c. xs = [a, b, c]) \<or>
   (\<exists>a b c e. xs = [a, b, c, e])"
  by (auto simp: length_Suc_conv eval_nat_numeral)

lemma digits_2: "length xs \<in> {1, 2} \<Longrightarrow> (\<exists>a. xs = [a]) \<or> (\<exists>a b. xs = [a, b])"
  by (auto simp: length_Suc_conv eval_nat_numeral)

lemma digits_3:
  "length xs \<in> {2, 3, 4} \<Longrightarrow>
   (\<exists>a b. xs = [a, b]) \<or> (\<exists>a b c. xs = [a, b, c]) \<or> (\<exists>a b c e. xs = [a, b, c, e])"
  by (auto simp: length_Suc_conv eval_nat_numeral)

lemma normalise_captured:
  assumes "list_all is_digit d" "list_all is_digit mo" "list_all is_digit y"
    and "length d \<in> {1, 2, 3, 4}" "length mo \<in> {1, 2}" "length y \<in> {2, 3, 4}"
    and "s1 \<in> set (str ''-/. '')" "s2 \<in> set (str ''-/. '')"
  shows "normaliseDateString (d @ [s1] @ mo @ [s2] @ y) =
         Inr (if length d \<le> 2 \<and> length y = 4 \<and> s1 \<noteq> 32 \<and> s2 \<noteq> 32 then iso_of_dmy d mo y
              else d @ [s1] @ mo @ [s2] @ y)"
  using digits_4 [OF assms(4)] digits_2 [OF assms(5)] digits_3 [OF assms(6)] assms(1-3,7,8)
  by (elim disjE exE) (simp_all add: normalise_shapes iso_of_dmy_def)

lemma td_captured:
  assumes "captured r text = Some v" "v \<noteq> []" "normaliseDateString v = Inr out"
  shows "td (rx_exec iflag r text) = Inr (Some out)"
  using assms by (auto simp: captured_def td_def truthy_str_def ebind_def split: option.splits)

lemma extractDates_fields:
  assumes "extractDates text = Inr r"
  shows "td (rx_exec iflag dueDateRx text) = Inr (d_dueDate r)"
    and "td (rx_exec iflag txDateRx text) = Inr (d_transactionDate r)"
    and "td (rx_exec iflag invDateRx text) = Inr (Some x) \<Longrightarrow> x \<noteq> [] \<Longrightarrow> d_invoiceDate r = Some x"
  using assms unfolding extractDates_def ebind_def
  by (auto simp: truthy_str_def split: sum.splits)

text \<open>
  C4, amended: in \<open>extractDates\<close> each labelled date (invoice, due and transaction date) is
  the value captured after its label, given to \<open>normaliseDateString\<close>. A captured value is
  one to four digits, a separator, one or two digits, a separator and two to four digits,
  the separators being \<open>-\<close>, \<open>/\<close>, \<open>.\<close> or a space. When the first number has one or two
  digits, the last one has four and no separator is a space, the value is returned as
  \<open>YYYY-MM-DD\<close>, the first number being the day, with day and month padded to two digits.
  Every other captured value is returned unchanged; in particular a date with a two-digit
  year stays as written, and no century is added.
\<close>

theorem labelled_date_normalisation:
  assumes "list_all is_digit d" "list_all is_digit mo" "list_all is_digit y"
    and "length d \<in> {1, 2, 3, 4}" "length mo \<in> {1, 2}" "length y \<in> {2, 3, 4}"
    and "s1 \<in> set (str ''-/. '')" "s2 \<in> set (str ''-/. '')"
    and "v = d @ [s1] @ mo @ [s2] @ y"
    and "out = (if length d \<le> 2 \<and> length y = 4 \<and> s1 \<noteq> 32 \<and> s2 \<noteq> 32 then iso_of_dmy d mo y
                else v)"
  shows "normaliseDateString v = Inr out \<and>
         (captured invDateRx text = Some v \<longrightarrow>
            (\<exists>r. extractDates text = Inr r \<and> d_invoiceDate r = Some out)) \<and>
         (captured dueDateRx text = Some v \<longrightarrow>
            (\<exists>r. extractDates text = Inr r \<and> d_dueDate r = Some out)) \<and>
         (captured txDateRx text = Some v \<longrightarrow>
            (\<exists>r. extractDates text = Inr r \<and> d_transactionDate r = Some out))"
proof -
  have n: "normaliseDateString v = Inr out"
    unfolding assms(9,10) using normalise_captured [OF assms(1-8)] by simp
  have v: "v \<noteq> []" by (simp add: assms(9))
  have o: "out \<noteq> []" using v assms(6) by (auto simp: assms(10) iso_of_dmy_def)
  obtain r where r: "extractDates text = Inr r"
    using extractDates_total by blast
  have "captured invDateRx text = Some v \<longrightarrow> d_invoiceDate r = Some out"
    using extractDates_fields(3) [OF r] td_captured [OF _ v n] o by blast
  moreover have "captured dueDateRx text = Some v \<longrightarrow> d_dueDate r = Some out"
    using extractDates_fields(1) [OF r] td_captured [OF _ v n] by auto
  moreover have "captured txDateRx text = Some v \<longrightarrow> d_transactionDate r = Some out"
    using extractDates_fields(2) [OF r] td_captured [OF _ v n] by auto
  ultimately show ?thesis using n r by blast
qed

theorem labelled_date_normalisation_witness:
  "captured invDateRx (str ''Order Date: 5/1/2024 Due Date: 5/1/2024'') = Some (str ''5/1/2024'') \<and>
   captured dueDateRx (str ''Order Date: 5/1/2024 Due Date: 5/1/2024'') = Some (str ''5/1/2024'') \<and>
   captured txDateRx (str ''Order Date: 5/1/2024 Due Date: 5/1/2024'') = Some (str ''5/1/2024'') \<and>
   normaliseDateString (str ''5/1/2024'') = Inr (str ''2024-01-05'') \<and>
   (\<exists>r. extractDates (str ''Order Date: 5/1/2024 Due Date: 5/1/2024'') = Inr r \<and>
        d_invoiceDate r = Some (str ''2024-01-05'')) \<and>
   (\<exists>r. extractDates (str ''Order Date: 5/1/2024 Due Date: 5/1/2024'') = Inr r \<and>
        d_dueDate r = Some (str ''2024-01-05'')) \<and>
   (\<exists>r. extractDates (str ''Order Date: 5/1/2024 Due Date: 5/1/2024'') = Inr r \<and>
        d_transactionDate r = Some (str ''2024-01-05''))"
proof -
  have c: "captured invDateRx (str ''Order Date: 5/1/2024 Due Date: 5/1/2024'') = Some (str ''5/1/2024'')"
    "captured dueDateRx (str ''Order Date: 5/1/2024 Due Date: 5/1/2024'') = Some (str ''5/1/2024'')"
    "captured txDateRx (str ''Order Date: 5/1/2024 Due Date: 5/1/2024'') = Some (str ''5/1/2024'')"
    by (simp_all add: captured_def date_rx rx_notation rx_sets rx_run)
  from labelled_date_normalisation [of "str ''5''" "str ''1''" "str ''2024''" 47 47
      "str ''5/1/2024''" "iso_of_dmy (str ''5'') (str ''1'') (str ''2024'')"
      "str ''Order Date: 5/1/2024 Due Date: 5/1/2024''"] c
  show ?thesis
    by (simp add: iso_of_dmy_def str_def is_digit_def)
qed

section \<open>The order of the line-item strategies\<close>

text \<open>
  C1, as stated, fails: the vertical form is tried before the multi-line strategy, not
  after it. The document with the four lines \<open>Amount\<close>, \<open>45.00\<close>, \<open>Description\<close>,
  \<open>Brake pad set\<close> has the first three lines as its body; the column table finds nothing
  there, the multi-line strategy finds the item \<open>45.00\<close> on the body, the vertical form
  finds the item \<open>Brake pad set\<close> on all lines, and \<open>extractParts\<close>, hence \<open>parse\<close>,
  returns the result of the vertical form.
\<close>

theorem strategy_order_counterexample:
  "clean_lines (normaliseOCRText amountDoc) = amountLines \<and>
   bodyLines (segmentDocument amountLines) = amountBody \<and>
   extractFromColumnTable amountBody = [] \<and>
   extractMultiLineItems amountBody = Inr [amountPart] \<and>
   extractVerticalFormItems amountLines = Inr [brakePart] \<and>
   extractParts amountBody amountLines = Inr [brakePart] \<and>
   parse clock amountDoc noOptions = Inr (projr (parse clock amountDoc noOptions)) \<and>
   parts (projr (parse clock amountDoc noOptions)) = [brakePart] \<and>
   [brakePart] \<noteq> [amountPart]"
proof -
  obtain r where r: "parse clock amountDoc noOptions = Inr r"
    using parse_total by blast
  have "parts r = [brakePart]"
    using parse_fields(3) [OF r]
    by (simp add: amount_normalise amount_lines amount_segments amount_parts)
  moreover have "[brakePart] \<noteq> [amountPart]"
    by (simp add: brakePart_def amountPart_def)
  ultimately show ?thesis
    by (simp add: r amount_normalise amount_lines amount_segments amount_table amount_multi
        amount_vertical amount_parts)
qed

text \<open>
  C1, amended: for every input the strategies are tried in the order column table (body
  lines), vertical form (all lines), multi-line items (body lines), per-line heuristic on
  the body lines, per-line heuristic on all lines; none of them raises, and the output of
  \<open>extractParts\<close> is the result of the first one in that order that is not empty (the
  empty list when all are empty).
\<close>

theorem strategy_order:
  "\<exists>v m p a. extractVerticalFormItems allLs = Inr v \<and> extractMultiLineItems bodyLs = Inr m \<and>
     per_line bodyLs = Inr p \<and> per_line allLs = Inr a \<and>
     extractParts bodyLs allLs =
       Inr (first_nonempty [extractFromColumnTable bodyLs, v, m, p, a])"
proof -
  obtain v where v: "extractVerticalFormItems allLs = Inr v"
    using extractVerticalFormItems_total by blast
  obtain m where m: "extractMultiLineItems bodyLs = Inr m"
    using extractMultiLineItems_total by blast
  obtain p where p: "per_line bodyLs = Inr p" using per_line_total by blast
  obtain a where a: "per_line allLs = Inr a" using per_line_total by blast
  have "extractParts bodyLs allLs = Inr (first_nonempty [extractFromColumnTable bodyLs, v, m, p, a])"
    by (simp add: extractParts_def first_nonempty_def v m p a ebind_def Let_def)
  with v m p a show ?thesis by blast
qed

section \<open>Line-item arithmetic and warnings\<close>




section \<open>The parser raises no error\<close>

text \<open>
  C3: \<open>parse\<close> returns a record for every input string and every options value, and
  raises nothing; for the empty string it returns a record with document type
  \<open>generic\<close>, grand total 0 and no parts.
\<close>

theorem parse_never_raises:
  "(\<exists>r. parse now rawText options = Inr r) \<and>
   (\<exists>r. parse now [] noOptions = Inr r \<and> documentType (metadata r) = str ''generic'' \<and>
        grandTotal (totals r) = Fin 0 \<and> parts r = [])"
proof -
  obtain r where r: "parse now [] noOptions = Inr r"
    using parse_total by blast
  have p: "parts r = []"
    using parse_fields(3) [OF r]
    by (simp add: empty_normalise empty_lines empty_segments empty_parts)
  have "documentType (metadata r) = str ''generic''"
    using parse_fields(1) [OF r] by (simp add: noOptions_def empty_normalise empty_type)
  moreover have "grandTotal (totals r) = Fin 0"
    using parse_fields(4) [OF r] empty_totals
    by (auto simp add: p empty_normalise empty_lines empty_segments)
  ultimately show ?thesis using parse_total r p by blast
qed

section \<open>Item names without letters\<close>

text \<open>
  C10: \<open>parseLineItem\<close> does not ask for letters in the item name. For the line
  \<open>123  456.78\<close>, made of numeric tokens only, it returns a part whose item name is
  \<open>123\<close>, which holds no letter. The column-table extractor rejects the same row, since
  no candidate name has two letters in a row: under a table header the row gives no item.
\<close>

theorem numeric_item_name:
  "parseLineItem numericLine None =
     Inr (Some \<lparr>itemName = str ''123'', description = None, sku = None, partNumber = None,
                manufacturerPartNumber = None, quantity = Fin 123, unit = None,
                unitPrice = Some (dbl (37137 / 10000)), discount = None, taxPercentage = None,
                taxAmount = None, totalAmount = dbl (45678 / 100)\<rparr>) \<and>
   rx_test noflags (Cls False letter_cs) (str ''123'') = False \<and>
   rx_test noflags rx_two_letters (str ''123'') = False \<and>
   table_row numericLine None = None \<and>
   extractFromColumnTable [str ''Item  Total'', numericLine] = []"
proof -
  have 1: "parseLineItem numericLine None =
     Inr (Some \<lparr>itemName = str ''123'', description = None, sku = None, partNumber = None,
                manufacturerPartNumber = None, quantity = Fin 123, unit = None,
                unitPrice = Some (dbl (37137 / 10000)), discount = None, taxPercentage = None,
                taxAmount = None, totalAmount = dbl (45678 / 100)\<rparr>)"
    by (simp add: numericLine_def item_rx item_run num_run rx_notation rx_sets rx_run)
  have 2: "rx_test noflags (Cls False letter_cs) (str ''123'') = False"
    "rx_test noflags rx_two_letters (str ''123'') = False"
    by (simp_all add: letter_cs_def item_rx rx_notation rx_sets rx_run)
  have 3: "table_row numericLine None = None"
    by (simp add: numericLine_def table_row_def inferTaxPct_def table_rx item_rx item_run
        num_run rx_notation rx_sets rx_run)
  have 4: "kw_hits tableKws (toLowerCase (str ''Item  Total'')) = 2"
    by (simp add: kw_hits_def table_rx str_run)
  have 5: "rx_test iflag tableFooterRx (trim numericLine) = False"
    by (simp add: numericLine_def table_rx trim_def is_space_def rx_notation rx_sets rx_run)
  have "extractFromColumnTable [str ''Item  Total'', numericLine] = []"
    by (simp add: extractFromColumnTable_def 3 4 5)
  with 1 2 3 show ?thesis by simp
qed

end
